(* ===== verification/Prelude.thy ===== *)
theory Prelude
  imports Complex_Main "HOL-Library.List_Lexorder" "HOL-Library.Char_ord" "HOL-Library.Product_Lexorder"
begin

text \<open>
  Shared vocabulary of the grill-logger development: the types that stand for Go's
  \<open>time.Time\<close>, \<open>float64\<close> and \<open>int\<close>, the error values that the Go code passes
  around as \<open>error\<close>, the three-way outcome of a Go call (a value, an error, or a
  panic), the collections of facts the component theories extend, and the generic
  lemmas on lists that the component proofs share.
\<close>

section \<open>Collections\<close>

named_theorems model_eval "definitions unfolded to evaluate the model on concrete inputs"
named_theorems wf_pres "lemmas that an operation keeps the store well-formed"
named_theorems stamp_pres "lemmas that an operation stores only the times it is given"

section \<open>Types standing for Go's types\<close>

text \<open>
  A Go \<open>time.Time\<close> in UTC is modelled by its count of nanoseconds since the Unix
  epoch. Go's zero \<open>time.Time\<close> (January 1 of year 1) is that many nanoseconds
  before the epoch. A \<open>float64\<close> is only stored and echoed by the program, never
  computed with, so it is modelled by \<open>real\<close>. Go's \<open>int\<close> and \<open>int64\<close> are
  \<open>int\<close>; their 64-bit range matters only where text is parsed into them
  (theory Strconv), and is written out there.
\<close>

type_synonym time = int
type_synonym float64 = real

definition go_zero_time :: time where
  "go_zero_time = -62135596800 * 1000000000"

definition int64_min :: int where
  "int64_min = - (2 ^ 63)"

definition int64_max :: int where
  "int64_max = 2 ^ 63 - 1"

section \<open>Errors and outcomes\<close>

text \<open>
  Every \<open>error\<close> value the program can meet, by where it comes from. The Go code
  never inspects an error's kind: it only returns it or prints its text into the
  response (\<open>error_text\<close>).
  \<^item> \<open>Db_error msg\<close>: an error reported by the store or the driver;
  \<^item> \<open>Deadline_exceeded\<close>: the 10-second context of \<open>timeoutContext\<close> expired;
  \<^item> \<open>No_rows\<close>: \<open>pgx.ErrNoRows\<close>, a \<open>QueryRow\<close> that found no row;
  \<^item> \<open>Syntax_error s\<close>, \<open>Range_error s\<close>: \<open>strconv.Atoi\<close> rejected \<open>s\<close>;
  \<^item> \<open>Body_error msg\<close>, \<open>Json_error msg\<close>: reading or decoding the request body;
  \<^item> \<open>New_error msg\<close>: \<open>errors.New(msg)\<close> in the handlers.
\<close>

datatype error =
    Db_error string
  | Deadline_exceeded
  | No_rows
  | Syntax_error string
  | Range_error string
  | Body_error string
  | Json_error string
  | New_error string

fun error_text :: "error \<Rightarrow> string" where
  "error_text (Db_error m) = m"
| "error_text Deadline_exceeded = ''timeout: context deadline exceeded''"
| "error_text No_rows = ''no rows in result set''"
| "error_text (Syntax_error s) = ''strconv.Atoi: parsing \"'' @ s @ ''\": invalid syntax''"
| "error_text (Range_error s) = ''strconv.Atoi: parsing \"'' @ s @ ''\": value out of range''"
| "error_text (Body_error m) = m"
| "error_text (Json_error m) = m"
| "error_text (New_error m) = m"

text \<open>
  A Go call either returns a value, returns a non-nil error, or panics (a nil pointer
  dereference); a panic unwinds to the HTTP server, which drops the connection.
\<close>

datatype 'a outcome = Ok 'a | Err error | Panic

section \<open>Generic lemmas on lists\<close>

text \<open>\<open>ORDER BY c DESC\<close> is modelled as the stable sort by \<open>c\<close>, reversed.\<close>

lemma sorted_wrt_rev_sort_key:
  "sorted_wrt (\<lambda>x y. f y \<le> f x) (rev (sort_key f xs))"
proof -
  have "sorted_wrt (\<lambda>x y. f x \<le> f y) (sort_key f xs)"
    using sorted_sort_key [of f xs] by (simp add: sorted_map)
  then show ?thesis by (simp add: sorted_wrt_rev)
qed

lemma sorted_wrt_take_drop:
  "sorted_wrt P xs \<Longrightarrow> sorted_wrt P (take n (drop m xs))"
  by (simp add: sorted_wrt_take sorted_wrt_drop)

lemma set_take_drop_subset: "set (take n (drop m xs)) \<subseteq> set xs"
  by (meson order_trans set_drop_subset set_take_subset)

section \<open>Generic lemmas on options\<close>

lemma pred_option_weaken: "pred_option P x \<Longrightarrow> (\<And>c. P c \<Longrightarrow> Q c) \<Longrightarrow> pred_option Q x"
  by (cases x) auto

section \<open>More generic lemmas on lists\<close>

lemma those_map_Some: "(\<And>x. x \<in> set xs \<Longrightarrow> f x = Some (g x)) \<Longrightarrow> those (map f xs) = Some (map g xs)"
  by (induction xs) auto

lemma map_nat_upto: "map nat [int a .. int b] = [a ..< Suc b]"
  by (rule nth_equalityI) (simp_all del: upt_Suc add: nth_upto)

lemma take_cases_prefix:
  "rows = [] \<or> rows = xs \<or> (\<exists>k. rows = take k xs) \<Longrightarrow> \<exists>k. rows = take k xs"
  by (metis take_0 take_all order_refl)

lemma filter_unique:
  "distinct (map f xs) \<Longrightarrow> x \<in> set xs \<Longrightarrow> filter (\<lambda>y. f y = f x) xs = [x]"
proof (induction xs)
  case (Cons a xs)
  show ?case
  proof (cases "a = x")
    case True
    with Cons.prems have "\<forall>y \<in> set xs. f y \<noteq> f x" by (auto simp: image_iff)
    with True show ?thesis by (simp add: filter_empty_conv)
  next
    case False
    with Cons.prems have x: "x \<in> set xs" by simp
    with Cons.prems have "f a \<noteq> f x" by (auto simp: image_iff)
    with x Cons show ?thesis by simp
  qed
qed simp

end
