(* ===== verification/Types.thy ===== *)
theory Types
  imports Prelude
begin

text \<open>
  The data model of \<open>src/server/types.go\<close>: one record per Go struct, with the
  struct's fields in their order. Field names keep the Go names; \<open>Id\<close> is
  \<open>rId\<close> in \<open>Reading\<close> and \<open>cId\<close> in \<open>Cook\<close> (HOL's \<open>Id\<close> is the identity
  relation, and the two structs share the name), and \<open>HTTPReqInfo.method\<close> and
  \<open>HTTPReqInfo.size\<close> are \<open>req_method\<close> and \<open>req_size\<close>. Go's zero values are the records \<open>zero_reading\<close>, \<open>zero_cook\<close>
  and \<open>zero_update\<close>: \<open>var r Reading\<close> and \<open>Cook{}\<close> start from them.
\<close>

record reading =
  rId :: int
  Timestamp :: time
  Uptime :: int
  MeatTemp :: float64
  SmokeTemp :: float64

record cook =
  cId :: int
  Created :: time
  Description :: string
  Readings :: "reading list option"

record cook_reading_update =
  Add :: "int list"
  Remove :: "int list"

record message =
  Error :: bool
  Message :: string

record http_req_info =
  req_method :: string
  uri :: string
  referer :: string
  ipaddr :: string
  code :: int
  req_size :: int
  duration :: int
  userAgent :: string

text \<open>
  \<open>Readings\<close> is a Go slice, which is either \<open>nil\<close> (encoded as JSON \<open>null\<close>) or a
  list; the model keeps the difference as \<open>None\<close> against \<open>Some []\<close>, since
  \<open>getCooksInRange\<close> leaves it \<open>nil\<close> and \<open>getCookById\<close> sets it to a list.
\<close>

definition zero_reading :: reading where
  "zero_reading = \<lparr>rId = 0, Timestamp = go_zero_time, Uptime = 0, MeatTemp = 0, SmokeTemp = 0\<rparr>"

definition zero_cook :: cook where
  "zero_cook = \<lparr>cId = 0, Created = go_zero_time, Description = [], Readings = None\<rparr>"

definition zero_update :: cook_reading_update where
  "zero_update = \<lparr>Add = [], Remove = []\<rparr>"

end
