(* ===== verification/Strconv.thy ===== *)
theory Strconv
  imports Prelude "HOL-Library.Word"
begin

text \<open>
  Go's standard-library number conversions that the program calls: \<open>strconv.Atoi\<close>
  (on the path variable \<open>{id}\<close> in \<open>api.go\<close>) and the \<open>%d\<close> verb of
  \<open>fmt.Sprintf\<close> (in \<open>makeWhereInVarsForArray\<close>). They are library code, translated
  from Go's \<open>strconv/atoi.go\<close> and \<open>fmt\<close>: \<open>Atoi\<close> takes a fast path for strings
  of 1 to 18 bytes and otherwise calls \<open>ParseInt(s, 10, 0)\<close>, which calls
  \<open>ParseUint\<close>. The lemmas show that the fast path agrees with the slow path, that
  the accepted values are the 64-bit ones, and that printing then parsing is the
  identity.
\<close>

section \<open>Digits\<close>

definition is_digit :: "char \<Rightarrow> bool" where
  "is_digit c \<longleftrightarrow> 48 \<le> (of_char c :: nat) \<and> (of_char c :: nat) \<le> 57"

definition digit_val :: "char \<Rightarrow> nat" where
  "digit_val c = (of_char c :: nat) - 48"

text \<open>The value of a digit string read from the accumulator \<open>n\<close>, left to right.\<close>

definition digits_from :: "nat \<Rightarrow> string \<Rightarrow> nat" where
  "digits_from n cs = foldl (\<lambda>a c. a * 10 + digit_val c) n cs"

text \<open>
  The fast path computes \<open>ch -= '0'\<close> on a \<open>byte\<close> and tests \<open>ch > 9\<close>: a
  character below \<open>'0'\<close> wraps around to a value above 9.
\<close>

definition byte_digit :: "char \<Rightarrow> 8 word" where
  "byte_digit c = of_nat (of_char c) - 48"

section \<open>The slow path: ParseUint and ParseInt in base 10\<close>

datatype num_err = Err_syntax | Err_range

definition uint64_max :: nat where
  "uint64_max = 2 ^ 64 - 1"

definition uint64_cutoff :: nat where
  "uint64_cutoff = uint64_max div 10 + 1"

text \<open>
  The loop of \<open>ParseUint\<close>: a non-digit is a syntax error; before multiplying, an
  accumulator at or above the cutoff is a range error, and so is a sum above the
  maximum. The loop returns at the first error, so a too-long string with a bad
  character after the overflow point is a range error.
\<close>

fun parse_uint_loop :: "nat \<Rightarrow> string \<Rightarrow> num_err + nat" where
  "parse_uint_loop n [] = Inr n"
| "parse_uint_loop n (c # cs) =
     (if \<not> is_digit c then Inl Err_syntax
      else if uint64_cutoff \<le> n then Inl Err_range
      else (let n1 = n * 10 + digit_val c in
            if uint64_max < n1 then Inl Err_range else parse_uint_loop n1 cs))"

definition parse_uint :: "string \<Rightarrow> num_err + nat" where
  "parse_uint s = (if s = [] then Inl Err_syntax else parse_uint_loop 0 s)"

definition split_sign :: "string \<Rightarrow> bool \<times> string" where
  "split_sign s =
     (case s of
        c # t \<Rightarrow> (if c = CHR ''+'' then (False, t) else if c = CHR ''-'' then (True, t) else (False, s))
      | [] \<Rightarrow> (False, []))"

text \<open>\<open>ParseInt(s, 10, 0)\<close> with Go's \<open>int\<close> of 64 bits: the cutoff is \<open>2^63\<close>.\<close>

definition parse_int :: "string \<Rightarrow> num_err + int" where
  "parse_int s =
     (if s = [] then Inl Err_syntax
      else (let (neg, t) = split_sign s in
            case parse_uint t of
              Inl Err_syntax \<Rightarrow> Inl Err_syntax
            | Inl Err_range \<Rightarrow> Inl Err_range
            | Inr un \<Rightarrow>
                (if \<not> neg \<and> 2 ^ 63 \<le> un then Inl Err_range
                 else if neg \<and> 2 ^ 63 < un then Inl Err_range
                 else Inr (if neg then - int un else int un))))"

text \<open>Atoi renames the function in the error and keeps the whole input as its number.\<close>

definition atoi_slow :: "string \<Rightarrow> error + int" where
  "atoi_slow s =
     (case parse_int s of
        Inl Err_syntax \<Rightarrow> Inl (Syntax_error s)
      | Inl Err_range \<Rightarrow> Inl (Range_error s)
      | Inr i \<Rightarrow> Inr i)"

section \<open>The fast path\<close>

fun fast_loop :: "nat \<Rightarrow> string \<Rightarrow> nat option" where
  "fast_loop n [] = Some n"
| "fast_loop n (c # cs) =
     (let ch = byte_digit c in
      if 9 < ch then None else fast_loop (n * 10 + unat ch) cs)"

definition atoi_fast :: "string \<Rightarrow> error + int" where
  "atoi_fast s =
     (let (neg, t) = split_sign s in
      if t = [] then Inl (Syntax_error s)
      else (case fast_loop 0 t of
              None \<Rightarrow> Inl (Syntax_error s)
            | Some n \<Rightarrow> Inr (if neg then - int n else int n)))"

definition atoi :: "string \<Rightarrow> error + int" where
  "atoi s = (if 0 < length s \<and> length s < 19 then atoi_fast s else atoi_slow s)"

section \<open>Printing with \<open>%d\<close>\<close>

fun dec_nat :: "nat \<Rightarrow> string" where
  "dec_nat n = (if n < 10 then [char_of (48 + n)] else dec_nat (n div 10) @ [char_of (48 + n mod 10)])"

declare dec_nat.simps [simp del]

definition itoa :: "int \<Rightarrow> string" where
  "itoa i = (if i < 0 then CHR ''-'' # dec_nat (nat (- i)) else dec_nat (nat i))"

section \<open>Properties\<close>

lemmas strconv_eval [model_eval] = uint64_max_def uint64_cutoff_def is_digit_def digit_val_def
  byte_digit_def split_sign_def parse_uint_def parse_int_def atoi_slow_def atoi_fast_def atoi_def itoa_def

subsection \<open>The byte arithmetic of the fast path\<close>

lemma unat_byte_digit:
  "unat (byte_digit c) = (if 48 \<le> (of_char c :: nat) then of_char c - 48 else of_char c + 208)"
proof -
  have lt: "(of_char c :: nat) < 256" by simp
  then have x: "unat (of_nat (of_char c) :: 8 word) = of_char c"
    by (simp add: unat_of_nat)
  have y: "unat (48 :: 8 word) = 48" by simp
  show ?thesis
    unfolding byte_digit_def unat_sub_if' x y by simp
qed

lemma byte_digit_le_9: "byte_digit c \<le> 9 \<longleftrightarrow> is_digit c"
proof -
  have "byte_digit c \<le> 9 \<longleftrightarrow> unat (byte_digit c) \<le> 9"
    by (simp add: word_le_nat_alt)
  also have "\<dots> \<longleftrightarrow> is_digit c"
    using nat_of_char_less_256 [of c] by (auto simp: unat_byte_digit is_digit_def)
  finally show ?thesis .
qed

lemma unat_byte_digit_digit: "is_digit c \<Longrightarrow> unat (byte_digit c) = digit_val c"
  by (simp add: unat_byte_digit is_digit_def digit_val_def)

subsection \<open>Digit strings\<close>

lemma digits_from_Cons [simp]: "digits_from n (c # cs) = digits_from (n * 10 + digit_val c) cs"
  by (simp add: digits_from_def)

lemma digits_from_Nil [simp]: "digits_from n [] = n"
  by (simp add: digits_from_def)

lemma digits_from_snoc: "digits_from n (cs @ [c]) = digits_from n cs * 10 + digit_val c"
  by (simp add: digits_from_def)

lemma digits_from_ge: "n \<le> digits_from n cs"
proof (induction cs arbitrary: n)
  case Nil then show ?case by simp
next
  case (Cons c cs)
  have "n \<le> n * 10 + digit_val c" by simp
  also have "\<dots> \<le> digits_from (n * 10 + digit_val c) cs" by (rule Cons.IH)
  finally show ?case by simp
qed

lemma byte_digit_gt_9: "9 < byte_digit c \<longleftrightarrow> \<not> is_digit c"
  by (simp add: not_le [symmetric] byte_digit_le_9)

lemma fast_loop_eq:
  "fast_loop n cs = (if list_all is_digit cs then Some (digits_from n cs) else None)"
  by (induction cs arbitrary: n) (auto simp: Let_def byte_digit_gt_9 unat_byte_digit_digit)

lemma digit_val_lt: "is_digit c \<Longrightarrow> digit_val c < 10"
  unfolding is_digit_def digit_val_def by arith

lemma digits_from_bound:
  "list_all is_digit cs \<Longrightarrow> n < 10 ^ k \<Longrightarrow> digits_from n cs < 10 ^ (k + length cs)"
proof (induction cs arbitrary: n k)
  case Nil then show ?case by simp
next
  case (Cons c cs)
  from Cons.prems have d: "digit_val c < 10" by (simp add: digit_val_lt)
  have "n * 10 + digit_val c < 10 ^ Suc k"
    using Cons.prems(2) d by simp
  with Cons.prems(1) have "digits_from (n * 10 + digit_val c) cs < 10 ^ (Suc k + length cs)"
    by (intro Cons.IH) simp_all
  then show ?case by simp
qed

lemma parse_uint_loop_digits:
  "list_all is_digit cs \<Longrightarrow> digits_from n cs \<le> uint64_max \<Longrightarrow> parse_uint_loop n cs = Inr (digits_from n cs)"
proof (induction cs arbitrary: n)
  case Nil then show ?case by simp
next
  case (Cons c cs)
  let ?n1 = "n * 10 + digit_val c"
  have le: "?n1 \<le> uint64_max"
    using digits_from_ge [of ?n1 cs] Cons.prems(2) by simp
  then have "n < uint64_cutoff" by (simp add: uint64_cutoff_def)
  with Cons.prems le show ?case by (simp add: Cons.IH)
qed

lemma parse_uint_loop_short:
  "n < 10 ^ k \<Longrightarrow> length cs + k \<le> 19 \<Longrightarrow>
   parse_uint_loop n cs = (if list_all is_digit cs then Inr (digits_from n cs) else Inl Err_syntax)"
proof (induction cs arbitrary: n k)
  case Nil then show ?case by simp
next
  case (Cons c cs)
  show ?case
  proof (cases "is_digit c")
    case False then show ?thesis by simp
  next
    case True
    have k: "k \<le> 18" using Cons.prems(2) by simp
    have "n < 10 ^ 18" using Cons.prems(1) power_increasing [OF k, of "10::nat"] by simp
    then have cut: "n < uint64_cutoff" by (simp add: uint64_cutoff_def uint64_max_def)
    have n1: "n * 10 + digit_val c < 10 ^ Suc k"
      using Cons.prems(1) digit_val_lt [OF True] by simp
    have "(10::nat) ^ Suc k \<le> 10 ^ 19" using k by (intro power_increasing) simp_all
    with n1 have "n * 10 + digit_val c \<le> uint64_max" by (simp add: uint64_max_def)
    moreover have "length cs + Suc k \<le> 19" using Cons.prems(2) by simp
    ultimately show ?thesis
      using True cut Cons.IH [OF n1] by (simp add: not_less)
  qed
qed

subsection \<open>Fast path against slow path\<close>

lemma split_sign_length: "split_sign s = (neg, t) \<Longrightarrow> length t \<le> length s"
  by (auto simp: split_sign_def split: list.splits if_splits)

lemma split_sign_minus [simp]: "split_sign (CHR ''-'' # t) = (True, t)"
  by (simp add: split_sign_def)

lemma split_sign_digit: "is_digit c \<Longrightarrow> split_sign (c # t) = (False, c # t)"
  by (auto simp: split_sign_def is_digit_def)

lemma parse_uint_Nil [simp]: "parse_uint [] = Inl Err_syntax"
  by (simp add: parse_uint_def)

lemma atoi_fast_eq_slow:
  assumes "0 < length s" and "length s < 19"
  shows "atoi_fast s = atoi_slow s"
proof -
  obtain neg t where st: "split_sign s = (neg, t)" by (cases "split_sign s")
  have len: "length t \<le> 18" using split_sign_length [OF st] assms(2) by simp
  have pu: "parse_uint t = (if list_all is_digit t then Inr (digits_from 0 t) else Inl Err_syntax)"
    if "t \<noteq> []"
    using that parse_uint_loop_short [of 0 0 t] len by (simp add: parse_uint_def)
  have small: "digits_from 0 t < 2 ^ 63" if "list_all is_digit t"
  proof -
    have "digits_from 0 t < 10 ^ length t" using digits_from_bound [OF that, of 0 0] by simp
    also have "(10::nat) ^ length t \<le> 10 ^ 18" using len by (intro power_increasing) simp_all
    finally show ?thesis by simp
  qed
  show ?thesis
  proof (cases "t = []")
    case True
    with assms st show ?thesis by (simp add: atoi_fast_def atoi_slow_def parse_int_def)
  next
    case False
    with assms st pu small show ?thesis
      by (auto simp: atoi_fast_def atoi_slow_def parse_int_def fast_loop_eq not_le)
  qed
qed

lemma atoi_eq_slow: "atoi s = atoi_slow s"
proof (cases "0 < length s \<and> length s < 19")
  case True then show ?thesis by (simp add: atoi_def atoi_fast_eq_slow)
next
  case False then show ?thesis by (auto simp: atoi_def)
qed

subsection \<open>Printing then parsing\<close>

lemma digit_char_of: "k < 10 \<Longrightarrow> is_digit (char_of (48 + k)) \<and> digit_val (char_of (48 + k)) = k"
  by (simp add: is_digit_def digit_val_def)

lemma dec_nat_props:
  "dec_nat n \<noteq> [] \<and> list_all is_digit (dec_nat n) \<and> digits_from 0 (dec_nat n) = n"
proof (induction n rule: dec_nat.induct)
  case (1 n)
  show ?case
  proof (cases "n < 10")
    case True
    then show ?thesis using digit_char_of [OF True] by (simp add: dec_nat.simps [of n])
  next
    case False
    have m: "n mod 10 < 10" by simp
    from False "1.IH" have "digits_from 0 (dec_nat (n div 10)) = n div 10"
      and "list_all is_digit (dec_nat (n div 10))" by simp_all
    with False digit_char_of [OF m] show ?thesis
      by (simp add: dec_nat.simps [of n] digits_from_snoc)
  qed
qed

lemma parse_uint_dec_nat: "n \<le> uint64_max \<Longrightarrow> parse_uint (dec_nat n) = Inr n"
  using dec_nat_props [of n] parse_uint_loop_digits [of "dec_nat n" 0]
  by (simp add: parse_uint_def)

lemma dec_nat_Cons: "\<exists>c cs. dec_nat n = c # cs \<and> is_digit c"
  using dec_nat_props [of n] by (cases "dec_nat n") auto

text \<open>
  Printing a 64-bit integer with \<open>%d\<close> and parsing it back with
  \<open>strconv.Atoi\<close> gives the integer back.
\<close>

lemma atoi_itoa_roundtrip:
  assumes "int64_min \<le> i" and "i \<le> int64_max"
  shows "atoi (itoa i) = Inr i"
proof (cases "i < 0")
  case True
  have "nat (- i) \<le> 2 ^ 63" using assms(1) True by (simp add: int64_min_def nat_le_iff)
  then have le: "nat (- i) \<le> uint64_max" by (simp add: uint64_max_def)
  have "\<not> 2 ^ 63 < nat (- i)" using assms(1) by (simp add: int64_min_def not_less nat_le_iff)
  with True le show ?thesis
    by (simp add: atoi_eq_slow atoi_slow_def parse_int_def itoa_def parse_uint_dec_nat)
next
  case False
  obtain c cs where d: "dec_nat (nat i) = c # cs" "is_digit c" using dec_nat_Cons by blast
  have lt: "nat i < 2 ^ 63" using assms(2) False by (simp add: int64_max_def nat_less_iff)
  then have le: "nat i \<le> uint64_max" by (simp add: uint64_max_def)
  have "parse_uint (c # cs) = Inr (nat i)" using parse_uint_dec_nat [OF le] d(1) by simp
  with False d lt show ?thesis
    by (simp add: atoi_eq_slow atoi_slow_def parse_int_def itoa_def split_sign_digit not_le)
qed

text \<open>
  Every integer that \<open>strconv.Atoi\<close> accepts lies in Go's 64-bit
  \<open>int\<close> range; larger or smaller numbers are range errors.
\<close>

lemma atoi_result_int64:
  assumes "atoi s = Inr i"
  shows "int64_min \<le> i \<and> i \<le> int64_max"
proof -
  from assms have "parse_int s = Inr i"
    by (auto simp: atoi_eq_slow atoi_slow_def split: sum.splits num_err.splits)
  then show ?thesis
    by (auto simp: parse_int_def int64_min_def int64_max_def split: prod.splits sum.splits num_err.splits if_splits)
qed

text \<open>
  \<open>strconv.Atoi\<close>, with its fast path for short strings, returns on every input
  exactly what the reference path through \<open>ParseInt(s, 10, 0)\<close> returns: the same
  value, or the same kind of error with the whole input as its number.
\<close>

lemma atoi_agrees_parse_int:
  "atoi s = (case parse_int s of
               Inl Err_syntax \<Rightarrow> Inl (Syntax_error s)
             | Inl Err_range \<Rightarrow> Inl (Range_error s)
             | Inr i \<Rightarrow> Inr i)"
  by (simp add: atoi_eq_slow atoi_slow_def)

end
