(* ===== verification/Store.thy ===== *)
theory Store
  imports Types Strconv
begin

text \<open>
  The relational store and the driver, which the program only calls: the PostgreSQL
  tables of the schema (spec section 6), the statements that \<open>database.go\<close> sends,
  how the server prepares and executes them, and the three calls of the \<open>pgxpool\<close>
  driver the code uses (\<open>Exec\<close>, \<open>QueryRow\<close>, \<open>Query\<close>) with their error
  behaviour. This is an environment model, written from the schema, PostgreSQL's
  documented semantics and the pgx v4 API; the repository's own code starts in theory
  Database.
\<close>

section \<open>Tables\<close>

record reading_row =
  row_id :: int
  row_timestamp :: time
  row_uptime :: int
  row_meat_temp :: float64
  row_smoke_temp :: float64
  row_cook_id :: "int option"

record cook_row =
  cook_row_id :: int
  cook_row_created :: time
  cook_row_description :: string

text \<open>
  A table is the list of its rows in insertion order, which is the order the model
  returns for a \<open>SELECT\<close> without \<open>ORDER BY\<close> (PostgreSQL leaves that order
  unspecified; no lemma depends on it). \<open>readings_seq\<close> and \<open>cooks_seq\<close> are the
  last values of the \<open>serial\<close> sequences behind the \<open>id\<close> columns.
\<close>

record db =
  readings_tbl :: "reading_row list"
  cooks_tbl :: "cook_row list"
  readings_seq :: int
  cooks_seq :: int

definition empty_db :: db where
  "empty_db = \<lparr>readings_tbl = [], cooks_tbl = [], readings_seq = 0, cooks_seq = 0\<rparr>"

datatype sql_value = V_int int | V_time time | V_float float64 | V_text string | V_null

section \<open>Statements\<close>

text \<open>
  One constructor per SQL text of \<open>database.go\<close>; the parts the code builds at run
  time are arguments: the placeholder list inside \<open>IN (...)\<close> and the column of
  \<open>ORDER BY\<close> in the cooks query.
  \<^item> \<open>Insert_reading\<close>: \<open>INSERT INTO readings (timestamp, uptime, meat_temp,
    smoke_temp) VALUES ($1,$2,$3,$4) RETURNING "id"\<close>;
  \<^item> \<open>Insert_cook\<close>: \<open>INSERT INTO cooks (description, created) VALUES ($1, $2)
    RETURNING "id"\<close>;
  \<^item> \<open>Update_cook\<close>: \<open>UPDATE cooks SET description = $1 WHERE id = $2\<close>;
  \<^item> \<open>Set_cook_in v\<close>: \<open>UPDATE readings SET cook_id = $1 WHERE id IN (v)\<close>;
  \<^item> \<open>Clear_cook_in v\<close>: \<open>UPDATE readings SET cook_id = NULL WHERE id IN (v)\<close>;
  \<^item> \<open>Select_orphans\<close>: \<open>SELECT id, timestamp, uptime, meat_temp, smoke_temp FROM
    readings WHERE cook_id IS NULL ORDER BY timestamp DESC LIMIT $1 OFFSET $2\<close>;
  \<^item> \<open>Select_cooks c\<close>: \<open>SELECT id, created, description FROM cooks ORDER BY c DESC
    LIMIT $1 OFFSET $2\<close>;
  \<^item> \<open>Select_cook\<close>: \<open>SELECT description, created FROM cooks WHERE id = $1\<close>;
  \<^item> \<open>Select_cook_readings\<close>: \<open>SELECT id, timestamp, uptime, meat_temp, smoke_temp
    FROM readings WHERE cook_id = $1\<close>.
\<close>

datatype stmt =
    Insert_reading
  | Insert_cook
  | Update_cook
  | Set_cook_in string
  | Clear_cook_in string
  | Select_orphans
  | Select_cooks string
  | Select_cook
  | Select_cook_readings

section \<open>Preparing a statement\<close>

text \<open>The items of a comma-separated list, as the SQL lexer reads \<open>IN (...)\<close>.\<close>

fun split_commas :: "string \<Rightarrow> string list" where
  "split_commas [] = [[]]"
| "split_commas (c # cs) =
     (if c = CHR '','' then [] # split_commas cs
      else (case split_commas cs of w # ws \<Rightarrow> (c # w) # ws | [] \<Rightarrow> [[c]]))"

definition parse_param :: "string \<Rightarrow> nat option" where
  "parse_param s =
     (case s of
        c # ds \<Rightarrow> (if c = CHR ''$'' \<and> ds \<noteq> [] \<and> list_all is_digit ds then Some (digits_from 0 ds) else None)
      | [] \<Rightarrow> None)"

text \<open>The parameter numbers of an \<open>IN\<close> list; \<open>None\<close> is a syntax error (\<open>IN ()\<close> among them).\<close>

definition in_params :: "string \<Rightarrow> nat list option" where
  "in_params s = (if s = [] then None else those (map parse_param (split_commas s)))"

definition syntax_error :: error where
  "syntax_error = Db_error ''ERROR: syntax error at or near \")\" (SQLSTATE 42601)''"

text \<open>The parameter numbers a statement refers to, in the order they occur.\<close>

fun stmt_refs :: "stmt \<Rightarrow> nat list option" where
  "stmt_refs Insert_reading = Some [1, 2, 3, 4]"
| "stmt_refs Insert_cook = Some [1, 2]"
| "stmt_refs Update_cook = Some [1, 2]"
| "stmt_refs (Set_cook_in v) = map_option ((#) 1) (in_params v)"
| "stmt_refs (Clear_cook_in v) = in_params v"
| "stmt_refs Select_orphans = Some [1, 2]"
| "stmt_refs (Select_cooks c) = Some [1, 2]"
| "stmt_refs Select_cook = Some [1]"
| "stmt_refs Select_cook_readings = Some [1]"

text \<open>
  The server numbers the parameters up to the highest one referred to, and must be able
  to type each of them, so none below the highest may be missing.
\<close>

definition param_count :: "nat list \<Rightarrow> error + nat" where
  "param_count refs =
     (if 0 \<in> set refs then Inl (Db_error ''ERROR: there is no parameter $0 (SQLSTATE 42P02)'')
      else (let n = fold max refs 0 in
            case filter (\<lambda>k. k \<notin> set refs) [1..<Suc n] of
              [] \<Rightarrow> Inr n
            | k # _ \<Rightarrow> Inl (Db_error (''ERROR: could not determine data type of parameter $'' @
                                        dec_nat k @ '' (SQLSTATE 42P18)''))))"

definition cook_columns :: "string list" where
  "cook_columns = [''id'', ''created'', ''description'']"

definition unknown_column :: "string \<Rightarrow> error" where
  "unknown_column c = Db_error (''ERROR: column \"'' @ c @ ''\" does not exist (SQLSTATE 42703)'')"

text \<open>Parsing and analysis: the number of parameters the prepared statement takes.\<close>

definition prepare :: "stmt \<Rightarrow> error + nat" where
  "prepare st =
     (case stmt_refs st of
        None \<Rightarrow> Inl syntax_error
      | Some refs \<Rightarrow>
          (case st of
             Select_cooks c \<Rightarrow> (if c \<in> set cook_columns then param_count refs else Inl (unknown_column c))
           | _ \<Rightarrow> param_count refs))"

section \<open>Executing a prepared statement\<close>

definition bad_param :: error where
  "bad_param = Db_error ''ERROR: invalid input syntax for parameter (SQLSTATE 22P02)''"

definition fk_violation :: error where
  "fk_violation = Db_error (''ERROR: insert or update on table \"readings\" violates foreign key '' @
                            ''constraint \"readings_cook_id_fkey\" (SQLSTATE 23503)'')"

fun int_param :: "sql_value \<Rightarrow> int option" where
  "int_param (V_int i) = Some i"
| "int_param _ = None"

definition reading_values :: "reading_row \<Rightarrow> sql_value list" where
  "reading_values r = [V_int (row_id r), V_time (row_timestamp r), V_int (row_uptime r),
                       V_float (row_meat_temp r), V_float (row_smoke_temp r)]"

definition cook_values :: "cook_row \<Rightarrow> sql_value list" where
  "cook_values c = [V_int (cook_row_id c), V_time (cook_row_created c), V_text (cook_row_description c)]"

definition cook_ids :: "db \<Rightarrow> int list" where
  "cook_ids d = map cook_row_id (cooks_tbl d)"

fun exec_insert_reading :: "sql_value list \<Rightarrow> db \<Rightarrow> error + sql_value list list \<times> db" where
  "exec_insert_reading [V_time ts, V_int up, V_float mt, V_float st] d =
     (let i = readings_seq d + 1 in
      Inr ([[V_int i]],
           d\<lparr>readings_tbl := readings_tbl d @
                [\<lparr>row_id = i, row_timestamp = ts, row_uptime = up, row_meat_temp = mt,
                  row_smoke_temp = st, row_cook_id = None\<rparr>],
             readings_seq := i\<rparr>))"
| "exec_insert_reading _ d = Inl bad_param"

fun exec_insert_cook :: "sql_value list \<Rightarrow> db \<Rightarrow> error + sql_value list list \<times> db" where
  "exec_insert_cook [V_text desc, V_time cr] d =
     (let i = cooks_seq d + 1 in
      Inr ([[V_int i]],
           d\<lparr>cooks_tbl := cooks_tbl d @
                [\<lparr>cook_row_id = i, cook_row_created = cr, cook_row_description = desc\<rparr>],
             cooks_seq := i\<rparr>))"
| "exec_insert_cook _ d = Inl bad_param"

fun exec_update_cook :: "sql_value list \<Rightarrow> db \<Rightarrow> error + sql_value list list \<times> db" where
  "exec_update_cook [V_text desc, V_int i] d =
     Inr ([], d\<lparr>cooks_tbl := map (\<lambda>c. if cook_row_id c = i then c\<lparr>cook_row_description := desc\<rparr> else c)
                               (cooks_tbl d)\<rparr>)"
| "exec_update_cook _ d = Inl bad_param"

text \<open>The values bound to the placeholders \<open>$k\<close> of a list, in its order.\<close>

definition bind_params :: "sql_value list \<Rightarrow> nat list \<Rightarrow> sql_value list option" where
  "bind_params ps ks =
     (if list_all (\<lambda>k. 1 \<le> k \<and> k \<le> length ps) ks then Some (map (\<lambda>k. ps ! (k - 1)) ks) else None)"

definition in_ids :: "string \<Rightarrow> sql_value list \<Rightarrow> int list option" where
  "in_ids v ps =
     (case in_params v of
        None \<Rightarrow> None
      | Some ks \<Rightarrow> (case bind_params ps ks of None \<Rightarrow> None | Some vs \<Rightarrow> those (map int_param vs)))"

definition set_cook_id :: "int list \<Rightarrow> int option \<Rightarrow> reading_row list \<Rightarrow> reading_row list" where
  "set_cook_id ids c rs = map (\<lambda>r. if row_id r \<in> set ids then r\<lparr>row_cook_id := c\<rparr> else r) rs"

text \<open>
  The foreign key is checked on every row the update writes: it fails only when some
  row matches and the cook does not exist.
\<close>

definition exec_set_cook :: "string \<Rightarrow> sql_value list \<Rightarrow> db \<Rightarrow> error + sql_value list list \<times> db" where
  "exec_set_cook v ps d =
     (case (ps, in_ids v ps) of
        (V_int c # _, Some ids) \<Rightarrow>
          (if (\<exists>r \<in> set (readings_tbl d). row_id r \<in> set ids) \<and> c \<notin> set (cook_ids d)
           then Inl fk_violation
           else Inr ([], d\<lparr>readings_tbl := set_cook_id ids (Some c) (readings_tbl d)\<rparr>))
      | _ \<Rightarrow> Inl bad_param)"

definition exec_clear_cook :: "string \<Rightarrow> sql_value list \<Rightarrow> db \<Rightarrow> error + sql_value list list \<times> db" where
  "exec_clear_cook v ps d =
     (case in_ids v ps of
        Some ids \<Rightarrow> Inr ([], d\<lparr>readings_tbl := set_cook_id ids None (readings_tbl d)\<rparr>)
      | None \<Rightarrow> Inl bad_param)"

text \<open>\<open>LIMIT\<close> and \<open>OFFSET\<close> are evaluated when the executor starts, the offset first.\<close>

fun limit_offset :: "sql_value list \<Rightarrow> error + nat \<times> nat" where
  "limit_offset [V_int lmt, V_int off] =
     (if off < 0 then Inl (Db_error ''ERROR: OFFSET must not be negative (SQLSTATE 2201X)'')
      else if lmt < 0 then Inl (Db_error ''ERROR: LIMIT must not be negative (SQLSTATE 2201W)'')
      else Inr (nat lmt, nat off))"
| "limit_offset _ = Inl bad_param"

definition orphans :: "db \<Rightarrow> reading_row list" where
  "orphans d = rev (sort_key row_timestamp (filter (\<lambda>r. row_cook_id r = None) (readings_tbl d)))"

definition exec_select_orphans :: "sql_value list \<Rightarrow> db \<Rightarrow> error + sql_value list list \<times> db" where
  "exec_select_orphans ps d =
     (case limit_offset ps of
        Inl e \<Rightarrow> Inl e
      | Inr (lmt, off) \<Rightarrow> Inr (map reading_values (take lmt (drop off (orphans d))), d))"

fun cook_key :: "string \<Rightarrow> cook_row \<Rightarrow> int \<times> string" where
  "cook_key c r =
     (if c = ''id'' then (cook_row_id r, [])
      else if c = ''created'' then (cook_row_created r, [])
      else (0, cook_row_description r))"

definition exec_select_cooks :: "string \<Rightarrow> sql_value list \<Rightarrow> db \<Rightarrow> error + sql_value list list \<times> db" where
  "exec_select_cooks c ps d =
     (case limit_offset ps of
        Inl e \<Rightarrow> Inl e
      | Inr (lmt, off) \<Rightarrow>
          Inr (map cook_values (take lmt (drop off (rev (sort_key (cook_key c) (cooks_tbl d))))), d))"

fun exec_select_cook :: "sql_value list \<Rightarrow> db \<Rightarrow> error + sql_value list list \<times> db" where
  "exec_select_cook [V_int i] d =
     Inr (map (\<lambda>c. [V_text (cook_row_description c), V_time (cook_row_created c)])
              (filter (\<lambda>c. cook_row_id c = i) (cooks_tbl d)), d)"
| "exec_select_cook _ d = Inl bad_param"

definition readings_of :: "db \<Rightarrow> int \<Rightarrow> reading_row list" where
  "readings_of d i = filter (\<lambda>r. row_cook_id r = Some i) (readings_tbl d)"

fun exec_select_cook_readings :: "sql_value list \<Rightarrow> db \<Rightarrow> error + sql_value list list \<times> db" where
  "exec_select_cook_readings [V_int i] d = Inr (map reading_values (readings_of d i), d)"
| "exec_select_cook_readings _ d = Inl bad_param"

fun execute :: "stmt \<Rightarrow> sql_value list \<Rightarrow> db \<Rightarrow> error + sql_value list list \<times> db" where
  "execute Insert_reading ps d = exec_insert_reading ps d"
| "execute Insert_cook ps d = exec_insert_cook ps d"
| "execute Update_cook ps d = exec_update_cook ps d"
| "execute (Set_cook_in v) ps d = exec_set_cook v ps d"
| "execute (Clear_cook_in v) ps d = exec_clear_cook v ps d"
| "execute Select_orphans ps d = exec_select_orphans ps d"
| "execute (Select_cooks c) ps d = exec_select_cooks c ps d"
| "execute Select_cook ps d = exec_select_cook ps d"
| "execute Select_cook_readings ps d = exec_select_cook_readings ps d"

section \<open>The driver: pgxpool's Exec, QueryRow and Query\<close>

text \<open>
  The pool handle is the global \<open>pool\<close> of \<open>database.go\<close>: \<open>connect\<close> stores the
  result of \<open>pgxpool.Connect\<close> there, which is \<open>nil\<close> when the first connection
  failed. A method call on the \<open>nil\<close> pool dereferences it and panics.
\<close>

datatype pool = Pool_nil | Pool_live

text \<open>
  What the network and the server do with one round trip, chosen by the environment:
  \<open>Answers ms\<close>, the store answers after \<open>ms\<close> milliseconds; \<open>Refused msg\<close>, no
  connection could be acquired; \<open>Breaks_after k\<close>, the connection drops after the
  statement ran and \<open>k\<close> result rows arrived. A round trip that takes longer than
  the time left in the call's context is cancelled by the driver and has no effect.
\<close>

datatype link = Answers nat | Refused string | Breaks_after nat

fun latency :: "link \<Rightarrow> nat" where
  "latency (Answers ms) = ms"
| "latency _ = 0"

definition eof_error :: error where
  "eof_error = Db_error ''unexpected EOF''"

definition arity_error :: "nat \<Rightarrow> nat \<Rightarrow> error" where
  "arity_error n m = Db_error (''expected '' @ dec_nat n @ '' arguments, got '' @ dec_nat m)"

text \<open>
  Preparing a statement and checking the number of arguments happen before anything
  runs; pgx reports both at once. The prepared statements are assumed to be in the
  connection's statement cache, so that a deadline can only expire while the
  statement executes.
\<close>

definition prepared :: "stmt \<Rightarrow> sql_value list \<Rightarrow> error option" where
  "prepared st ps =
     (case prepare st of
        Inl e \<Rightarrow> Some e
      | Inr n \<Rightarrow> (if n = length ps then None else Some (arity_error n (length ps))))"

text \<open>
  \<open>Exec\<close> and \<open>QueryRow(...).Scan\<close> read the whole reply, so every error reaches the
  caller. A connection that breaks after the statement ran leaves its effect in
  place and still returns an error.
\<close>

definition pool_exec :: "pool \<Rightarrow> nat \<Rightarrow> link \<Rightarrow> stmt \<Rightarrow> sql_value list \<Rightarrow> db \<Rightarrow>
    sql_value list list outcome \<times> db" where
  "pool_exec p budget l st ps d =
     (case p of
        Pool_nil \<Rightarrow> (Panic, d)
      | Pool_live \<Rightarrow>
          (case l of
             Refused m \<Rightarrow> (Err (Db_error m), d)
           | _ \<Rightarrow>
               (case prepared st ps of
                  Some e \<Rightarrow> (Err e, d)
                | None \<Rightarrow>
                    (if budget < latency l then (Err Deadline_exceeded, d)
                     else (case execute st ps d of
                             Inl e \<Rightarrow> (Err e, d)
                           | Inr (rows, d') \<Rightarrow>
                               (case l of Breaks_after _ \<Rightarrow> (Err eof_error, d') | _ \<Rightarrow> (Ok rows, d')))))))"

definition pool_query_row :: "pool \<Rightarrow> nat \<Rightarrow> link \<Rightarrow> stmt \<Rightarrow> sql_value list \<Rightarrow> db \<Rightarrow>
    sql_value list outcome \<times> db" where
  "pool_query_row p budget l st ps d =
     (case pool_exec p budget l st ps d of
        (Ok [], d') \<Rightarrow> (Err No_rows, d')
      | (Ok (r # _), d') \<Rightarrow> (Ok r, d')
      | (Err e, d') \<Rightarrow> (Err e, d')
      | (Panic, d') \<Rightarrow> (Panic, d'))"

text \<open>
  \<open>Query\<close> returns the rows as a cursor: failures before execution (no connection, a
  statement that does not prepare, a wrong number of arguments) are returned at once,
  failures during execution only through \<open>rows.Err()\<close> after the cursor ends. The
  model returns the rows the cursor yields together with that deferred error.
\<close>

definition pool_query :: "pool \<Rightarrow> nat \<Rightarrow> link \<Rightarrow> stmt \<Rightarrow> sql_value list \<Rightarrow> db \<Rightarrow>
    (sql_value list list \<times> error option) outcome \<times> db" where
  "pool_query p budget l st ps d =
     (case p of
        Pool_nil \<Rightarrow> (Panic, d)
      | Pool_live \<Rightarrow>
          (case l of
             Refused m \<Rightarrow> (Err (Db_error m), d)
           | _ \<Rightarrow>
               (case prepared st ps of
                  Some e \<Rightarrow> (Err e, d)
                | None \<Rightarrow>
                    (if budget < latency l then (Ok ([], Some Deadline_exceeded), d)
                     else (case execute st ps d of
                             Inl e \<Rightarrow> (Ok ([], Some e), d)
                           | Inr (rows, d') \<Rightarrow>
                               (case l of
                                  Breaks_after k \<Rightarrow>
                                    (Ok (take k rows, if k < length rows then Some eof_error else None), d')
                                | _ \<Rightarrow> (Ok (rows, None), d')))))))"

section \<open>Well-formed stores\<close>

text \<open>
  The state the schema and the sequences keep: ids of each table strictly increase in
  table order (rows are appended with the next sequence value, never deleted), every
  id is positive and at most the sequence's last value, and every reading's
  \<open>cook_id\<close> names an existing cook (the foreign key).
\<close>

definition wf_db :: "db \<Rightarrow> bool" where
  "wf_db d \<longleftrightarrow>
     sorted_wrt (<) (map row_id (readings_tbl d)) \<and>
     sorted_wrt (<) (cook_ids d) \<and>
     list_all (\<lambda>r. 0 < row_id r \<and> row_id r \<le> readings_seq d) (readings_tbl d) \<and>
     list_all (\<lambda>c. 0 < c \<and> c \<le> cooks_seq d) (cook_ids d) \<and>
     0 \<le> readings_seq d \<and> 0 \<le> cooks_seq d \<and>
     list_all (\<lambda>r. pred_option (\<lambda>c. c \<in> set (cook_ids d)) (row_cook_id r)) (readings_tbl d)"

text \<open>
  The times a store holds: every reading's \<open>timestamp\<close> and every cook's \<open>created\<close>
  lies in \<open>T\<close>. With \<open>T\<close> the readings of the server's clock this is the spec's
  invariant that these values are server-generated.
\<close>

definition stamped :: "time set \<Rightarrow> db \<Rightarrow> bool" where
  "stamped T d \<longleftrightarrow>
     set (map row_timestamp (readings_tbl d)) \<subseteq> T \<and> set (map cook_row_created (cooks_tbl d)) \<subseteq> T"

section \<open>A sample store\<close>

text \<open>
  A store used by the witnesses: cooks 1 and 2, reading 2 assigned to cook 1, readings 1
  and 3 orphans with timestamps 100 and 200.
\<close>

definition sample_db :: db where
  "sample_db =
     \<lparr>readings_tbl =
        [\<lparr>row_id = 1, row_timestamp = 100, row_uptime = 10, row_meat_temp = 20, row_smoke_temp = 110, row_cook_id = None\<rparr>,
         \<lparr>row_id = 2, row_timestamp = 300, row_uptime = 30, row_meat_temp = 40, row_smoke_temp = 120, row_cook_id = Some 1\<rparr>,
         \<lparr>row_id = 3, row_timestamp = 200, row_uptime = 20, row_meat_temp = 30, row_smoke_temp = 115, row_cook_id = None\<rparr>],
      cooks_tbl =
        [\<lparr>cook_row_id = 1, cook_row_created = 50, cook_row_description = ''Brisket''\<rparr>,
         \<lparr>cook_row_id = 2, cook_row_created = 60, cook_row_description = ''Ribs''\<rparr>],
      readings_seq = 3, cooks_seq = 2\<rparr>"

section \<open>Statements and driver calls keep the store well-formed\<close>

lemma cook_ids_update [simp]:
  "cook_ids (d\<lparr>readings_tbl := rs\<rparr>) = cook_ids d"
  "cook_ids (d\<lparr>readings_seq := n\<rparr>) = cook_ids d"
  "cook_ids (d\<lparr>cooks_tbl := cs\<rparr>) = map cook_row_id cs"
  "cook_ids (d\<lparr>cooks_seq := n\<rparr>) = cook_ids d"
  by (simp_all add: cook_ids_def)

lemma map_row_id_set_cook_id [simp]: "map row_id (set_cook_id ids c rs) = map row_id rs"
  by (simp add: set_cook_id_def comp_def)

lemma set_cook_id_cook:
  "r \<in> set (set_cook_id ids c rs) \<Longrightarrow>
   (\<exists>r0 \<in> set rs. row_id r = row_id r0 \<and> (row_cook_id r = row_cook_id r0 \<and> row_id r0 \<notin> set ids \<or> row_cook_id r = c \<and> row_id r0 \<in> set ids))"
  by (auto simp: set_cook_id_def)

lemma set_cook_id_no_match:
  "\<not> (\<exists>r \<in> set rs. row_id r \<in> set ids) \<Longrightarrow> set_cook_id ids c rs = rs"
  by (induction rs) (auto simp: set_cook_id_def)

lemma wf_exec_insert_reading [wf_pres]:
  "exec_insert_reading ps d = Inr (rows, d') \<Longrightarrow> wf_db d \<Longrightarrow> wf_db d'"
  by (erule exec_insert_reading.elims)
     (auto simp: wf_db_def sorted_wrt_append list_all_iff Let_def)

lemma wf_exec_insert_cook [wf_pres]:
  "exec_insert_cook ps d = Inr (rows, d') \<Longrightarrow> wf_db d \<Longrightarrow> wf_db d'"
  by (erule exec_insert_cook.elims)
     (auto simp: wf_db_def sorted_wrt_append list_all_iff Let_def cook_ids_def elim!: pred_option_weaken)

lemma cook_row_id_if_update [simp]:
  "cook_row_id (if cook_row_id c = i then c\<lparr>cook_row_description := desc\<rparr> else c) = cook_row_id c"
  by simp

lemma wf_exec_update_cook [wf_pres]:
  "exec_update_cook ps d = Inr (rows, d') \<Longrightarrow> wf_db d \<Longrightarrow> wf_db d'"
  by (erule exec_update_cook.elims) (auto simp: wf_db_def comp_def cook_ids_def [symmetric])

lemma wf_set_cook_id:
  assumes "wf_db d" and "c = None \<or> (\<exists>i. c = Some i \<and> i \<in> set (cook_ids d)) \<or> \<not> (\<exists>r \<in> set (readings_tbl d). row_id r \<in> set ids)"
  shows "wf_db (d\<lparr>readings_tbl := set_cook_id ids c (readings_tbl d)\<rparr>)"
  using assms
  by (auto simp: wf_db_def list_all_iff set_cook_id_no_match dest!: set_cook_id_cook)

lemma wf_exec_set_cook [wf_pres]:
  "exec_set_cook v ps d = Inr (rows, d') \<Longrightarrow> wf_db d \<Longrightarrow> wf_db d'"
  unfolding exec_set_cook_def
  by (auto intro!: wf_set_cook_id split: prod.splits list.splits sql_value.splits option.splits if_splits)

lemma wf_exec_clear_cook [wf_pres]:
  "exec_clear_cook v ps d = Inr (rows, d') \<Longrightarrow> wf_db d \<Longrightarrow> wf_db d'"
  unfolding exec_clear_cook_def
  by (auto intro!: wf_set_cook_id split: option.splits)

lemma exec_select_db:
  "exec_select_orphans ps d = Inr (rows, d') \<Longrightarrow> d' = d"
  "exec_select_cooks c ps d = Inr (rows, d') \<Longrightarrow> d' = d"
  "exec_select_cook ps d = Inr (rows, d') \<Longrightarrow> d' = d"
  "exec_select_cook_readings ps d = Inr (rows, d') \<Longrightarrow> d' = d"
  by (auto simp: exec_select_orphans_def exec_select_cooks_def elim: exec_select_cook.elims exec_select_cook_readings.elims split: sum.splits prod.splits)

lemma wf_execute [wf_pres]:
  "execute st ps d = Inr (rows, d') \<Longrightarrow> wf_db d \<Longrightarrow> wf_db d'"
  by (cases st) (auto intro: wf_pres dest: exec_select_db)

lemma wf_pool_exec [wf_pres]:
  "wf_db d \<Longrightarrow> wf_db (snd (pool_exec p b l st ps d))"
  by (auto simp: pool_exec_def intro: wf_pres split: pool.splits link.splits option.splits sum.splits)

lemma wf_pool_query_row [wf_pres]:
  "wf_db d \<Longrightarrow> wf_db (snd (pool_query_row p b l st ps d))"
  using wf_pool_exec [of d p b l st ps]
  by (auto simp: pool_query_row_def split: prod.splits outcome.splits list.splits)

lemma wf_pool_query [wf_pres]:
  "wf_db d \<Longrightarrow> wf_db (snd (pool_query p b l st ps d))"
  by (auto simp: pool_query_def intro: wf_pres split: pool.splits link.splits option.splits sum.splits)

lemma wf_sample_db: "wf_db sample_db"
  by (simp add: wf_db_def sample_db_def cook_ids_def)

section \<open>Statements store only the times they are given\<close>

lemma map_row_timestamp_set_cook_id [simp]: "map row_timestamp (set_cook_id ids c rs) = map row_timestamp rs"
  by (simp add: set_cook_id_def comp_def)

lemma cook_row_created_if_update [simp]:
  "cook_row_created (if cook_row_id c = i then c\<lparr>cook_row_description := desc\<rparr> else c) = cook_row_created c"
  by simp

lemma stamped_execute [stamp_pres]:
  assumes "execute st ps d = Inr (rows, d')" and "stamped T d" and "\<forall>t. V_time t \<in> set ps \<longrightarrow> t \<in> T"
  shows "stamped T d'"
  using assms
  by (cases st)
     (auto simp: stamped_def Let_def exec_set_cook_def exec_clear_cook_def image_subset_iff set_cook_id_def
           elim!: exec_insert_reading.elims exec_insert_cook.elims exec_update_cook.elims dest: exec_select_db
           split: prod.splits list.splits sql_value.splits option.splits if_splits)

lemma stamped_pool_exec [stamp_pres]:
  "stamped T d \<Longrightarrow> \<forall>t. V_time t \<in> set ps \<longrightarrow> t \<in> T \<Longrightarrow> stamped T (snd (pool_exec p b l st ps d))"
  by (auto simp: pool_exec_def intro: stamped_execute split: pool.splits link.splits option.splits sum.splits)

lemma stamped_pool_query_row [stamp_pres]:
  "stamped T d \<Longrightarrow> \<forall>t. V_time t \<in> set ps \<longrightarrow> t \<in> T \<Longrightarrow> stamped T (snd (pool_query_row p b l st ps d))"
  using stamped_pool_exec [of T d ps p b l st]
  by (auto simp: pool_query_row_def split: prod.splits outcome.splits list.splits)

lemma stamped_pool_query [stamp_pres]:
  "stamped T d \<Longrightarrow> \<forall>t. V_time t \<in> set ps \<longrightarrow> t \<in> T \<Longrightarrow> stamped T (snd (pool_query p b l st ps d))"
  by (auto simp: pool_query_def intro: stamped_execute split: pool.splits link.splits option.splits sum.splits)

section \<open>Shapes of the rows the statements return\<close>

lemma execute_row_shape:
  assumes "execute st ps d = Inr (rows, d')" and "row \<in> set rows"
  shows "(st = Insert_reading \<or> st = Insert_cook \<longrightarrow> (\<exists>i. row = [V_int i])) \<and>
         (st = Select_cook \<longrightarrow> (\<exists>desc cr. row = [V_text desc, V_time cr]))"
proof (cases st)
  case Insert_reading
  then show ?thesis using assms by (auto elim!: exec_insert_reading.elims simp: Let_def)
next
  case Insert_cook
  then show ?thesis using assms by (auto elim!: exec_insert_cook.elims simp: Let_def)
next
  case Select_cook
  then show ?thesis using assms by (auto elim!: exec_select_cook.elims)
qed simp_all

lemma pool_query_row_shape:
  assumes "pool_query_row p b l st ps d = (Ok row, d')"
  shows "(st = Insert_reading \<or> st = Insert_cook \<longrightarrow> (\<exists>i. row = [V_int i])) \<and>
         (st = Select_cook \<longrightarrow> (\<exists>desc cr. row = [V_text desc, V_time cr]))"
proof -
  obtain rows d1 where "execute st ps d = Inr (rows, d1)" "row \<in> set rows"
    using assms
    by (auto simp: pool_query_row_def pool_exec_def split: pool.splits link.splits option.splits if_splits
             sum.splits prod.splits list.splits outcome.splits)
  then show ?thesis by (rule execute_row_shape)
qed

end
