(* ===== verification/Database.thy ===== *)
theory Database
  imports Store
begin

text \<open>
  The database access layer, \<open>src/server/database.go\<close>: one definition per Go
  function, in the file's order. Each operation takes the global \<open>pool\<close>, the
  environment's \<open>link\<close> for each round trip it makes, its Go arguments and the store,
  and returns the Go result as an \<open>outcome\<close> (value, error or panic) with the new
  store. Pointer arguments that the Go code writes through (\<open>reading *Reading\<close>,
  \<open>cook *Cook\<close>) come back updated inside \<open>Ok\<close>.
\<close>

section \<open>Connection and context\<close>

text \<open>
  \<open>connect\<close>: the result of \<open>pgxpool.Connect\<close> is chosen by the environment; on
  failure the error is printed and \<open>pool\<close> is left \<open>nil\<close>. The second component is
  what the process prints.
\<close>

datatype connect_result = Connected | Connect_failed string

fun connect :: "connect_result \<Rightarrow> pool \<times> string list" where
  "connect Connected = (Pool_live, [])"
| "connect (Connect_failed msg) = (Pool_nil, [msg])"

text \<open>\<open>timeoutContext\<close>: every operation runs under a fresh 10-second context.\<close>

definition timeout_ms :: nat where
  "timeout_ms = 10000"

section \<open>Placeholders for IN lists\<close>

text \<open>
  \<open>makeWhereInVarsForArray(size, offset)\<close>: the loop appends \<open>$k\<close> for
  \<open>k = i + offset + 1\<close> and a comma after every item but the last.
\<close>

function make_where_loop :: "int \<Rightarrow> int \<Rightarrow> int \<Rightarrow> string \<Rightarrow> string" where
  "make_where_loop i sz offset str =
     (if i < sz
      then make_where_loop (i + 1) sz offset
             (str @ ''$'' @ itoa (i + offset + 1) @ (if i \<noteq> sz - 1 then '','' else []))
      else str)"
  by pat_completeness auto
termination
  by (relation "measure (\<lambda>(i, sz, offset, str). nat (sz - i))") auto

declare make_where_loop.simps [simp del]

definition makeWhereInVarsForArray :: "int \<Rightarrow> int \<Rightarrow> string" where
  "makeWhereInVarsForArray sz offset = make_where_loop 0 sz offset []"

section \<open>Scanning result rows\<close>

definition scan_error :: error where
  "scan_error = Db_error ''can't scan into dest[0]''"

text \<open>\<open>Scan(&x.Id)\<close> on the row that \<open>RETURNING "id"\<close> gives.\<close>

fun scan_id :: "sql_value list \<Rightarrow> error + int" where
  "scan_id [V_int i] = Inr i"
| "scan_id _ = Inl scan_error"

text \<open>
  \<open>rows.Scan\<close> of one readings row into a fresh \<open>Reading{}\<close>; the Go code ignores
  its error, so a row that does not scan leaves the zero \<open>Reading\<close> (the store of
  theory Store only returns rows of the right types).
\<close>

fun scan_reading :: "sql_value list \<Rightarrow> reading" where
  "scan_reading [V_int i, V_time ts, V_int up, V_float mt, V_float st] =
     \<lparr>rId = i, Timestamp = ts, Uptime = up, MeatTemp = mt, SmokeTemp = st\<rparr>"
| "scan_reading _ = zero_reading"

fun scan_cook :: "sql_value list \<Rightarrow> cook" where
  "scan_cook [V_int i, V_time cr, V_text desc] = zero_cook\<lparr>cId := i, Created := cr, Description := desc\<rparr>"
| "scan_cook _ = zero_cook"

fun scan_desc_created :: "sql_value list \<Rightarrow> error + string \<times> time" where
  "scan_desc_created [V_text desc, V_time cr] = Inr (desc, cr)"
| "scan_desc_created _ = Inl scan_error"

text \<open>\<open>processReadingsRow\<close>: every row the cursor yields, scanned; \<open>rows.Err()\<close> is not read.\<close>

definition processReadingsRow :: "sql_value list list \<Rightarrow> reading list" where
  "processReadingsRow rows = map scan_reading rows"

section \<open>Operations\<close>

definition logNewReading :: "pool \<Rightarrow> link \<Rightarrow> reading \<Rightarrow> db \<Rightarrow> reading outcome \<times> db" where
  "logNewReading p l reading d =
     (case pool_query_row p timeout_ms l Insert_reading
             [V_time (Timestamp reading), V_int (Uptime reading),
              V_float (MeatTemp reading), V_float (SmokeTemp reading)] d of
        (Ok row, d') \<Rightarrow> (case scan_id row of Inl e \<Rightarrow> (Err e, d') | Inr i \<Rightarrow> (Ok (reading\<lparr>rId := i\<rparr>), d'))
      | (Err e, d') \<Rightarrow> (Err e, d')
      | (Panic, d') \<Rightarrow> (Panic, d'))"

definition createNewCook :: "pool \<Rightarrow> link \<Rightarrow> cook \<Rightarrow> db \<Rightarrow> cook outcome \<times> db" where
  "createNewCook p l cook d =
     (case pool_query_row p timeout_ms l Insert_cook [V_text (Description cook), V_time (Created cook)] d of
        (Ok row, d') \<Rightarrow> (case scan_id row of Inl e \<Rightarrow> (Err e, d') | Inr i \<Rightarrow> (Ok (cook\<lparr>cId := i\<rparr>), d'))
      | (Err e, d') \<Rightarrow> (Err e, d')
      | (Panic, d') \<Rightarrow> (Panic, d'))"

text \<open>Go's \<open>Exec\<close> result is discarded; only its error is returned.\<close>

definition exec_unit :: "sql_value list list outcome \<times> db \<Rightarrow> unit outcome \<times> db" where
  "exec_unit r = (case r of (Ok _, d') \<Rightarrow> (Ok (), d') | (Err e, d') \<Rightarrow> (Err e, d') | (Panic, d') \<Rightarrow> (Panic, d'))"

definition updateCook :: "pool \<Rightarrow> link \<Rightarrow> cook \<Rightarrow> db \<Rightarrow> unit outcome \<times> db" where
  "updateCook p l cook d =
     exec_unit (pool_exec p timeout_ms l Update_cook [V_text (Description cook), V_int (cId cook)] d)"

text \<open>
  \<open>params[0] = cookId\<close> and \<open>params[i+1] = id\<close> for the \<open>i\<close>-th id: the argument
  list is the cook id followed by the reading ids.
\<close>

definition addReadingsToCook :: "pool \<Rightarrow> link \<Rightarrow> int list \<Rightarrow> int \<Rightarrow> db \<Rightarrow> unit outcome \<times> db" where
  "addReadingsToCook p l ids cookId d =
     (let vars = makeWhereInVarsForArray (int (length ids)) 1;
          params = V_int cookId # map V_int ids
      in exec_unit (pool_exec p timeout_ms l (Set_cook_in vars) params d))"

definition removeReadingsFromCook :: "pool \<Rightarrow> link \<Rightarrow> int list \<Rightarrow> db \<Rightarrow> unit outcome \<times> db" where
  "removeReadingsFromCook p l ids d =
     (let vars = makeWhereInVarsForArray (int (length ids)) 0;
          params = map V_int ids
      in exec_unit (pool_exec p timeout_ms l (Clear_cook_in vars) params d))"

definition getOrphanReadingsInRange :: "pool \<Rightarrow> link \<Rightarrow> int \<Rightarrow> int \<Rightarrow> db \<Rightarrow> reading list outcome \<times> db" where
  "getOrphanReadingsInRange p l limit offset d =
     (case pool_query p timeout_ms l Select_orphans [V_int limit, V_int offset] d of
        (Ok (rows, _), d') \<Rightarrow> (Ok (processReadingsRow rows), d')
      | (Err e, d') \<Rightarrow> (Err e, d')
      | (Panic, d') \<Rightarrow> (Panic, d'))"

definition getCooksInRange :: "pool \<Rightarrow> link \<Rightarrow> int \<Rightarrow> int \<Rightarrow> db \<Rightarrow> cook list outcome \<times> db" where
  "getCooksInRange p l limit offset d =
     (case pool_query p timeout_ms l (Select_cooks ''timestamp'') [V_int limit, V_int offset] d of
        (Ok (rows, _), d') \<Rightarrow> (Ok (map scan_cook rows), d')
      | (Err e, d') \<Rightarrow> (Err e, d')
      | (Panic, d') \<Rightarrow> (Panic, d'))"

text \<open>
  \<open>getCookById\<close> makes two round trips under one context: the second has what the
  first left of the 10 seconds.
\<close>

definition getCookById :: "pool \<Rightarrow> link \<Rightarrow> link \<Rightarrow> int \<Rightarrow> db \<Rightarrow> cook outcome \<times> db" where
  "getCookById p l1 l2 i d =
     (let cook = zero_cook\<lparr>cId := i\<rparr> in
      case pool_query_row p timeout_ms l1 Select_cook [V_int i] d of
        (Ok row, d1) \<Rightarrow>
          (case scan_desc_created row of
             Inl e \<Rightarrow> (Err e, d1)
           | Inr (desc, cr) \<Rightarrow>
               (case pool_query p (timeout_ms - latency l1) l2 Select_cook_readings [V_int i] d1 of
                  (Ok (rows, _), d2) \<Rightarrow>
                    (Ok (cook\<lparr>Description := desc, Created := cr, Readings := Some (processReadingsRow rows)\<rparr>), d2)
                | (Err e, d2) \<Rightarrow> (Err e, d2)
                | (Panic, d2) \<Rightarrow> (Panic, d2)))
      | (Err e, d1) \<Rightarrow> (Err e, d1)
      | (Panic, d1) \<Rightarrow> (Panic, d1))"

section \<open>Reference definitions and abstractions\<close>

fun join_commas :: "string list \<Rightarrow> string" where
  "join_commas [] = []"
| "join_commas [w] = w"
| "join_commas (w # ws) = w @ CHR '','' # join_commas ws"

definition placeholders :: "int list \<Rightarrow> string" where
  "placeholders ks = join_commas (map (\<lambda>k. ''$'' @ itoa k) ks)"

definition reading_of_row :: "reading_row \<Rightarrow> reading" where
  "reading_of_row r = \<lparr>rId = row_id r, Timestamp = row_timestamp r, Uptime = row_uptime r,
                        MeatTemp = row_meat_temp r, SmokeTemp = row_smoke_temp r\<rparr>"

definition row_of_reading :: "int \<Rightarrow> reading \<Rightarrow> reading_row" where
  "row_of_reading i r = \<lparr>row_id = i, row_timestamp = Timestamp r, row_uptime = Uptime r,
                         row_meat_temp = MeatTemp r, row_smoke_temp = SmokeTemp r, row_cook_id = None\<rparr>"

section \<open>Properties\<close>


lemma join_commas_Cons: "ws \<noteq> [] \<Longrightarrow> join_commas (w # ws) = w @ CHR '','' # join_commas ws"
  by (cases ws) auto

lemma make_where_loop_eq:
  "make_where_loop i sz off str = str @ placeholders [i + off + 1 .. sz + off]"
proof (induction i sz off str rule: make_where_loop.induct)
  case (1 i sz off str)
  show ?case
  proof (cases "i < sz")
    case False
    then show ?thesis by (simp add: make_where_loop.simps [of i] placeholders_def)
  next
    case True
    note IH = "1.IH" [OF True]
    show ?thesis
    proof (cases "i + 1 < sz")
      case True
      then have "[i + off + 1 .. sz + off] = (i + off + 1) # [i + 1 + off + 1 .. sz + off]"
        by (simp add: upto_rec1 algebra_simps)
      moreover have "[i + 1 + off + 1 .. sz + off] \<noteq> []" using True by simp
      ultimately show ?thesis using \<open>i < sz\<close> True IH
        by (simp add: make_where_loop.simps [of i] placeholders_def join_commas_Cons algebra_simps)
    next
      case False
      with \<open>i < sz\<close> have "sz = i + 1" by simp
      then show ?thesis using IH \<open>i < sz\<close>
        by (simp add: make_where_loop.simps [of i] placeholders_def algebra_simps)
    qed
  qed
qed

text \<open>
  C17. The loop of \<open>makeWhereInVarsForArray(size, offset)\<close> builds the
  comma-separated list of \<open>$k\<close> for \<open>k\<close> from \<open>offset + 1\<close> to \<open>size + offset\<close>: a comma
  between items, none after the last, the empty string when \<open>size \<le> 0\<close>.
\<close>

theorem makeWhereInVarsForArray_eq:
  "makeWhereInVarsForArray sz off = placeholders [off + 1 .. sz + off]"
  by (simp add: makeWhereInVarsForArray_def make_where_loop_eq)


lemma split_commas_no_comma: "CHR '','' \<notin> set w \<Longrightarrow> split_commas w = [w]"
  by (induction w) auto

lemma split_commas_append: "CHR '','' \<notin> set w \<Longrightarrow> split_commas (w @ CHR '','' # s) = w # split_commas s"
  by (induction w) (auto split: list.splits)

lemma split_commas_join:
  "ws \<noteq> [] \<Longrightarrow> (\<And>w. w \<in> set ws \<Longrightarrow> CHR '','' \<notin> set w) \<Longrightarrow> split_commas (join_commas ws) = ws"
  by (induction ws rule: join_commas.induct) (auto simp: split_commas_no_comma split_commas_append)

lemma itoa_pos: "0 < k \<Longrightarrow> itoa k = dec_nat (nat k)"
  by (simp add: itoa_def)

lemma comma_not_digit: "is_digit c \<Longrightarrow> c \<noteq> CHR '',''"
  by (auto simp: is_digit_def)

lemma parse_param_itoa: "0 < k \<Longrightarrow> parse_param (CHR ''$'' # itoa k) = Some (nat k)"
  using dec_nat_props [of "nat k"] by (simp add: parse_param_def itoa_pos)

lemma no_comma_itoa: "0 < k \<Longrightarrow> CHR '','' \<notin> set (itoa k)"
  using dec_nat_props [of "nat k"] by (auto simp: itoa_pos list_all_iff dest: comma_not_digit)

lemma join_commas_Nil_iff: "join_commas ws = [] \<longleftrightarrow> ws = [] \<or> ws = [[]]"
  by (induction ws rule: join_commas.induct) auto

lemma in_params_placeholders:
  assumes "ks \<noteq> []" and "\<And>k. k \<in> set ks \<Longrightarrow> 0 < k"
  shows "in_params (placeholders ks) = Some (map nat ks)"
proof -
  let ?ws = "map (\<lambda>k. ''$'' @ itoa k) ks"
  have ne: "join_commas ?ws \<noteq> []" using assms(1) by (auto simp: join_commas_Nil_iff neq_Nil_conv)
  have sp: "split_commas (join_commas ?ws) = ?ws"
  proof (rule split_commas_join)
    show "?ws \<noteq> []" using assms(1) by simp
  next
    fix w assume "w \<in> set ?ws"
    then obtain k where k: "k \<in> set ks" and w: "w = ''$'' @ itoa k" by auto
    show "CHR '','' \<notin> set w" using no_comma_itoa [OF assms(2) [OF k]] w by simp
  qed
  have "those (map (\<lambda>k. parse_param (CHR ''$'' # itoa k)) ks) = Some (map nat ks)"
    by (rule those_map_Some) (simp add: parse_param_itoa assms(2))
  with ne sp show ?thesis by (simp add: in_params_def placeholders_def comp_def)
qed

lemma in_params_where_vars:
  "0 < n \<Longrightarrow> in_params (makeWhereInVarsForArray (int n) (int off)) = Some [Suc off ..< Suc (off + n)]"
proof -
  assume "0 < n"
  then have ks: "[int off + 1 .. int n + int off] \<noteq> []" by simp
  have "[int off + 1 .. int n + int off] = [int (Suc off) .. int (off + n)]" by (simp add: add.commute)
  then have m: "map nat [int off + 1 .. int n + int off] = [Suc off ..< Suc (off + n)]"
    by (simp only: map_nat_upto)
  show ?thesis
    using in_params_placeholders [OF ks] m by (simp add: makeWhereInVarsForArray_def make_where_loop_eq)
qed

text \<open>
  C2. The list that \<open>makeWhereInVarsForArray(size, offset)\<close> prints is
  read back by the SQL parser as exactly the placeholders \<open>$offset+1, ..., $offset+size\<close>;
  for \<open>size \<le> 0\<close> it is empty and \<open>IN ()\<close> does not parse.
\<close>

theorem in_params_makeWhereInVarsForArray:
  assumes "0 \<le> off"
  shows "in_params (makeWhereInVarsForArray sz off) =
           (if 0 < sz then Some (map nat [off + 1 .. sz + off]) else None)"
proof (cases "0 < sz")
  case True
  then have ks: "[off + 1 .. sz + off] \<noteq> []" by simp
  have "\<And>k. k \<in> set [off + 1 .. sz + off] \<Longrightarrow> 0 < k" using assms by simp
  with True show ?thesis
    using in_params_placeholders [OF ks] by (simp add: makeWhereInVarsForArray_def make_where_loop_eq)
next
  case False
  then show ?thesis
    by (simp add: makeWhereInVarsForArray_def make_where_loop_eq placeholders_def in_params_def)
qed


lemma fold_max_upt: "fold max [Suc 0 ..< Suc m] 0 = m"
  by (induction m) auto

lemma param_count_upt: "param_count [Suc 0 ..< Suc m] = Inr m"
  by (simp del: upt_Suc add: param_count_def fold_max_upt filter_empty_conv)

lemma bind_params_shift:
  "bind_params (pre @ ys) [Suc (length pre) ..< Suc (length pre + length ys)] = Some ys"
proof -
  have "map (\<lambda>k. (pre @ ys) ! (k - 1)) [Suc (length pre) ..< Suc (length pre + length ys)] = ys"
    by (rule nth_equalityI) (simp_all del: upt_Suc add: nth_append)
  then show ?thesis by (simp del: upt_Suc add: bind_params_def list_all_iff)
qed

lemma those_int_param [simp]: "those (map (int_param \<circ> V_int) ids) = Some ids"
  by (induction ids) auto

lemma set_cook_in_binds:
  assumes "ids \<noteq> []"
  shows "prepared (Set_cook_in (makeWhereInVarsForArray (int (length ids)) 1)) (V_int c # map V_int ids) = None"
    and "in_ids (makeWhereInVarsForArray (int (length ids)) 1) (V_int c # map V_int ids) = Some ids"
proof -
  have ip: "in_params (makeWhereInVarsForArray (int (length ids)) 1) = Some [Suc (Suc 0) ..< Suc (Suc (length ids))]"
    using in_params_where_vars [of "length ids" 1] assms by (simp del: upt_Suc)
  have "Suc 0 # [Suc (Suc 0) ..< Suc (Suc (length ids))] = [Suc 0 ..< Suc (Suc (length ids))]"
    by (simp del: upt_Suc add: upt_conv_Cons)
  with ip show "prepared (Set_cook_in (makeWhereInVarsForArray (int (length ids)) 1)) (V_int c # map V_int ids) = None"
    by (simp del: upt_Suc add: prepared_def prepare_def param_count_upt)
  have "bind_params (V_int c # map V_int ids) [Suc (Suc 0) ..< Suc (Suc (length ids))] = Some (map V_int ids)"
    using bind_params_shift [of "[V_int c]" "map V_int ids"] by (simp del: upt_Suc)
  with ip show "in_ids (makeWhereInVarsForArray (int (length ids)) 1) (V_int c # map V_int ids) = Some ids"
    by (simp del: upt_Suc add: in_ids_def)
qed

lemma clear_cook_in_binds:
  assumes "ids \<noteq> []"
  shows "prepared (Clear_cook_in (makeWhereInVarsForArray (int (length ids)) 0)) (map V_int ids) = None"
    and "in_ids (makeWhereInVarsForArray (int (length ids)) 0) (map V_int ids) = Some ids"
proof -
  have ip: "in_params (makeWhereInVarsForArray (int (length ids)) 0) = Some [Suc 0 ..< Suc (length ids)]"
    using in_params_where_vars [of "length ids" 0] assms by (simp del: upt_Suc)
  then show "prepared (Clear_cook_in (makeWhereInVarsForArray (int (length ids)) 0)) (map V_int ids) = None"
    by (simp del: upt_Suc add: prepared_def prepare_def param_count_upt)
  have "bind_params (map V_int ids) [Suc 0 ..< Suc (length ids)] = Some (map V_int ids)"
    using bind_params_shift [of "[]" "map V_int ids"] by (simp del: upt_Suc)
  with ip show "in_ids (makeWhereInVarsForArray (int (length ids)) 0) (map V_int ids) = Some ids"
    by (simp del: upt_Suc add: in_ids_def)
qed

text \<open>
  C1. For a non-empty id list and a store that answers within the 10-second deadline,
  \<open>addReadingsToCook(ids, cookId)\<close> binds \<open>$1\<close> to the cook and the \<open>IN\<close> placeholders to
  exactly the ids: it fails with the foreign-key error when some listed reading exists and
  the cook does not, and otherwise sets \<open>cook_id\<close> of exactly the listed readings.
\<close>

theorem addReadingsToCook_spec:
  assumes "ids \<noteq> []" and "ms \<le> timeout_ms"
  shows "addReadingsToCook Pool_live (Answers ms) ids c d =
    (if (\<exists>r \<in> set (readings_tbl d). row_id r \<in> set ids) \<and> c \<notin> set (cook_ids d) then (Err fk_violation, d)
     else (Ok (), d\<lparr>readings_tbl := set_cook_id ids (Some c) (readings_tbl d)\<rparr>))"
  using set_cook_in_binds [OF assms(1), of c] assms(2)
  by (simp add: addReadingsToCook_def pool_exec_def exec_set_cook_def exec_unit_def)

text \<open>
  C8. For a non-empty id list and a store that answers within the deadline,
  \<open>removeReadingsFromCook(ids)\<close> succeeds and clears \<open>cook_id\<close> of exactly the listed
  readings, leaving every other row unchanged.
\<close>

theorem removeReadingsFromCook_spec:
  assumes "ids \<noteq> []" and "ms \<le> timeout_ms"
  shows "removeReadingsFromCook Pool_live (Answers ms) ids d =
    (Ok (), d\<lparr>readings_tbl := set_cook_id ids None (readings_tbl d)\<rparr>)"
  using clear_cook_in_binds [OF assms(1)] assms(2)
  by (simp add: removeReadingsFromCook_def pool_exec_def exec_clear_cook_def exec_unit_def)


lemma scan_reading_values [simp]: "scan_reading (reading_values r) = reading_of_row r"
  by (simp add: reading_values_def reading_of_row_def)

lemma scan_reading_comp_values [simp]: "scan_reading \<circ> reading_values = reading_of_row"
  by (rule ext) simp

lemma processReadingsRow_values [simp]:
  "processReadingsRow (map reading_values rs) = map reading_of_row rs"
  by (simp add: processReadingsRow_def)

lemma processReadingsRow_take [simp]:
  "processReadingsRow (take k rows) = take k (processReadingsRow rows)"
  by (simp add: processReadingsRow_def take_map)

lemma prepared_fixed [simp]:
  "prepared Select_orphans [V_int a, V_int b] = None"
  "prepared (Select_cooks ''timestamp'') ps = Some (unknown_column ''timestamp'')"
  "prepared Select_cook [V_int i] = None"
  "prepared Select_cook_readings [V_int i] = None"
  "prepared Insert_reading [V_time ts, V_int up, V_float mt, V_float st] = None"
  "prepared Insert_cook [V_text desc, V_time cr] = None"
  "prepared Update_cook [V_text desc, V_int i] = None"
  by (simp_all add: prepared_def prepare_def param_count_def cook_columns_def)

theorem getOrphanReadingsInRange_spec:
  assumes "ms \<le> timeout_ms" and "0 \<le> limit" and "0 \<le> offset"
  shows "getOrphanReadingsInRange Pool_live (Answers ms) limit offset d =
           (Ok (map reading_of_row (take (nat limit) (drop (nat offset) (orphans d)))), d)"
  using assms
  by (simp add: getOrphanReadingsInRange_def pool_query_def exec_select_orphans_def take_map drop_map)

lemma sorted_orphans: "sorted_wrt (\<lambda>a b. Timestamp b \<le> Timestamp a) (map reading_of_row (orphans d))"
proof -
  have "sorted_wrt (\<lambda>x y. row_timestamp y \<le> row_timestamp x) (orphans d)"
    unfolding orphans_def by (rule sorted_wrt_rev_sort_key)
  then show ?thesis by (simp add: sorted_wrt_map reading_of_row_def)
qed

text \<open>
  C18. \<open>getCooksInRange\<close> orders by a column \<open>timestamp\<close> that the
  \<open>cooks\<close> table does not have, so on a live pool every call that reaches the store
  fails with "column does not exist" and never returns a cook.
\<close>

theorem getCooksInRange_fails:
  "getCooksInRange Pool_live l limit offset d =
     (Err (case l of Refused m \<Rightarrow> Db_error m | _ \<Rightarrow> unknown_column ''timestamp''), d)"
  by (cases l) (simp_all add: getCooksInRange_def pool_query_def)


lemma exec_select_orphans_rows:
  "exec_select_orphans [V_int a, V_int b] d = Inr (rows, d') \<Longrightarrow>
   rows = map reading_values (take (nat a) (drop (nat b) (orphans d))) \<and> d' = d"
  by (auto simp: exec_select_orphans_def split: if_splits)

lemma pool_query_orphans_prefix:
  assumes "pool_query p b l Select_orphans [V_int a, V_int c] d = (Ok (rows, e), d')"
  shows "\<exists>k. rows = take k (map reading_values (take (nat a) (drop (nat c) (orphans d))))"
  using assms
  by (intro take_cases_prefix)
     (auto simp: pool_query_def dest!: exec_select_orphans_rows
           split: pool.splits link.splits option.splits if_splits sum.splits prod.splits)

lemma getOrphanReadingsInRange_prefix:
  assumes "fst (getOrphanReadingsInRange p l limit offset d) = Ok rs"
  shows "\<exists>k. rs = take k (map reading_of_row (take (nat limit) (drop (nat offset) (orphans d))))"
proof -
  obtain rows e d' where q: "pool_query p timeout_ms l Select_orphans [V_int limit, V_int offset] d = (Ok (rows, e), d')"
    and rs: "rs = processReadingsRow rows"
    using assms by (auto simp: getOrphanReadingsInRange_def split: prod.splits outcome.splits)
  obtain k where "rows = take k (map reading_values (take (nat limit) (drop (nat offset) (orphans d))))"
    using pool_query_orphans_prefix [OF q] by blast
  with rs show ?thesis by (auto simp: processReadingsRow_def take_map)
qed

text \<open>
  C6. Whatever the network and the store do, a list that
  \<open>getOrphanReadingsInRange(limit, offset)\<close> returns without error is ordered newest first,
  has at most \<open>limit\<close> entries (none for a negative limit), and holds only readings
  that belong to no cook.
\<close>

theorem getOrphanReadingsInRange_page:
  assumes "fst (getOrphanReadingsInRange p l limit offset d) = Ok rs"
  shows "sorted_wrt (\<lambda>a b. Timestamp b \<le> Timestamp a) rs \<and> length rs \<le> nat limit \<and>
         set rs \<subseteq> reading_of_row ` set (orphans d)"
proof -
  obtain k where rs: "rs = take k (map reading_of_row (take (nat limit) (drop (nat offset) (orphans d))))"
    using getOrphanReadingsInRange_prefix [OF assms] by blast
  have "sorted_wrt (\<lambda>a b. Timestamp b \<le> Timestamp a) rs"
    unfolding rs take_map [symmetric] drop_map [symmetric]
    using sorted_orphans [of d] by (simp add: sorted_wrt_take sorted_wrt_take_drop del: take_map drop_map)
  moreover have "set rs \<subseteq> reading_of_row ` set (orphans d)"
    unfolding rs by (meson image_mono order_trans set_take_drop_subset set_take_subset set_map [THEN equalityD1] )
  ultimately show ?thesis using rs by simp
qed


lemma wf_db_distinct_cook_ids: "wf_db d \<Longrightarrow> distinct (cook_ids d)"
  by (auto simp: wf_db_def strict_sorted_iff)

lemma cook_found:
  assumes "wf_db d" and "c \<in> set (cooks_tbl d)"
  shows "filter (\<lambda>x. cook_row_id x = cook_row_id c) (cooks_tbl d) = [c]"
  using filter_unique [of cook_row_id "cooks_tbl d" c] wf_db_distinct_cook_ids [OF assms(1)] assms(2)
  by (simp add: cook_ids_def)

text \<open>
  C13. On a well-formed store that answers both queries within the one shared
  deadline, \<open>getCookById(id)\<close> of an existing cook returns its description and creation
  time and, as its readings, exactly the readings whose \<open>cook_id\<close> is that cook.
\<close>

theorem getCookById_found:
  assumes "wf_db d" and "c \<in> set (cooks_tbl d)" and "ms1 + ms2 \<le> timeout_ms"
  shows "getCookById Pool_live (Answers ms1) (Answers ms2) (cook_row_id c) d =
    (Ok \<lparr>cId = cook_row_id c, Created = cook_row_created c, Description = cook_row_description c,
         Readings = Some (map reading_of_row (readings_of d (cook_row_id c)))\<rparr>, d)"
proof -
  have "\<not> timeout_ms - ms1 < ms2" using assms(3) by arith
  then show ?thesis
    using assms cook_found [OF assms(1,2)]
    by (simp add: getCookById_def pool_query_row_def pool_exec_def pool_query_def zero_cook_def)
qed

text \<open>
  C24. \<open>getCookById(id)\<close> of an id that no cook has fails with
  \<open>pgx.ErrNoRows\<close> and changes nothing.
\<close>

theorem getCookById_not_found:
  assumes "\<forall>c \<in> set (cooks_tbl d). cook_row_id c \<noteq> i" and "ms \<le> timeout_ms"
  shows "getCookById Pool_live (Answers ms) l2 i d = (Err No_rows, d)"
proof -
  have "filter (\<lambda>c. cook_row_id c = i) (cooks_tbl d) = []"
    using assms(1) by (simp add: filter_empty_conv)
  then show ?thesis using assms(2)
    by (simp add: getCookById_def pool_query_row_def pool_exec_def)
qed

text \<open>
  C29. The two queries of \<open>getCookById\<close> share one 10-second
  context; when the readings query runs past what the first left, the deadline error is only
  in \<open>rows.Err()\<close>, which the code does not read, so the cook is returned as a success
  with an empty readings list.
\<close>

theorem getCookById_shared_deadline:
  assumes "wf_db d" and "c \<in> set (cooks_tbl d)" and "ms1 \<le> timeout_ms" and "timeout_ms < ms1 + ms2"
  shows "getCookById Pool_live (Answers ms1) (Answers ms2) (cook_row_id c) d =
    (Ok \<lparr>cId = cook_row_id c, Created = cook_row_created c, Description = cook_row_description c,
         Readings = Some []\<rparr>, d)"
proof -
  have "timeout_ms - ms1 < ms2" using assms(3,4) by arith
  then show ?thesis
    using assms cook_found [OF assms(1,2)]
    by (simp add: getCookById_def pool_query_row_def pool_exec_def pool_query_def zero_cook_def processReadingsRow_def)
qed

text \<open>
  C25. \<open>logNewReading\<close> on a store that answers within the deadline appends
  one reading row with the next sequence value as id, the given timestamp and values and no
  cook, and writes that id back into the reading.
\<close>

theorem logNewReading_spec:
  assumes "ms \<le> timeout_ms"
  shows "logNewReading Pool_live (Answers ms) r d =
    (Ok (r\<lparr>rId := readings_seq d + 1\<rparr>),
     d\<lparr>readings_tbl := readings_tbl d @ [row_of_reading (readings_seq d + 1) r],
       readings_seq := readings_seq d + 1\<rparr>)"
  using assms
  by (simp add: logNewReading_def pool_query_row_def pool_exec_def row_of_reading_def Let_def)

theorem createNewCook_spec:
  assumes "ms \<le> timeout_ms"
  shows "createNewCook Pool_live (Answers ms) c d =
    (Ok (c\<lparr>cId := cooks_seq d + 1\<rparr>),
     d\<lparr>cooks_tbl := cooks_tbl d @ [\<lparr>cook_row_id = cooks_seq d + 1, cook_row_created = Created c,
                                      cook_row_description = Description c\<rparr>],
       cooks_seq := cooks_seq d + 1\<rparr>)"
  using assms
  by (simp add: createNewCook_def pool_query_row_def pool_exec_def Let_def)

text \<open>
  C26. \<open>updateCook\<close> on a store that answers within the deadline succeeds and
  sets the description of the cook with the given id; an id that no cook has changes
  nothing and is still reported as success.
\<close>

theorem updateCook_spec:
  assumes "ms \<le> timeout_ms"
  shows "updateCook Pool_live (Answers ms) c d =
    (Ok (), d\<lparr>cooks_tbl := map (\<lambda>x. if cook_row_id x = cId c then x\<lparr>cook_row_description := Description c\<rparr> else x)
                               (cooks_tbl d)\<rparr>)"
  using assms
  by (simp add: updateCook_def pool_exec_def exec_unit_def)

text \<open>
  C30. When \<open>connect\<close> failed and left \<open>pool\<close> nil, every database
  operation panics (no error value reaches the handler).
\<close>

theorem nil_pool_panics:
  "fst (logNewReading Pool_nil l r d) = Panic \<and> fst (createNewCook Pool_nil l c d) = Panic \<and>
   fst (updateCook Pool_nil l c d) = Panic \<and> fst (addReadingsToCook Pool_nil l ids i d) = Panic \<and>
   fst (removeReadingsFromCook Pool_nil l ids d) = Panic \<and>
   fst (getOrphanReadingsInRange Pool_nil l limit offset d) = Panic \<and>
   fst (getCooksInRange Pool_nil l limit offset d) = Panic \<and> fst (getCookById Pool_nil l l2 i d) = Panic"
  by (simp add: logNewReading_def createNewCook_def updateCook_def addReadingsToCook_def
      removeReadingsFromCook_def getOrphanReadingsInRange_def getCooksInRange_def getCookById_def
      pool_query_row_def pool_exec_def pool_query_def exec_unit_def)

text \<open>
  C27. A store that does not answer within the 10-second deadline makes every
  writing operation return the deadline error and leaves the store unchanged.
\<close>

theorem write_deadline:
  assumes "timeout_ms < ms"
  shows "logNewReading Pool_live (Answers ms) r d = (Err Deadline_exceeded, d) \<and>
         createNewCook Pool_live (Answers ms) c d = (Err Deadline_exceeded, d) \<and>
         updateCook Pool_live (Answers ms) c d = (Err Deadline_exceeded, d) \<and>
         (ids \<noteq> [] \<longrightarrow> addReadingsToCook Pool_live (Answers ms) ids i d = (Err Deadline_exceeded, d)) \<and>
         (ids \<noteq> [] \<longrightarrow> removeReadingsFromCook Pool_live (Answers ms) ids d = (Err Deadline_exceeded, d))"
  using assms set_cook_in_binds(1) clear_cook_in_binds(1)
  by (auto simp: logNewReading_def createNewCook_def updateCook_def addReadingsToCook_def
      removeReadingsFromCook_def pool_query_row_def pool_exec_def exec_unit_def)

text \<open>
  C28. \<open>getOrphanReadingsInRange\<close> never reads \<open>rows.Err()\<close>, so errors the store
  reports while it executes the query are swallowed and an empty list is returned as a
  success: a store that does not answer within the deadline, and a negative \<open>limit\<close>
  (with a valid offset), which the store rejects.
\<close>

theorem rows_err_swallowed:
  "(timeout_ms < ms \<longrightarrow> getOrphanReadingsInRange Pool_live (Answers ms) limit offset d = (Ok [], d)) \<and>
   (limit < 0 \<and> 0 \<le> offset \<and> ms \<le> timeout_ms \<longrightarrow>
      getOrphanReadingsInRange Pool_live (Answers ms) limit offset d = (Ok [], d))"
  by (simp add: getOrphanReadingsInRange_def pool_query_def exec_select_orphans_def processReadingsRow_def)


lemma snd_logNewReading:
  "snd (logNewReading p l r d) =
   snd (pool_query_row p timeout_ms l Insert_reading
          [V_time (Timestamp r), V_int (Uptime r), V_float (MeatTemp r), V_float (SmokeTemp r)] d)"
  by (simp add: logNewReading_def split: prod.split outcome.split sum.split)

lemma snd_createNewCook:
  "snd (createNewCook p l c d) =
   snd (pool_query_row p timeout_ms l Insert_cook [V_text (Description c), V_time (Created c)] d)"
  by (simp add: createNewCook_def split: prod.split outcome.split sum.split)

lemma wf_logNewReading [wf_pres]: "wf_db d \<Longrightarrow> wf_db (snd (logNewReading p l r d))"
  by (simp add: snd_logNewReading wf_pool_query_row)

lemma wf_createNewCook [wf_pres]: "wf_db d \<Longrightarrow> wf_db (snd (createNewCook p l c d))"
  by (simp add: snd_createNewCook wf_pool_query_row)

lemma wf_exec_unit: "wf_db (snd r) \<Longrightarrow> wf_db (snd (exec_unit r))"
  by (auto simp: exec_unit_def split: prod.splits outcome.splits)

lemma wf_updateCook [wf_pres]: "wf_db d \<Longrightarrow> wf_db (snd (updateCook p l c d))"
  by (simp add: updateCook_def wf_exec_unit wf_pool_exec)

lemma wf_addReadingsToCook [wf_pres]: "wf_db d \<Longrightarrow> wf_db (snd (addReadingsToCook p l ids c d))"
  by (simp add: addReadingsToCook_def wf_exec_unit wf_pool_exec)

lemma wf_removeReadingsFromCook [wf_pres]: "wf_db d \<Longrightarrow> wf_db (snd (removeReadingsFromCook p l ids d))"
  by (simp add: removeReadingsFromCook_def wf_exec_unit wf_pool_exec)

lemma snd_getOrphanReadingsInRange:
  "snd (getOrphanReadingsInRange p l a b d) = snd (pool_query p timeout_ms l Select_orphans [V_int a, V_int b] d)"
  by (simp add: getOrphanReadingsInRange_def split: prod.split outcome.split)

lemma snd_getCooksInRange:
  "snd (getCooksInRange p l a b d) = snd (pool_query p timeout_ms l (Select_cooks ''timestamp'') [V_int a, V_int b] d)"
  by (simp add: getCooksInRange_def split: prod.split outcome.split)

lemma wf_getOrphanReadingsInRange [wf_pres]: "wf_db d \<Longrightarrow> wf_db (snd (getOrphanReadingsInRange p l a b d))"
  by (simp add: snd_getOrphanReadingsInRange wf_pool_query)

lemma wf_getCooksInRange [wf_pres]: "wf_db d \<Longrightarrow> wf_db (snd (getCooksInRange p l a b d))"
  by (simp add: snd_getCooksInRange wf_pool_query)

lemma wf_getCookById [wf_pres]:
  assumes "wf_db d"
  shows "wf_db (snd (getCookById p l1 l2 i d))"
proof -
  obtain o1 d1 where q1: "pool_query_row p timeout_ms l1 Select_cook [V_int i] d = (o1, d1)"
    by (cases "pool_query_row p timeout_ms l1 Select_cook [V_int i] d")
  have w1: "wf_db d1" using wf_pool_query_row [OF assms, of p timeout_ms l1 Select_cook "[V_int i]"] q1 by simp
  obtain o2 d2 where q2: "pool_query p (timeout_ms - latency l1) l2 Select_cook_readings [V_int i] d1 = (o2, d2)"
    by (cases "pool_query p (timeout_ms - latency l1) l2 Select_cook_readings [V_int i] d1")
  have w2: "wf_db d2" using wf_pool_query [OF w1, of p "timeout_ms - latency l1" l2 Select_cook_readings "[V_int i]"] q2 by simp
  show ?thesis
    using w1 w2 q1 q2
    by (auto simp: getCookById_def Let_def split: outcome.splits sum.splits prod.splits)
qed

lemma snd_exec_unit: "snd (exec_unit r) = snd r"
  by (auto simp: exec_unit_def split: prod.split outcome.split)

lemma snd_getCookById:
  "snd (getCookById p l1 l2 i d) = snd (pool_query_row p timeout_ms l1 Select_cook [V_int i] d) \<or>
   snd (getCookById p l1 l2 i d) =
     snd (pool_query p (timeout_ms - latency l1) l2 Select_cook_readings [V_int i]
            (snd (pool_query_row p timeout_ms l1 Select_cook [V_int i] d)))"
  by (auto simp: getCookById_def Let_def split: prod.split outcome.split sum.split)

lemma stamped_logNewReading [stamp_pres]:
  "stamped T d \<Longrightarrow> Timestamp rd \<in> T \<Longrightarrow> stamped T (snd (logNewReading p l rd d))"
  by (simp add: snd_logNewReading stamped_pool_query_row)

lemma stamped_createNewCook [stamp_pres]:
  "stamped T d \<Longrightarrow> Created c \<in> T \<Longrightarrow> stamped T (snd (createNewCook p l c d))"
  by (simp add: snd_createNewCook stamped_pool_query_row)

lemma stamped_store_ops [stamp_pres]:
  assumes "stamped T d"
  shows "stamped T (snd (updateCook p l c d))"
    and "stamped T (snd (addReadingsToCook p l ids i d))"
    and "stamped T (snd (removeReadingsFromCook p l ids d))"
    and "stamped T (snd (getOrphanReadingsInRange p l lmt off d))"
    and "stamped T (snd (getCooksInRange p l lmt off d))"
    and "stamped T (snd (getCookById p l l2 i d))"
  using assms snd_getCookById [of p l l2 i d]
  by (auto simp: updateCook_def addReadingsToCook_def removeReadingsFromCook_def snd_getOrphanReadingsInRange
                 snd_getCooksInRange snd_exec_unit Let_def
           intro!: stamped_pool_exec stamped_pool_query stamped_pool_query_row)

text \<open>The definitions that the handler proofs unfold to run a database operation.\<close>

lemmas db_unfold = logNewReading_def createNewCook_def updateCook_def addReadingsToCook_def
  removeReadingsFromCook_def getOrphanReadingsInRange_def getCooksInRange_def getCookById_def
  pool_query_row_def pool_exec_def pool_query_def exec_unit_def exec_set_cook_def exec_clear_cook_def

lemma getCookById_answers:
  assumes "ms1 + ms2 \<le> timeout_ms"
  shows "getCookById Pool_live (Answers ms1) (Answers ms2) i d =
    (case filter (\<lambda>x. cook_row_id x = i) (cooks_tbl d) of
       [] \<Rightarrow> (Err No_rows, d)
     | c # _ \<Rightarrow> (Ok \<lparr>cId = i, Created = cook_row_created c, Description = cook_row_description c,
                     Readings = Some (map reading_of_row (readings_of d i))\<rparr>, d))"
proof -
  have "\<not> timeout_ms - ms1 < ms2" "ms1 \<le> timeout_ms" using assms by arith+
  then show ?thesis
    by (simp add: db_unfold zero_cook_def cook_values_def split: list.split)
qed

text \<open>
  C21. The Go types of every \<open>QueryRow(...).Scan\<close> destination agree with
  the columns the statement returns: a row answered to the inserts' \<open>RETURNING "id"\<close> scans
  into an \<open>int\<close>, and a row answered to the cook lookup scans into a description and a
  creation time, so no scan error is ever returned.
\<close>

theorem scan_types_agree:
  assumes "fst (pool_query_row p b l st ps d) = Ok row"
  shows "(st = Insert_reading \<or> st = Insert_cook \<longrightarrow> (\<exists>k. scan_id row = Inr k)) \<and>
         (st = Select_cook \<longrightarrow> (\<exists>desc cr. scan_desc_created row = Inr (desc, cr)))"
proof -
  obtain d' where "pool_query_row p b l st ps d = (Ok row, d')" using assms by (cases "pool_query_row p b l st ps d") auto
  then show ?thesis using pool_query_row_shape by fastforce
qed

section \<open>Witnesses\<close>

theorem in_params_makeWhereInVarsForArray_witness:
  "(0::int) \<le> 1 \<and> in_params (makeWhereInVarsForArray 3 1) = Some [2, 3, 4]"
  using in_params_makeWhereInVarsForArray [of 1 3] by (simp add: upto.simps)

theorem addReadingsToCook_spec_witness:
  "[1, 3::int] \<noteq> [] \<and> (5::nat) \<le> timeout_ms \<and>
   addReadingsToCook Pool_live (Answers 5) [1, 3] 2 sample_db =
     (Ok (), sample_db\<lparr>readings_tbl := set_cook_id [1, 3] (Some 2) (readings_tbl sample_db)\<rparr>)"
  using addReadingsToCook_spec [of "[1, 3]" 5 2 sample_db]
  by (simp add: timeout_ms_def sample_db_def cook_ids_def)

theorem removeReadingsFromCook_spec_witness:
  "[2::int] \<noteq> [] \<and> (5::nat) \<le> timeout_ms \<and>
   removeReadingsFromCook Pool_live (Answers 5) [2] sample_db =
     (Ok (), sample_db\<lparr>readings_tbl := set_cook_id [2] None (readings_tbl sample_db)\<rparr>)"
  using removeReadingsFromCook_spec [of "[2]" 5 sample_db]
  by (simp add: timeout_ms_def)

theorem getOrphanReadingsInRange_page_witness:
  "fst (getOrphanReadingsInRange Pool_live (Answers 5) 1 0 sample_db) =
     Ok [reading_of_row (hd (orphans sample_db))] \<and>
   length [reading_of_row (hd (orphans sample_db))] \<le> nat 1"
proof -
  have q: "fst (getOrphanReadingsInRange Pool_live (Answers 5) 1 0 sample_db) = Ok [reading_of_row (hd (orphans sample_db))]"
    by (simp add: getOrphanReadingsInRange_def pool_query_def exec_select_orphans_def timeout_ms_def
                  orphans_def sample_db_def processReadingsRow_def)
  show ?thesis using q getOrphanReadingsInRange_page [OF q] by simp
qed



theorem getCookById_found_witness:
  "wf_db sample_db \<and> hd (cooks_tbl sample_db) \<in> set (cooks_tbl sample_db) \<and> (3::nat) + 4 \<le> timeout_ms \<and>
   getCookById Pool_live (Answers 3) (Answers 4) 1 sample_db =
     (Ok \<lparr>cId = 1, Created = 50, Description = ''Brisket'',
          Readings = Some (map reading_of_row (readings_of sample_db 1))\<rparr>, sample_db)"
proof -
  have h: "wf_db sample_db" "hd (cooks_tbl sample_db) \<in> set (cooks_tbl sample_db)" "(3::nat) + 4 \<le> timeout_ms"
    by (rule wf_sample_db) (simp_all add: sample_db_def timeout_ms_def)
  show ?thesis using h getCookById_found [OF h] by (simp add: sample_db_def)
qed

theorem getCookById_not_found_witness:
  "(5::nat) \<le> timeout_ms \<and>
   getCookById Pool_live (Answers 5) (Answers 5) 7 sample_db = (Err No_rows, sample_db)"
proof -
  have h: "\<forall>c \<in> set (cooks_tbl sample_db). cook_row_id c \<noteq> 7" "(5::nat) \<le> timeout_ms"
    by (simp_all add: sample_db_def timeout_ms_def)
  show ?thesis using h getCookById_not_found [OF h] by simp
qed

theorem getCookById_shared_deadline_witness:
  "wf_db sample_db \<and> hd (cooks_tbl sample_db) \<in> set (cooks_tbl sample_db) \<and> (6000::nat) \<le> timeout_ms \<and>
   timeout_ms < 6000 + 5000 \<and>
   getCookById Pool_live (Answers 6000) (Answers 5000) 1 sample_db =
     (Ok \<lparr>cId = 1, Created = 50, Description = ''Brisket'', Readings = Some []\<rparr>, sample_db)"
proof -
  have h: "wf_db sample_db" "hd (cooks_tbl sample_db) \<in> set (cooks_tbl sample_db)" "(6000::nat) \<le> timeout_ms"
      "timeout_ms < 6000 + 5000"
    by (rule wf_sample_db) (simp_all add: sample_db_def timeout_ms_def)
  show ?thesis using h getCookById_shared_deadline [OF h] by (simp add: sample_db_def)
qed

theorem logNewReading_spec_witness:
  "(5::nat) \<le> timeout_ms \<and>
   fst (logNewReading Pool_live (Answers 5) (zero_reading\<lparr>Timestamp := 400\<rparr>) sample_db) =
     Ok (zero_reading\<lparr>Timestamp := 400, rId := 4\<rparr>)"
proof -
  have h: "(5::nat) \<le> timeout_ms" by (simp add: timeout_ms_def)
  show ?thesis using h logNewReading_spec [OF h, of "zero_reading\<lparr>Timestamp := 400\<rparr>" sample_db]
    by (simp add: sample_db_def)
qed

theorem updateCook_spec_witness:
  "(5::nat) \<le> timeout_ms \<and>
   updateCook Pool_live (Answers 5) (zero_cook\<lparr>cId := 9, Description := ''x''\<rparr>) sample_db = (Ok (), sample_db)"
proof -
  have h: "(5::nat) \<le> timeout_ms" by (simp add: timeout_ms_def)
  show ?thesis using h updateCook_spec [OF h, of "zero_cook\<lparr>cId := 9, Description := ''x''\<rparr>" sample_db]
    by (simp add: sample_db_def zero_cook_def)
qed

theorem write_deadline_witness:
  "timeout_ms < 20000 \<and> addReadingsToCook Pool_live (Answers 20000) [1] 2 sample_db = (Err Deadline_exceeded, sample_db)"
proof -
  have h: "timeout_ms < 20000" by (simp add: timeout_ms_def)
  show ?thesis using h write_deadline [OF h, of zero_reading sample_db zero_cook "[1]" 2] by simp
qed

theorem rows_err_swallowed_witness:
  "getOrphanReadingsInRange Pool_live (Answers 20000) 20 0 sample_db = (Ok [], sample_db) \<and>
   getOrphanReadingsInRange Pool_live (Answers 5) (-1) 0 sample_db = (Ok [], sample_db)"
  using rows_err_swallowed [of 20000 20 0 sample_db] rows_err_swallowed [of 5 "-1" 0 sample_db]
  by (simp add: timeout_ms_def)

theorem scan_types_agree_witness:
  "fst (pool_query_row Pool_live timeout_ms (Answers 5) Insert_cook [V_text ''Pork'', V_time 1000] sample_db) = Ok [V_int 3] \<and>
   (\<exists>k. scan_id [V_int 3] = Inr k)"
proof -
  have h: "fst (pool_query_row Pool_live timeout_ms (Answers 5) Insert_cook [V_text ''Pork'', V_time 1000] sample_db) = Ok [V_int 3]"
    by (simp add: pool_query_row_def pool_exec_def timeout_ms_def sample_db_def)
  show ?thesis using h scan_types_agree [OF h] by simp
qed

end
