(* ===== verification/Http_Util.thy ===== *)
theory Http_Util
  imports Types Strconv
begin

text \<open>
  The HTTP support utilities that \<open>api.go\<close> calls but that are not under \<open>src/\<close>:
  \<open>jsonResponse\<close>, \<open>errorResponse\<close> and \<open>getLimitOffset\<close>, modelled from the spec
  (section 4.3), and the request the handlers read. A response is what the handler
  writes to its \<open>http.ResponseWriter\<close>: a value serialised as JSON with a success
  status, or the \<open>Message\<close> envelope \<open>{error: true, message: err.Error()}\<close> with a
  failure status.
\<close>

section \<open>Requests\<close>

text \<open>
  The fields of \<open>http.Request\<close> the program reads: method, path, query, the body
  (\<open>ioutil.ReadAll(req.Body)\<close> either fails or gives its text), and the referer, client
  address and user agent that the logging middleware records. \<open>json.Unmarshal\<close>
  is library code and enters as an interface: one decoding function per Go type the
  handlers decode into, each starting from the type's zero value. The lemmas about the
  handlers hold for every decoder.
\<close>

datatype body_read = Read_failed string | Body string

record request =
  rq_method :: string
  rq_path :: string
  rq_query :: "(string \<times> string) list"
  rq_body :: body_read
  rq_referer :: string
  rq_remote_addr :: string
  rq_user_agent :: string

record decoder =
  dec_reading :: "string \<Rightarrow> error + reading"
  dec_cook :: "string \<Rightarrow> error + cook"
  dec_update :: "string \<Rightarrow> error + cook_reading_update"

section \<open>Responses\<close>

datatype payload =
    P_message message
  | P_reading reading
  | P_readings "reading list"
  | P_cook cook
  | P_cooks "cook list"

datatype response = Json_response payload | Error_response message

definition jsonResponse :: "payload \<Rightarrow> response" where
  "jsonResponse v = Json_response v"

definition errorResponse :: "error \<Rightarrow> response" where
  "errorResponse e = Error_response \<lparr>Error = True, Message = error_text e\<rparr>"

text \<open>
  The spec fixes only the class of the status: 2xx for \<open>jsonResponse\<close>, a failure status
  for \<open>errorResponse\<close> (the exact code is not visible; 500 is taken).
\<close>

fun response_status :: "response \<Rightarrow> nat" where
  "response_status (Json_response _) = 200"
| "response_status (Error_response _) = 500"

definition ok_message :: message where
  "ok_message = \<lparr>Error = False, Message = ''ok''\<rparr>"

section \<open>Pagination parameters\<close>

text \<open>
  \<open>getLimitOffset\<close>: the first value of each query parameter, parsed with
  \<open>strconv.Atoi\<close>; an absent or empty parameter takes the default the spec suggests
  (limit 20, offset 0).
\<close>

definition default_limit :: int where
  "default_limit = 20"

definition query_int :: "(string \<times> string) list \<Rightarrow> string \<Rightarrow> int \<Rightarrow> error + int" where
  "query_int q k dflt =
     (case map_of q k of
        None \<Rightarrow> Inr dflt
      | Some s \<Rightarrow> (if s = [] then Inr dflt else atoi s))"

definition getLimitOffset :: "request \<Rightarrow> error + int \<times> int" where
  "getLimitOffset r =
     (case query_int (rq_query r) ''limit'' default_limit of
        Inl e \<Rightarrow> Inl e
      | Inr limit \<Rightarrow>
          (case query_int (rq_query r) ''offset'' 0 of
             Inl e \<Rightarrow> Inl e
           | Inr offset \<Rightarrow> Inr (limit, offset)))"

end
