(* ===== verification/Api.thy ===== *)
theory Api
  imports Database Http_Util
begin

text \<open>
  The HTTP API layer, \<open>src/server/api.go\<close>: one definition per handler, in the file's
  order, and the route table of \<open>runHttpServer\<close> with gorilla/mux's matching. A handler
  takes the environment of the request (the clock that \<open>time.Now()\<close> reads, the links of
  its store round trips, the JSON decoder), the path variables that the router stored,
  the request and the world (the pool and the store), and returns the response it
  writes, or \<open>None\<close> when it panics (net/http then closes the connection without a
  response), with the new world.
\<close>

section \<open>World and environment\<close>

record world =
  w_pool :: pool
  w_db :: db

text \<open>
  A handler makes at most two round trips; \<open>link1\<close> is the environment's answer to the
  first and \<open>link2\<close> to the second.
\<close>

record env =
  clock :: time
  link1 :: link
  link2 :: link
  json :: decoder

type_synonym handler = "env \<Rightarrow> (string \<times> string) list \<Rightarrow> request \<Rightarrow> world \<Rightarrow> response option \<times> world"

section \<open>Shared steps of the handlers\<close>

text \<open>\<open>id, err := strconv.Atoi(vars["id"])\<close>: a missing variable reads as the empty string.\<close>

definition path_id :: "(string \<times> string) list \<Rightarrow> error + int" where
  "path_id vars = atoi (case map_of vars ''id'' of None \<Rightarrow> [] | Some s \<Rightarrow> s)"

text \<open>
  The closing pattern of every handler: \<open>if err != nil { errorResponse(w, err); return }\<close>
  followed by \<open>jsonResponse(w, x)\<close>; a panic in the store call leaves no response.
\<close>

definition respond :: "('a \<Rightarrow> payload) \<Rightarrow> 'a outcome \<times> db \<Rightarrow> world \<Rightarrow> response option \<times> world" where
  "respond f r w =
     (case r of
        (Ok v, d') \<Rightarrow> (Some (jsonResponse (f v)), w\<lparr>w_db := d'\<rparr>)
      | (Err e, d') \<Rightarrow> (Some (errorResponse e), w\<lparr>w_db := d'\<rparr>)
      | (Panic, d') \<Rightarrow> (None, w\<lparr>w_db := d'\<rparr>))"

definition fail :: "error \<Rightarrow> world \<Rightarrow> response option \<times> world" where
  "fail e w = (Some (errorResponse e), w)"

text \<open>\<open>ioutil.ReadAll\<close> and then \<open>json.Unmarshal\<close> into a fresh variable.\<close>

definition read_decode :: "(string \<Rightarrow> error + 'a) \<Rightarrow> request \<Rightarrow> error + 'a" where
  "read_decode dec r = (case rq_body r of Read_failed m \<Rightarrow> Inl (Body_error m) | Body b \<Rightarrow> dec b)"

section \<open>Handlers\<close>

definition getStatus :: handler where
  "getStatus e vars r w = (Some (jsonResponse (P_message ok_message)), w)"

definition postReading :: handler where
  "postReading e vars r w =
     (case read_decode (dec_reading (json e)) r of
        Inl err \<Rightarrow> fail err w
      | Inr reading \<Rightarrow>
          respond P_reading
            (logNewReading (w_pool w) (link1 e) (reading\<lparr>Timestamp := clock e\<rparr>) (w_db w)) w)"

definition getReadings :: handler where
  "getReadings e vars r w =
     (case getLimitOffset r of
        Inl err \<Rightarrow> fail err w
      | Inr (limit, offset) \<Rightarrow>
          respond P_readings (getOrphanReadingsInRange (w_pool w) (link1 e) limit offset (w_db w)) w)"

text \<open>
  \<open>saveCook\<close> serves both \<open>POST /api/cook\<close> and \<open>PUT /api/cook/{id}\<close> and branches on
  the method; the response echoes the decoded cook, with the new id after a create.
\<close>

definition saveCook :: handler where
  "saveCook e vars r w =
     (case read_decode (dec_cook (json e)) r of
        Inl err \<Rightarrow> fail err w
      | Inr cook \<Rightarrow>
          (if rq_method r = ''POST'' then
             respond P_cook (createNewCook (w_pool w) (link1 e) (cook\<lparr>Created := clock e\<rparr>) (w_db w)) w
           else if rq_method r = ''PUT'' then
             (case path_id vars of
                Inl err \<Rightarrow> fail err w
              | Inr i \<Rightarrow>
                  (if i \<noteq> cId cook then fail (New_error ''id mismatch'') w
                   else respond (\<lambda>_. P_cook cook) (updateCook (w_pool w) (link1 e) cook (w_db w)) w))
           else fail (New_error ''bad method'') w))"

definition getCooks :: handler where
  "getCooks e vars r w =
     (case getLimitOffset r of
        Inl err \<Rightarrow> fail err w
      | Inr (limit, offset) \<Rightarrow>
          respond P_cooks (getCooksInRange (w_pool w) (link1 e) limit offset (w_db w)) w)"

definition getCook :: handler where
  "getCook e vars r w =
     (case path_id vars of
        Inl err \<Rightarrow> fail err w
      | Inr i \<Rightarrow> respond P_cook (getCookById (w_pool w) (link1 e) (link2 e) i (w_db w)) w)"

text \<open>
  The tail of \<open>updateCookReadings\<close>: the removal, when the list is not empty, and the
  generic \<open>ok\<close> message. \<open>l\<close> is the link of the removal's round trip (the first or the
  second of the request, depending on whether the additions ran).
\<close>

definition remove_then_ok :: "link \<Rightarrow> int list \<Rightarrow> world \<Rightarrow> response option \<times> world" where
  "remove_then_ok l ids w =
     (if 0 < length ids then
        respond (\<lambda>_. P_message ok_message) (removeReadingsFromCook (w_pool w) l ids (w_db w)) w
      else (Some (jsonResponse (P_message ok_message)), w))"

definition updateCookReadings :: handler where
  "updateCookReadings e vars r w =
     (case path_id vars of
        Inl err \<Rightarrow> fail err w
      | Inr i \<Rightarrow>
          (case read_decode (dec_update (json e)) r of
             Inl err \<Rightarrow> fail err w
           | Inr upd \<Rightarrow>
               (if 0 < length (Add upd) then
                  (case addReadingsToCook (w_pool w) (link1 e) (Add upd) i (w_db w) of
                     (Ok _, d1) \<Rightarrow> remove_then_ok (link2 e) (Remove upd) (w\<lparr>w_db := d1\<rparr>)
                   | (Err err, d1) \<Rightarrow> (Some (errorResponse err), w\<lparr>w_db := d1\<rparr>)
                   | (Panic, d1) \<Rightarrow> (None, w\<lparr>w_db := d1\<rparr>))
                else remove_then_ok (link1 e) (Remove upd) w)))"

section \<open>Routing\<close>

text \<open>
  The route table of \<open>runHttpServer\<close>, in registration order. A path template is a list
  of segments, a literal or a variable \<open>{name}\<close> (mux's default pattern \<open>[^/]+\<close>, a
  non-empty segment); a route without \<open>.Methods(...)\<close> accepts every method.
\<close>

datatype seg = Lit string | Var string

datatype handler_name =
    H_getStatus | H_postReading | H_getReadings | H_saveCook | H_getCooks | H_getCook
  | H_updateCookReadings

definition routes :: "(seg list \<times> string option \<times> handler_name) list" where
  "routes =
     [([Lit ''api''], None, H_getStatus),
      ([Lit ''api'', Lit ''reading''], Some ''POST'', H_postReading),
      ([Lit ''api'', Lit ''reading''], Some ''GET'', H_getReadings),
      ([Lit ''api'', Lit ''cook''], Some ''POST'', H_saveCook),
      ([Lit ''api'', Lit ''cook''], Some ''GET'', H_getCooks),
      ([Lit ''api'', Lit ''cook'', Var ''id''], Some ''GET'', H_getCook),
      ([Lit ''api'', Lit ''cook'', Var ''id''], Some ''PUT'', H_saveCook),
      ([Lit ''api'', Lit ''cook'', Var ''id'', Lit ''readings''], Some ''PUT'', H_updateCookReadings)]"

text \<open>The segments of a path: the text between slashes after the leading one.\<close>

fun split_slash :: "string \<Rightarrow> string list" where
  "split_slash [] = [[]]"
| "split_slash (c # cs) =
     (if c = CHR ''/'' then [] # split_slash cs
      else (case split_slash cs of s # ss \<Rightarrow> (c # s) # ss | [] \<Rightarrow> [[c]]))"

definition path_segments :: "string \<Rightarrow> string list" where
  "path_segments p = (case split_slash p of [] # ss \<Rightarrow> ss | ss \<Rightarrow> ss)"

fun match_segs :: "seg list \<Rightarrow> string list \<Rightarrow> (string \<times> string) list option" where
  "match_segs [] [] = Some []"
| "match_segs (Lit l # ts) (s # ss) = (if l = s then match_segs ts ss else None)"
| "match_segs (Var v # ts) (s # ss) =
     (if s = [] \<or> CHR ''/'' \<in> set s then None else map_option (\<lambda>vs. (v, s) # vs) (match_segs ts ss))"
| "match_segs _ _ = None"

datatype dispatch = Dispatch handler_name "(string \<times> string) list" | Method_not_allowed | Not_found

text \<open>
  mux tries the routes in order: the first whose path and method match wins; when none
  does but some path matched with another method, the answer is 405, otherwise 404.
\<close>

fun mux_match :: "(seg list \<times> string option \<times> handler_name) list \<Rightarrow> string \<Rightarrow> string list \<Rightarrow> bool \<Rightarrow> dispatch" where
  "mux_match [] m ss mismatch = (if mismatch then Method_not_allowed else Not_found)"
| "mux_match ((tpl, meth, h) # rs) m ss mismatch =
     (case match_segs tpl ss of
        None \<Rightarrow> mux_match rs m ss mismatch
      | Some vars \<Rightarrow>
          (if meth = None \<or> meth = Some m then Dispatch h vars else mux_match rs m ss True))"

definition route :: "request \<Rightarrow> dispatch" where
  "route r = mux_match routes (rq_method r) (path_segments (rq_path r)) False"

fun run_handler :: "handler_name \<Rightarrow> handler" where
  "run_handler H_getStatus = getStatus"
| "run_handler H_postReading = postReading"
| "run_handler H_getReadings = getReadings"
| "run_handler H_saveCook = saveCook"
| "run_handler H_getCooks = getCooks"
| "run_handler H_getCook = getCook"
| "run_handler H_updateCookReadings = updateCookReadings"

text \<open>What the server answers one request with.\<close>

datatype reply = Reply response | No_reply | Status_405 | Status_404

definition serve :: "env \<Rightarrow> request \<Rightarrow> world \<Rightarrow> reply \<times> world" where
  "serve e r w =
     (case route r of
        Dispatch h vars \<Rightarrow>
          (case run_handler h e vars r w of
             (Some resp, w') \<Rightarrow> (Reply resp, w')
           | (None, w') \<Rightarrow> (No_reply, w'))
      | Method_not_allowed \<Rightarrow> (Status_405, w)
      | Not_found \<Rightarrow> (Status_404, w))"


section \<open>Sample requests\<close>

text \<open>
  An environment and a world used by the witnesses: the store of \<open>Store.sample_db\<close>
  behind a live pool, links that answer in 5 ms, and a decoder that decodes every body
  to a fixed value (an empty body fails as \<open>json.Unmarshal\<close> does).
\<close>

definition sample_decoder :: decoder where
  "sample_decoder =
     \<lparr>dec_reading = (\<lambda>b. if b = [] then Inl (Json_error ''unexpected end of JSON input'')
                         else Inr (zero_reading\<lparr>Timestamp := 7, MeatTemp := 60\<rparr>)),
      dec_cook = (\<lambda>b. if b = [] then Inl (Json_error ''unexpected end of JSON input'')
                      else Inr (zero_cook\<lparr>cId := 1, Description := b\<rparr>)),
      dec_update = (\<lambda>b. if b = [] then Inl (Json_error ''unexpected end of JSON input'')
                        else Inr \<lparr>Add = [1, 3], Remove = [3]\<rparr>)\<rparr>"

definition sample_env :: env where
  "sample_env = \<lparr>clock = 1000, link1 = Answers 5, link2 = Answers 5, json = sample_decoder\<rparr>"

definition sample_world :: world where
  "sample_world = \<lparr>w_pool = Pool_live, w_db = sample_db\<rparr>"

definition sample_request :: "string \<Rightarrow> string \<Rightarrow> string \<Rightarrow> request" where
  "sample_request m p b =
     \<lparr>rq_method = m, rq_path = p, rq_query = [], rq_body = Body b,
      rq_referer = [], rq_remote_addr = ''10.0.0.2:51000'', rq_user_agent = ''curl/7.68.0''\<rparr>"

section \<open>Shared lemmas\<close>

lemma respond_simps [simp]:
  "respond f (Ok v, d') w = (Some (jsonResponse (f v)), w\<lparr>w_db := d'\<rparr>)"
  "respond f (Err er, d') w = (Some (errorResponse er), w\<lparr>w_db := d'\<rparr>)"
  "respond f (Panic, d') w = (None, w\<lparr>w_db := d'\<rparr>)"
  by (simp_all add: respond_def)

lemma w_db_respond: "w_db (snd (respond f r w)) = snd r"
  by (simp add: respond_def split: prod.split outcome.split)

lemma w_pool_respond: "w_pool (snd (respond f r w)) = w_pool w"
  by (simp add: respond_def split: prod.split outcome.split)

lemma w_fail [simp]: "snd (fail er w) = w"
  by (simp add: fail_def)

lemma split_slash_no_slash: "CHR ''/'' \<notin> set s \<Longrightarrow> split_slash s = [s]"
  by (induction s) auto

lemma split_slash_append: "CHR ''/'' \<notin> set s \<Longrightarrow> split_slash (s @ CHR ''/'' # t) = s # split_slash t"
  by (induction s) auto

lemma itoa_segment: "itoa i \<noteq> [] \<and> CHR ''/'' \<notin> set (itoa i)"
proof -
  have "\<not> is_digit CHR ''/''" by (simp add: is_digit_def)
  then show ?thesis
    using dec_nat_props [of "nat (- i)"] dec_nat_props [of "nat i"]
    by (auto simp: itoa_def list_all_iff)
qed

lemma path_id_itoa:
  "int64_min \<le> i \<Longrightarrow> i \<le> int64_max \<Longrightarrow> path_id [(''id'', itoa i)] = Inr i"
  by (simp add: path_id_def atoi_itoa_roundtrip)

lemma route_cook_id:
  assumes "s \<noteq> []" and "CHR ''/'' \<notin> set s" and "rq_path r = ''/api/cook/'' @ s"
  shows "route r = (if rq_method r = ''GET'' then Dispatch H_getCook [(''id'', s)]
                    else if rq_method r = ''PUT'' then Dispatch H_saveCook [(''id'', s)]
                    else Method_not_allowed)"
  using assms by (simp add: route_def routes_def path_segments_def split_slash_no_slash)

lemma route_cook_readings:
  assumes "s \<noteq> []" and "CHR ''/'' \<notin> set s" and "rq_path r = ''/api/cook/'' @ s @ ''/readings''"
  shows "route r = (if rq_method r = ''PUT'' then Dispatch H_updateCookReadings [(''id'', s)]
                    else Method_not_allowed)"
  using assms by (simp add: route_def routes_def path_segments_def split_slash_append)

lemma route_cook:
  "rq_path r = ''/api/cook'' \<Longrightarrow>
   route r = (if rq_method r = ''POST'' then Dispatch H_saveCook []
              else if rq_method r = ''GET'' then Dispatch H_getCooks [] else Method_not_allowed)"
  by (simp add: route_def routes_def path_segments_def)

lemma nil_run_handler: "w_pool w = Pool_nil \<Longrightarrow> snd (run_handler h e vars r w) = w"
  by (cases h) (simp_all add: getStatus_def postReading_def getReadings_def saveCook_def getCooks_def
      getCook_def updateCookReadings_def remove_then_ok_def respond_def db_unfold split: sum.split)

lemma pool_run_handler: "w_pool (snd (run_handler h e vars r w)) = w_pool w"
  by (cases h) (simp_all add: getStatus_def postReading_def getReadings_def saveCook_def getCooks_def
      getCook_def updateCookReadings_def remove_then_ok_def respond_def split: sum.split prod.split outcome.split)

lemma wf_remove_then_ok: "wf_db (w_db w) \<Longrightarrow> wf_db (w_db (snd (remove_then_ok l ids w)))"
  by (simp add: remove_then_ok_def w_db_respond wf_removeReadingsFromCook)

lemma wf_run_handler [wf_pres]:
  assumes "wf_db (w_db w)"
  shows "wf_db (w_db (snd (run_handler h e vars r w)))"
proof (cases h)
  case H_updateCookReadings
  show ?thesis
  proof (cases "path_id vars")
    case (Inr i)
    show ?thesis
    proof (cases "read_decode (dec_update (json e)) r")
      case (Inr upd)
      obtain o1 d1 where a: "addReadingsToCook (w_pool w) (link1 e) (Add upd) i (w_db w) = (o1, d1)" by fastforce
      have "wf_db d1" using wf_addReadingsToCook [OF assms, of "w_pool w" "link1 e" "Add upd" i] a by simp
      then show ?thesis using assms H_updateCookReadings \<open>path_id vars = Inr i\<close> Inr a
        by (cases o1) (simp_all add: updateCookReadings_def wf_remove_then_ok)
    qed (simp add: H_updateCookReadings updateCookReadings_def \<open>path_id vars = Inr i\<close> assms)
  qed (simp add: H_updateCookReadings updateCookReadings_def assms)
qed (use assms in \<open>simp_all add: getStatus_def postReading_def getReadings_def saveCook_def getCooks_def getCook_def
     w_db_respond wf_pres split: sum.split\<close>)

lemma snd_serve:
  "snd (serve e r w) = (case route r of Dispatch h vars \<Rightarrow> snd (run_handler h e vars r w) | _ \<Rightarrow> w)"
  by (simp add: serve_def split: dispatch.split prod.split option.split)

lemma wf_serve [wf_pres]: "wf_db (w_db w) \<Longrightarrow> wf_db (w_db (snd (serve e r w)))"
  by (simp add: snd_serve wf_run_handler split: dispatch.split)

lemma stamped_remove_then_ok: "stamped T (w_db w) \<Longrightarrow> stamped T (w_db (snd (remove_then_ok l ids w)))"
  by (simp add: remove_then_ok_def w_db_respond stamped_store_ops)

text \<open>
  A handler stores no time but the clock reading of its request: \<open>postReading\<close> and the
  create branch of \<open>saveCook\<close> overwrite the decoded time with \<open>time.Now()\<close>, the
  update branch writes the description only, and the other writes touch \<open>cook_id\<close>.
\<close>

lemma stamped_run_handler [stamp_pres]:
  assumes "stamped T (w_db w)" and "clock e \<in> T"
  shows "stamped T (w_db (snd (run_handler h e vars r w)))"
proof (cases h)
  case H_updateCookReadings
  show ?thesis
  proof (cases "path_id vars")
    case (Inr i)
    show ?thesis
    proof (cases "read_decode (dec_update (json e)) r")
      case (Inr upd)
      obtain o1 d1 where a: "addReadingsToCook (w_pool w) (link1 e) (Add upd) i (w_db w) = (o1, d1)" by fastforce
      have "stamped T d1" using stamped_store_ops(2) [OF assms(1), of "w_pool w" "link1 e" "Add upd" i] a by simp
      then show ?thesis using assms H_updateCookReadings \<open>path_id vars = Inr i\<close> Inr a
        by (cases o1) (simp_all add: updateCookReadings_def stamped_remove_then_ok)
    qed (simp add: H_updateCookReadings updateCookReadings_def \<open>path_id vars = Inr i\<close> assms)
  qed (simp add: H_updateCookReadings updateCookReadings_def assms)
qed (use assms in \<open>simp_all add: getStatus_def postReading_def getReadings_def saveCook_def getCooks_def getCook_def
     w_db_respond stamp_pres split: sum.split\<close>)


section \<open>Properties of the handlers\<close>

text \<open>
  C4. \<open>postReading\<close> stores the decoded reading with the server's clock as
  its timestamp, whatever timestamp the client sent, and answers with the stored reading
  and its new id.
\<close>

theorem postReading_spec:
  assumes "read_decode (dec_reading (json e)) r = Inr rd" and "w_pool w = Pool_live"
    and "link1 e = Answers ms" and "ms \<le> timeout_ms"
  shows "postReading e vars r w =
    (Some (jsonResponse (P_reading (rd\<lparr>Timestamp := clock e, rId := readings_seq (w_db w) + 1\<rparr>))),
     w\<lparr>w_db := (w_db w)\<lparr>readings_tbl := readings_tbl (w_db w) @
                                        [row_of_reading (readings_seq (w_db w) + 1) (rd\<lparr>Timestamp := clock e\<rparr>)],
                         readings_seq := readings_seq (w_db w) + 1\<rparr>\<rparr>)"
  using assms by (simp add: postReading_def db_unfold row_of_reading_def Let_def)

text \<open>
  C19. \<open>POST /api/cook\<close> stores a new cook with the server's clock as its
  creation time and the decoded description, and answers with the decoded cook carrying the
  new id and that time; the \<open>readings\<close> the client sent are echoed and not stored.
\<close>

theorem saveCook_post_spec:
  assumes "rq_method r = ''POST''" and "read_decode (dec_cook (json e)) r = Inr c"
    and "w_pool w = Pool_live" and "link1 e = Answers ms" and "ms \<le> timeout_ms"
  shows "saveCook e vars r w =
    (Some (jsonResponse (P_cook (c\<lparr>Created := clock e, cId := cooks_seq (w_db w) + 1\<rparr>))),
     w\<lparr>w_db := (w_db w)\<lparr>cooks_tbl := cooks_tbl (w_db w) @
                            [\<lparr>cook_row_id = cooks_seq (w_db w) + 1, cook_row_created = clock e,
                              cook_row_description = Description c\<rparr>],
                         cooks_seq := cooks_seq (w_db w) + 1\<rparr>\<rparr>)"
  using assms by (simp add: saveCook_def db_unfold Let_def)

text \<open>
  C5. \<open>PUT /api/cook/{id}\<close> with a body whose id differs from the path's
  id answers with the \<open>id mismatch\<close> error and touches neither the pool nor the store.
\<close>

theorem saveCook_put_mismatch:
  assumes "rq_method r = ''PUT''" and "read_decode (dec_cook (json e)) r = Inr c"
    and "path_id vars = Inr i" and "i \<noteq> cId c"
  shows "saveCook e vars r w = (Some (errorResponse (New_error ''id mismatch'')), w)"
  using assms by (simp add: saveCook_def fail_def)

text \<open>
  C20. \<open>PUT /api/cook/{id}\<close> with matching ids sets the description of that
  cook and answers with the decoded body as it came, including the creation time and
  readings the client sent, which the store never saw.
\<close>

theorem saveCook_put_spec:
  assumes "rq_method r = ''PUT''" and "read_decode (dec_cook (json e)) r = Inr c"
    and "path_id vars = Inr (cId c)" and "w_pool w = Pool_live" and "link1 e = Answers ms"
    and "ms \<le> timeout_ms"
  shows "saveCook e vars r w =
    (Some (jsonResponse (P_cook c)),
     w\<lparr>w_db := (w_db w)\<lparr>cooks_tbl := map (\<lambda>x. if cook_row_id x = cId c
                                               then x\<lparr>cook_row_description := Description c\<rparr> else x)
                                         (cooks_tbl (w_db w))\<rparr>\<rparr>)"
  using assms by (simp add: saveCook_def db_unfold)

text \<open>
  C14. \<open>PUT /api/cook/{id}/readings\<close> with empty \<open>add\<close> and
  \<open>remove\<close> lists makes no store call (so it succeeds even with a nil pool) and answers with
  the generic ok message.
\<close>

theorem updateCookReadings_empty:
  assumes "path_id vars = Inr i" and "read_decode (dec_update (json e)) r = Inr upd"
    and "Add upd = []" and "Remove upd = []"
  shows "updateCookReadings e vars r w = (Some (jsonResponse (P_message ok_message)), w)"
  using assms by (simp add: updateCookReadings_def remove_then_ok_def)

text \<open>
  C3. \<open>PUT /api/cook/{id}/readings\<close> with both lists non-empty assigns
  the \<open>add\<close> readings to the cook and then orphans the \<open>remove\<close> readings, in that order;
  the two writes are not atomic: when the second round trip misses its deadline the
  handler answers with the deadline error while the first write stays committed.
\<close>

theorem updateCookReadings_spec:
  assumes "path_id vars = Inr i" and "read_decode (dec_update (json e)) r = Inr upd"
    and "Add upd \<noteq> []" and "Remove upd \<noteq> []" and "w_pool w = Pool_live"
    and "link1 e = Answers ms1" and "link2 e = Answers ms2" and "ms1 \<le> timeout_ms"
    and "i \<in> set (cook_ids (w_db w))"
  shows "updateCookReadings e vars r w =
    (if timeout_ms < ms2
     then (Some (errorResponse Deadline_exceeded),
           w\<lparr>w_db := (w_db w)\<lparr>readings_tbl := set_cook_id (Add upd) (Some i) (readings_tbl (w_db w))\<rparr>\<rparr>)
     else (Some (jsonResponse (P_message ok_message)),
           w\<lparr>w_db := (w_db w)\<lparr>readings_tbl :=
              set_cook_id (Remove upd) None (set_cook_id (Add upd) (Some i) (readings_tbl (w_db w)))\<rparr>\<rparr>))"
  using assms set_cook_in_binds [OF assms(3), of i] clear_cook_in_binds [OF assms(4)]
  by (simp add: updateCookReadings_def remove_then_ok_def db_unfold)

text \<open>
  C31. Input errors are answered before any store call, with the error as message and
  the world unchanged: a body that cannot be read or decoded in \<open>postReading\<close>,
  \<open>saveCook\<close> and \<open>updateCookReadings\<close>, and a \<open>limit\<close> query parameter that
  \<open>strconv.Atoi\<close> rejects in both list handlers.
\<close>

theorem decode_errors:
  "(read_decode (dec_reading (json e)) r = Inl er \<longrightarrow> postReading e vars r w = (Some (errorResponse er), w)) \<and>
   (read_decode (dec_cook (json e)) r = Inl er \<longrightarrow> saveCook e vars r w = (Some (errorResponse er), w)) \<and>
   (path_id vars = Inr i \<longrightarrow> read_decode (dec_update (json e)) r = Inl er \<longrightarrow>
      updateCookReadings e vars r w = (Some (errorResponse er), w)) \<and>
   (map_of (rq_query r) ''limit'' = Some s \<longrightarrow> s \<noteq> [] \<longrightarrow> atoi s = Inl er \<longrightarrow>
      getReadings e vars r w = (Some (errorResponse er), w) \<and> getCooks e vars r w = (Some (errorResponse er), w))"
  by (simp add: postReading_def saveCook_def updateCookReadings_def getReadings_def getCooks_def
                getLimitOffset_def query_int_def fail_def)

section \<open>Properties of the route table\<close>

text \<open>
  C15. Every request to \<open>/api\<close>, whatever its method and whatever the state of
  the pool and the store, is answered with \<open>{error: false, message: "ok"}\<close> and changes
  nothing.
\<close>

theorem serve_status:
  "rq_path r = ''/api'' \<Longrightarrow> serve e r w = (Reply (jsonResponse (P_message ok_message)), w)"
  by (simp add: serve_def route_def routes_def path_segments_def getStatus_def)

text \<open>
  C23. The router hands \<open>saveCook\<close> only \<open>POST\<close> and \<open>PUT\<close> requests, so its
  \<open>bad method\<close> branch is unreachable from the server.
\<close>

theorem route_saveCook:
  "route r = Dispatch H_saveCook vars \<Longrightarrow> rq_method r = ''POST'' \<or> rq_method r = ''PUT''"
  by (auto simp: route_def routes_def split: option.splits if_splits)

text \<open>
  C22. \<open>GET /api/cook/<i>\<close>, for the decimal text of any 64-bit id, runs
  \<open>getCookById(i)\<close> and answers with its cook or its error.
\<close>

theorem serve_get_cook:
  assumes "int64_min \<le> i" and "i \<le> int64_max"
    and "rq_method r = ''GET''" and "rq_path r = ''/api/cook/'' @ itoa i"
  shows "serve e r w =
    (case getCookById (w_pool w) (link1 e) (link2 e) i (w_db w) of
       (Ok c, d) \<Rightarrow> (Reply (jsonResponse (P_cook c)), w\<lparr>w_db := d\<rparr>)
     | (Err er, d) \<Rightarrow> (Reply (errorResponse er), w\<lparr>w_db := d\<rparr>)
     | (Panic, d) \<Rightarrow> (No_reply, w\<lparr>w_db := d\<rparr>))"
proof -
  have "route r = Dispatch H_getCook [(''id'', itoa i)]"
    using route_cook_id [of "itoa i" r] itoa_segment [of i] assms(3,4) by simp
  then show ?thesis
    using path_id_itoa [OF assms(1,2)]
    by (simp add: serve_def getCook_def respond_def split: prod.split outcome.split)
qed


section \<open>Witnesses\<close>

theorem postReading_spec_witness:
  "read_decode (dec_reading (json sample_env)) (sample_request ''POST'' ''/api/reading'' ''{}'') =
     Inr (zero_reading\<lparr>Timestamp := 7, MeatTemp := 60\<rparr>) \<and>
   w_pool sample_world = Pool_live \<and> link1 sample_env = Answers 5 \<and> (5::nat) \<le> timeout_ms \<and>
   fst (postReading sample_env [] (sample_request ''POST'' ''/api/reading'' ''{}'') sample_world) =
     Some (jsonResponse (P_reading (zero_reading\<lparr>Timestamp := 1000, MeatTemp := 60, rId := 4\<rparr>)))"
proof -
  have h: "read_decode (dec_reading (json sample_env)) (sample_request ''POST'' ''/api/reading'' ''{}'') =
             Inr (zero_reading\<lparr>Timestamp := 7, MeatTemp := 60\<rparr>)"
    "w_pool sample_world = Pool_live" "link1 sample_env = Answers 5" "(5::nat) \<le> timeout_ms"
    by (simp_all add: read_decode_def sample_env_def sample_decoder_def sample_request_def sample_world_def timeout_ms_def)
  show ?thesis using h postReading_spec [OF h, of "[]"]
    by (simp add: sample_world_def sample_env_def sample_db_def zero_reading_def)
qed

theorem saveCook_post_spec_witness:
  "rq_method (sample_request ''POST'' ''/api/cook'' ''Pork'') = ''POST'' \<and>
   read_decode (dec_cook (json sample_env)) (sample_request ''POST'' ''/api/cook'' ''Pork'') =
     Inr (zero_cook\<lparr>cId := 1, Description := ''Pork''\<rparr>) \<and>
   w_pool sample_world = Pool_live \<and> link1 sample_env = Answers 5 \<and> (5::nat) \<le> timeout_ms \<and>
   fst (saveCook sample_env [] (sample_request ''POST'' ''/api/cook'' ''Pork'') sample_world) =
     Some (jsonResponse (P_cook (zero_cook\<lparr>cId := 3, Description := ''Pork'', Created := 1000\<rparr>)))"
proof -
  have h: "rq_method (sample_request ''POST'' ''/api/cook'' ''Pork'') = ''POST''"
    "read_decode (dec_cook (json sample_env)) (sample_request ''POST'' ''/api/cook'' ''Pork'') =
       Inr (zero_cook\<lparr>cId := 1, Description := ''Pork''\<rparr>)"
    "w_pool sample_world = Pool_live" "link1 sample_env = Answers 5" "(5::nat) \<le> timeout_ms"
    by (simp_all add: read_decode_def sample_env_def sample_decoder_def sample_request_def sample_world_def timeout_ms_def)
  show ?thesis using h saveCook_post_spec [OF h, of "[]"]
    by (simp add: sample_world_def sample_env_def sample_db_def zero_cook_def)
qed

theorem saveCook_put_mismatch_witness:
  "rq_method (sample_request ''PUT'' ''/api/cook/2'' ''Pork'') = ''PUT'' \<and>
   read_decode (dec_cook (json sample_env)) (sample_request ''PUT'' ''/api/cook/2'' ''Pork'') =
     Inr (zero_cook\<lparr>cId := 1, Description := ''Pork''\<rparr>) \<and>
   path_id [(''id'', itoa 2)] = Inr 2 \<and> (2::int) \<noteq> cId (zero_cook\<lparr>cId := 1, Description := ''Pork''\<rparr>) \<and>
   saveCook sample_env [(''id'', itoa 2)] (sample_request ''PUT'' ''/api/cook/2'' ''Pork'') sample_world =
     (Some (errorResponse (New_error ''id mismatch'')), sample_world)"
proof -
  have h: "rq_method (sample_request ''PUT'' ''/api/cook/2'' ''Pork'') = ''PUT''"
    "read_decode (dec_cook (json sample_env)) (sample_request ''PUT'' ''/api/cook/2'' ''Pork'') =
       Inr (zero_cook\<lparr>cId := 1, Description := ''Pork''\<rparr>)"
    "path_id [(''id'', itoa 2)] = Inr 2" "(2::int) \<noteq> cId (zero_cook\<lparr>cId := 1, Description := ''Pork''\<rparr>)"
    by (simp_all add: read_decode_def sample_env_def sample_decoder_def sample_request_def path_id_itoa
                      int64_min_def int64_max_def)
  show ?thesis using h saveCook_put_mismatch [OF h, of sample_world] by simp
qed


theorem saveCook_put_spec_witness:
  "rq_method (sample_request ''PUT'' ''/api/cook/1'' ''Pork'') = ''PUT'' \<and>
   read_decode (dec_cook (json sample_env)) (sample_request ''PUT'' ''/api/cook/1'' ''Pork'') =
     Inr (zero_cook\<lparr>cId := 1, Description := ''Pork''\<rparr>) \<and>
   path_id [(''id'', itoa 1)] = Inr (cId (zero_cook\<lparr>cId := 1, Description := ''Pork''\<rparr>)) \<and>
   w_pool sample_world = Pool_live \<and> link1 sample_env = Answers 5 \<and> (5::nat) \<le> timeout_ms \<and>
   map cook_row_description (cooks_tbl (w_db (snd
     (saveCook sample_env [(''id'', itoa 1)] (sample_request ''PUT'' ''/api/cook/1'' ''Pork'') sample_world)))) =
     [''Pork'', ''Ribs'']"
proof -
  have h: "rq_method (sample_request ''PUT'' ''/api/cook/1'' ''Pork'') = ''PUT''"
    "read_decode (dec_cook (json sample_env)) (sample_request ''PUT'' ''/api/cook/1'' ''Pork'') =
       Inr (zero_cook\<lparr>cId := 1, Description := ''Pork''\<rparr>)"
    "path_id [(''id'', itoa 1)] = Inr (cId (zero_cook\<lparr>cId := 1, Description := ''Pork''\<rparr>))"
    "w_pool sample_world = Pool_live" "link1 sample_env = Answers 5" "(5::nat) \<le> timeout_ms"
    by (simp_all add: read_decode_def sample_env_def sample_decoder_def sample_request_def sample_world_def
                      timeout_ms_def path_id_itoa int64_min_def int64_max_def)
  show ?thesis using h saveCook_put_spec [OF h]
    by (simp add: sample_world_def sample_db_def)
qed

theorem updateCookReadings_empty_witness:
  "path_id [(''id'', itoa 2)] = Inr 2 \<and>
   read_decode (\<lambda>b. Inr \<lparr>Add = [], Remove = []\<rparr>) (sample_request ''PUT'' ''/api/cook/2/readings'' ''{}'') =
     Inr \<lparr>Add = [], Remove = []\<rparr> \<and>
   Add \<lparr>Add = [], Remove = []\<rparr> = [] \<and> Remove \<lparr>Add = [], Remove = []\<rparr> = [] \<and>
   updateCookReadings (sample_env\<lparr>json := sample_decoder\<lparr>dec_update := \<lambda>b. Inr \<lparr>Add = [], Remove = []\<rparr>\<rparr>\<rparr>)
     [(''id'', itoa 2)] (sample_request ''PUT'' ''/api/cook/2/readings'' ''{}'') (sample_world\<lparr>w_pool := Pool_nil\<rparr>) =
     (Some (jsonResponse (P_message ok_message)), sample_world\<lparr>w_pool := Pool_nil\<rparr>)"
proof -
  have h: "path_id [(''id'', itoa 2)] = Inr 2"
    "read_decode (dec_update (json (sample_env\<lparr>json := sample_decoder\<lparr>dec_update := \<lambda>b. Inr \<lparr>Add = [], Remove = []\<rparr>\<rparr>\<rparr>)))
       (sample_request ''PUT'' ''/api/cook/2/readings'' ''{}'') = Inr \<lparr>Add = [], Remove = []\<rparr>"
    "Add \<lparr>Add = [], Remove = []\<rparr> = []" "Remove \<lparr>Add = [], Remove = []\<rparr> = []"
    by (simp_all add: read_decode_def sample_request_def path_id_itoa int64_min_def int64_max_def)
  show ?thesis using h updateCookReadings_empty [OF h, of "sample_world\<lparr>w_pool := Pool_nil\<rparr>"]
    by (simp add: read_decode_def sample_request_def)
qed

theorem updateCookReadings_spec_witness:
  "path_id [(''id'', itoa 2)] = Inr 2 \<and>
   read_decode (dec_update (json sample_env)) (sample_request ''PUT'' ''/api/cook/2/readings'' ''{}'') =
     Inr \<lparr>Add = [1, 3], Remove = [3]\<rparr> \<and>
   Add \<lparr>Add = [1, 3::int], Remove = [3]\<rparr> \<noteq> [] \<and> Remove \<lparr>Add = [1, 3::int], Remove = [3]\<rparr> \<noteq> [] \<and>
   w_pool sample_world = Pool_live \<and> link1 sample_env = Answers 5 \<and> link2 sample_env = Answers 5 \<and>
   (5::nat) \<le> timeout_ms \<and> (2::int) \<in> set (cook_ids (w_db sample_world)) \<and>
   map row_cook_id (readings_tbl (w_db (snd (updateCookReadings sample_env [(''id'', itoa 2)]
      (sample_request ''PUT'' ''/api/cook/2/readings'' ''{}'') sample_world)))) = [Some 2, Some 1, None]"
proof -
  have h: "path_id [(''id'', itoa 2)] = Inr 2"
    "read_decode (dec_update (json sample_env)) (sample_request ''PUT'' ''/api/cook/2/readings'' ''{}'') =
       Inr \<lparr>Add = [1, 3], Remove = [3]\<rparr>"
    "Add \<lparr>Add = [1, 3::int], Remove = [3]\<rparr> \<noteq> []" "Remove \<lparr>Add = [1, 3::int], Remove = [3]\<rparr> \<noteq> []"
    "w_pool sample_world = Pool_live" "link1 sample_env = Answers 5" "link2 sample_env = Answers 5"
    "(5::nat) \<le> timeout_ms" "(2::int) \<in> set (cook_ids (w_db sample_world))"
    by (simp_all add: read_decode_def sample_env_def sample_decoder_def sample_request_def sample_world_def
                      timeout_ms_def path_id_itoa int64_min_def int64_max_def sample_db_def cook_ids_def)
  show ?thesis using h updateCookReadings_spec [OF h]
    by (simp add: sample_world_def sample_db_def timeout_ms_def set_cook_id_def)
qed

theorem decode_errors_witness:
  "postReading sample_env [] (sample_request ''POST'' ''/api/reading'' []) sample_world =
     (Some (errorResponse (Json_error ''unexpected end of JSON input'')), sample_world) \<and>
   getCooks sample_env [] (sample_request ''GET'' ''/api/cook'' []\<lparr>rq_query := [(''limit'', ''ten'')]\<rparr>) sample_world =
     (Some (errorResponse (Syntax_error ''ten'')), sample_world)"
proof -
  have "atoi ''ten'' = Inl (Syntax_error ''ten'')" by (simp add: model_eval)
  then show ?thesis
    using decode_errors [of sample_env "sample_request ''POST'' ''/api/reading'' []"
                            "Json_error ''unexpected end of JSON input''" "[]" sample_world]
          decode_errors [of sample_env "sample_request ''GET'' ''/api/cook'' []\<lparr>rq_query := [(''limit'', ''ten'')]\<rparr>"
                            "Syntax_error ''ten''" "[]" sample_world _ "''ten''"]
    by (simp add: read_decode_def sample_env_def sample_decoder_def sample_request_def)
qed

theorem serve_status_witness:
  "rq_path (sample_request ''DELETE'' ''/api'' []) = ''/api'' \<and>
   serve sample_env (sample_request ''DELETE'' ''/api'' []) (sample_world\<lparr>w_pool := Pool_nil\<rparr>) =
     (Reply (jsonResponse (P_message ok_message)), sample_world\<lparr>w_pool := Pool_nil\<rparr>)"
  using serve_status [of "sample_request ''DELETE'' ''/api'' []" sample_env "sample_world\<lparr>w_pool := Pool_nil\<rparr>"]
  by (simp add: sample_request_def)

theorem route_saveCook_witness:
  "route (sample_request ''PUT'' ''/api/cook/5'' []) = Dispatch H_saveCook [(''id'', ''5'')] \<and>
   (rq_method (sample_request ''PUT'' ''/api/cook/5'' []) = ''POST'' \<or>
    rq_method (sample_request ''PUT'' ''/api/cook/5'' []) = ''PUT'')"
proof -
  have h: "route (sample_request ''PUT'' ''/api/cook/5'' []) = Dispatch H_saveCook [(''id'', ''5'')]"
    by (simp add: route_def routes_def path_segments_def sample_request_def)
  show ?thesis using h route_saveCook [OF h] by simp
qed

theorem serve_get_cook_witness:
  "int64_min \<le> 1 \<and> (1::int) \<le> int64_max \<and> rq_method (sample_request ''GET'' (''/api/cook/'' @ itoa 1) []) = ''GET'' \<and>
   fst (serve sample_env (sample_request ''GET'' (''/api/cook/'' @ itoa 1) []) sample_world) =
     Reply (jsonResponse (P_cook \<lparr>cId = 1, Created = 50, Description = ''Brisket'',
                                 Readings = Some [reading_of_row (readings_tbl sample_db ! 1)]\<rparr>))"
proof -
  have h: "int64_min \<le> 1" "(1::int) \<le> int64_max" "rq_method (sample_request ''GET'' (''/api/cook/'' @ itoa 1) []) = ''GET''"
    "rq_path (sample_request ''GET'' (''/api/cook/'' @ itoa 1) []) = ''/api/cook/'' @ itoa 1"
    by (simp_all add: int64_min_def int64_max_def sample_request_def)
  show ?thesis using h serve_get_cook [OF h, of sample_env sample_world]
    by (simp add: sample_env_def sample_world_def sample_db_def db_unfold zero_cook_def
                  processReadingsRow_def timeout_ms_def reading_values_def cook_values_def reading_of_row_def readings_of_def)
qed

end
