(* ===== verification/Logging.thy ===== *)
theory Logging
  imports Api
begin

text \<open>
  The request-logging middleware (spec section 4.3), which \<open>runHttpServer\<close> wraps
  around the router (\<open>handler = logRequestHandler(handler)\<close>, api.go line 173). It is not
  under \<open>src/\<close> and is modelled from the spec: it runs the wrapped handler and, when the
  handler completed, fills an \<open>HTTPReqInfo\<close> (types.go) with the request's method, URI,
  referer, client address and user agent and the response's status, size and duration,
  and emits it. A handler that panics does not complete, so nothing is logged.
\<close>

section \<open>What the response writer saw\<close>

text \<open>
  The size of a JSON body depends on the encoder and the duration on the clock; both come
  from the environment of the request.
\<close>

record meter =
  elapsed :: int
  encoded_size :: "response \<Rightarrow> int"

text \<open>
  The status and the number of body bytes written: a handler's response; mux's 405 (a bare
  \<open>WriteHeader\<close>, no body); \<open>http.NotFound\<close>'s 404 with its 19-byte text
  \<open>404 page not found\n\<close>; nothing when the handler panicked.
\<close>

fun written :: "meter \<Rightarrow> reply \<Rightarrow> (int \<times> int) option" where
  "written m (Reply resp) = Some (int (response_status resp), encoded_size m resp)"
| "written m Status_405 = Some (405, 0)"
| "written m Status_404 = Some (404, 19)"
| "written m No_reply = None"

definition logRequestHandler :: "meter \<Rightarrow> env \<Rightarrow> request \<Rightarrow> world \<Rightarrow> reply \<times> world \<times> http_req_info option" where
  "logRequestHandler m e r w =
     (case serve e r w of
        (rep, w') \<Rightarrow>
          (rep, w', map_option (\<lambda>(c, sz). \<lparr>req_method = rq_method r, uri = rq_path r, referer = rq_referer r,
                                            ipaddr = rq_remote_addr r, code = c, req_size = sz,
                                            duration = elapsed m, userAgent = rq_user_agent r\<rparr>)
                               (written m rep)))"

end
