(* ===== verification/Server.thy ===== *)
theory Server
  imports Api
begin

text \<open>
  The process as a state machine: \<open>main\<close> (spec section 4.5) runs \<open>connect\<close> and then
  \<open>runHttpServer\<close>, which serves requests until the process ends. A state is the
  \<open>world\<close> of \<open>Api\<close> (the pool and the store); a step serves one request with
  \<open>Api.serve\<close> at the clock reading of its environment. Requests are served one after the
  other: a handler's store calls are not interleaved with another request's. The lemmas
  show that every reachable state holds only times read from the server's clock, and the
  round trips the spec lists.
\<close>

section \<open>Start-up and steps\<close>

text \<open>The state after \<open>main\<close> connected (or failed to) in front of the store \<open>d\<close>.\<close>

definition boot :: "connect_result \<Rightarrow> db \<Rightarrow> world" where
  "boot cr d = \<lparr>w_pool = fst (connect cr), w_db = d\<rparr>"

text \<open>
  The states the server reaches from a fresh store, whatever requests arrive, when every
  request is served while the clock shows a time in \<open>T\<close>.
\<close>

inductive reachable :: "connect_result \<Rightarrow> time set \<Rightarrow> world \<Rightarrow> bool" for cr T where
  start: "reachable cr T (boot cr empty_db)"
| step: "reachable cr T w \<Longrightarrow> clock e \<in> T \<Longrightarrow> reachable cr T (snd (serve e r w))"

text \<open>A sequence of requests, each with its environment, served in order.\<close>

fun serve_all :: "(env \<times> request) list \<Rightarrow> world \<Rightarrow> reply list \<times> world" where
  "serve_all [] w = ([], w)"
| "serve_all ((e, r) # rs) w =
     (let (rep, w1) = serve e r w; (reps, w2) = serve_all rs w1 in (rep # reps, w2))"

section \<open>Shared lemmas\<close>

lemma reachable_serve_all:
  "reachable cr T w \<Longrightarrow> list_all (\<lambda>(e, r). clock e \<in> T) rs \<Longrightarrow> reachable cr T (snd (serve_all rs w))"
proof (induction rs arbitrary: w)
  case (Cons x rs)
  then show ?case
    by (cases x) (simp add: split_def Let_def Cons.IH reachable.step)
qed simp

lemma stamped_empty_db: "stamped T empty_db"
  by (simp add: stamped_def empty_db_def)

lemma set_cook_id_idem: "set_cook_id ids c (set_cook_id ids c rs) = set_cook_id ids c rs"
  by (simp add: set_cook_id_def)


lemma readings_of_assign:
  "map reading_of_row (readings_of (d\<lparr>readings_tbl := set_cook_id ids (Some c) rs\<rparr>) c) =
   map reading_of_row (filter (\<lambda>r. row_id r \<in> set ids \<or> row_cook_id r = Some c) rs)"
  by (induction rs) (auto simp: readings_of_def set_cook_id_def reading_of_row_def)

lemma readings_of_unassign:
  "readings_of (d\<lparr>readings_tbl := set_cook_id ids None rs\<rparr>) c =
   filter (\<lambda>r. row_id r \<notin> set ids \<and> row_cook_id r = Some c) rs"
  by (induction rs) (auto simp: readings_of_def set_cook_id_def)

lemma route_itoa:
  assumes "int64_min \<le> i" and "i \<le> int64_max"
  shows "rq_method r = ''GET'' \<Longrightarrow> rq_path r = ''/api/cook/'' @ itoa i \<Longrightarrow>
           route r = Dispatch H_getCook [(''id'', itoa i)]"
    and "rq_method r = ''PUT'' \<Longrightarrow> rq_path r = ''/api/cook/'' @ itoa i @ ''/readings'' \<Longrightarrow>
           route r = Dispatch H_updateCookReadings [(''id'', itoa i)]"
  using route_cook_id [of "itoa i" r] route_cook_readings [of "itoa i" r] itoa_segment [of i] by simp_all

lemma wf_cook_row_id_pos: "wf_db d \<Longrightarrow> cr \<in> set (cooks_tbl d) \<Longrightarrow> int64_min \<le> cook_row_id cr"
  by (auto simp: wf_db_def list_all_iff cook_ids_def int64_min_def)

lemma fetch_cook:
  assumes "wf_db (w_db w)" and "w_pool w = Pool_live" and "cr \<in> set (cooks_tbl (w_db w))"
    and "cook_row_id cr \<le> int64_max"
    and "rq_method r = ''GET''" and "rq_path r = ''/api/cook/'' @ itoa (cook_row_id cr)"
    and "link1 e = Answers ms1" and "link2 e = Answers ms2" and "ms1 + ms2 \<le> timeout_ms"
  shows "serve e r w =
    (Reply (jsonResponse (P_cook \<lparr>cId = cook_row_id cr, Created = cook_row_created cr,
       Description = cook_row_description cr,
       Readings = Some (map reading_of_row (readings_of (w_db w) (cook_row_id cr)))\<rparr>)), w)"
proof -
  have lo: "int64_min \<le> cook_row_id cr" using wf_cook_row_id_pos [OF assms(1,3)] .
  show ?thesis
    using route_itoa(1) [OF lo assms(4,5,6)] path_id_itoa [OF lo assms(4)] assms(2,7,8)
          getCookById_answers [OF assms(9), of "cook_row_id cr" "w_db w"] cook_found [OF assms(1,3)]
    by (simp add: serve_def getCook_def)
qed

section \<open>Properties of the server\<close>

lemma wf_fresh_cook:
  assumes "wf_db d"
  shows "filter (\<lambda>x. cook_row_id x = cooks_seq d + 1) (cooks_tbl d) = [] \<and>
         readings_of d (cooks_seq d + 1) = []"
proof -
  have ids: "\<forall>c \<in> set (cook_ids d). c \<le> cooks_seq d"
    using assms by (auto simp: wf_db_def list_all_iff)
  then have "\<forall>x \<in> set (cooks_tbl d). cook_row_id x \<noteq> cooks_seq d + 1"
    by (fastforce simp: cook_ids_def)
  moreover have "\<forall>r \<in> set (readings_tbl d). row_cook_id r \<noteq> Some (cooks_seq d + 1)"
    using assms ids by (fastforce simp: wf_db_def list_all_iff)
  ultimately show ?thesis
    by (simp add: readings_of_def filter_empty_conv)
qed

text \<open>
  C11. Every timestamp and creation time the store holds was read from
  the server's clock while it served a request: whatever the clients send, no stored time
  comes from a request body.
\<close>

theorem stored_times_from_clock:
  assumes "reachable cr T w"
  shows "set (map row_timestamp (readings_tbl (w_db w))) \<subseteq> T \<and>
         set (map cook_row_created (cooks_tbl (w_db w))) \<subseteq> T"
proof -
  have "stamped T (w_db w)"
    using assms
  proof (induction rule: reachable.induct)
    case start
    show ?case by (simp add: boot_def stamped_empty_db)
  next
    case (step w e r)
    then show ?case by (simp add: snd_serve stamped_run_handler split: dispatch.split)
  qed
  then show ?thesis by (simp add: stamped_def)
qed

text \<open>
  C16. \<open>PUT /api/cook/{id}/readings\<close> with only a \<open>remove\<close> list orphans
  exactly those readings and answers ok; sending the same request again answers the same and
  changes nothing.
\<close>

theorem remove_idempotent:
  assumes "rq_method r = ''PUT''" and "rq_path r = ''/api/cook/'' @ itoa i @ ''/readings''"
    and "int64_min \<le> i" and "i \<le> int64_max"
    and "read_decode (dec_update (json e)) r = Inr upd" and "Add upd = []" and "Remove upd \<noteq> []"
    and "w_pool w = Pool_live" and "link1 e = Answers ms" and "ms \<le> timeout_ms"
  shows "serve e r w = (Reply (jsonResponse (P_message ok_message)),
                        w\<lparr>w_db := (w_db w)\<lparr>readings_tbl := set_cook_id (Remove upd) None (readings_tbl (w_db w))\<rparr>\<rparr>) \<and>
         serve e r (snd (serve e r w)) = serve e r w"
proof -
  have rt: "route r = Dispatch H_updateCookReadings [(''id'', itoa i)]"
    using route_cook_readings [of "itoa i" r] itoa_segment [of i] assms(1,2) by simp
  have once: "serve e r w' = (Reply (jsonResponse (P_message ok_message)),
                 w'\<lparr>w_db := (w_db w')\<lparr>readings_tbl := set_cook_id (Remove upd) None (readings_tbl (w_db w'))\<rparr>\<rparr>)"
    if "w_pool w' = Pool_live" for w'
    using that rt path_id_itoa [OF assms(3,4)] assms(5-7,9,10) clear_cook_in_binds [OF assms(7)]
    by (simp add: serve_def updateCookReadings_def remove_then_ok_def db_unfold)
  show ?thesis using once [OF assms(8)] once [of "snd (serve e r w)"] assms(8) by (simp add: set_cook_id_idem)
qed

text \<open>
  C7. Creating a cook with \<open>POST /api/cook\<close> and then fetching it with
  \<open>GET /api/cook/<id>\<close> at the id it was given returns the description sent, the server's
  creation time and an empty reading list.
\<close>

theorem create_then_get:
  assumes "wf_db (w_db w)" and "w_pool w = Pool_live"
    and "rq_method r1 = ''POST''" and "rq_path r1 = ''/api/cook''"
    and "read_decode (dec_cook (json e1)) r1 = Inr c" and "link1 e1 = Answers ms" and "ms \<le> timeout_ms"
    and "rq_method r2 = ''GET''" and "rq_path r2 = ''/api/cook/'' @ itoa (cooks_seq (w_db w) + 1)"
    and "link1 e2 = Answers ms1" and "link2 e2 = Answers ms2" and "ms1 + ms2 \<le> timeout_ms"
    and "cooks_seq (w_db w) + 1 \<le> int64_max"
  shows "fst (serve e1 r1 w) =
           Reply (jsonResponse (P_cook (c\<lparr>Created := clock e1, cId := cooks_seq (w_db w) + 1\<rparr>))) \<and>
         fst (serve e2 r2 (snd (serve e1 r1 w))) =
           Reply (jsonResponse (P_cook \<lparr>cId = cooks_seq (w_db w) + 1, Created = clock e1,
                                        Description = Description c, Readings = Some []\<rparr>))"
proof -
  let ?n = "cooks_seq (w_db w) + 1"
  let ?row = "\<lparr>cook_row_id = ?n, cook_row_created = clock e1, cook_row_description = Description c\<rparr>"
  let ?w1 = "w\<lparr>w_db := (w_db w)\<lparr>cooks_tbl := cooks_tbl (w_db w) @ [?row], cooks_seq := ?n\<rparr>\<rparr>"
  have post: "serve e1 r1 w = (Reply (jsonResponse (P_cook (c\<lparr>Created := clock e1, cId := ?n\<rparr>))), ?w1)"
    using assms(2-7) route_cook [OF assms(4)]
    by (simp add: serve_def saveCook_def db_unfold Let_def)
  have fresh: "filter (\<lambda>x. cook_row_id x = ?n) (cooks_tbl (w_db w)) = []" "readings_of (w_db w) ?n = []"
    using wf_fresh_cook [OF assms(1)] by simp_all
  have n: "int64_min \<le> ?n" using assms(1) by (simp add: wf_db_def int64_min_def)
  have rt: "route r2 = Dispatch H_getCook [(''id'', itoa ?n)]"
    using route_cook_id [of "itoa ?n" r2] itoa_segment [of ?n] assms(8,9) by simp
  have get: "getCookById Pool_live (Answers ms1) (Answers ms2) ?n (w_db ?w1) =
      (Ok \<lparr>cId = ?n, Created = clock e1, Description = Description c, Readings = Some []\<rparr>, w_db ?w1)"
    using getCookById_answers [OF assms(12), of ?n "w_db ?w1"] fresh
    by (simp add: readings_of_def)
  show ?thesis
    using post rt get path_id_itoa [OF n assms(13)] assms(2,10,11)
    by (simp add: serve_def getCook_def)
qed

section \<open>Witnesses\<close>

theorem stored_times_from_clock_witness:
  "reachable Connected {1000} (snd (serve sample_env (sample_request ''POST'' ''/api/cook'' ''Pork'') (boot Connected empty_db))) \<and>
   set (map row_timestamp (readings_tbl (w_db (snd (serve sample_env (sample_request ''POST'' ''/api/cook'' ''Pork'')
          (boot Connected empty_db)))))) \<subseteq> {1000} \<and>
   set (map cook_row_created (cooks_tbl (w_db (snd (serve sample_env (sample_request ''POST'' ''/api/cook'' ''Pork'')
          (boot Connected empty_db)))))) \<subseteq> {1000} \<and>
   map cook_row_created (cooks_tbl (w_db (snd (serve sample_env (sample_request ''POST'' ''/api/cook'' ''Pork'')
          (boot Connected empty_db))))) = [1000]"
proof -
  have h: "reachable Connected {1000} (snd (serve sample_env (sample_request ''POST'' ''/api/cook'' ''Pork'') (boot Connected empty_db)))"
    by (rule reachable.step [OF reachable.start]) (simp add: sample_env_def)
  have "map cook_row_created (cooks_tbl (w_db (snd (serve sample_env (sample_request ''POST'' ''/api/cook'' ''Pork'')
          (boot Connected empty_db))))) = [1000]"
    by (simp add: serve_def route_cook sample_request_def saveCook_def read_decode_def sample_env_def sample_decoder_def
                  boot_def empty_db_def db_unfold prepared_def prepare_def param_count_def respond_def timeout_ms_def Let_def)
  then show ?thesis using h stored_times_from_clock [OF h] by simp
qed

theorem remove_idempotent_witness:
  "rq_method (sample_request ''PUT'' (''/api/cook/'' @ itoa 1 @ ''/readings'') ''{}'') = ''PUT'' \<and>
   rq_path (sample_request ''PUT'' (''/api/cook/'' @ itoa 1 @ ''/readings'') ''{}'') = ''/api/cook/'' @ itoa 1 @ ''/readings'' \<and>
   int64_min \<le> 1 \<and> (1::int) \<le> int64_max \<and>
   read_decode (dec_update (json (sample_env\<lparr>json := sample_decoder\<lparr>dec_update := \<lambda>b. Inr \<lparr>Add = [], Remove = [2]\<rparr>\<rparr>\<rparr>)))
     (sample_request ''PUT'' (''/api/cook/'' @ itoa 1 @ ''/readings'') ''{}'') = Inr \<lparr>Add = [], Remove = [2]\<rparr> \<and>
   Add \<lparr>Add = [], Remove = [2::int]\<rparr> = [] \<and> Remove \<lparr>Add = [], Remove = [2::int]\<rparr> \<noteq> [] \<and>
   w_pool sample_world = Pool_live \<and>
   link1 (sample_env\<lparr>json := sample_decoder\<lparr>dec_update := \<lambda>b. Inr \<lparr>Add = [], Remove = [2]\<rparr>\<rparr>\<rparr>) = Answers 5 \<and>
   (5::nat) \<le> timeout_ms \<and>
   map row_cook_id (readings_tbl (w_db (snd (serve (sample_env\<lparr>json := sample_decoder\<lparr>dec_update := \<lambda>b. Inr \<lparr>Add = [], Remove = [2]\<rparr>\<rparr>\<rparr>)
      (sample_request ''PUT'' (''/api/cook/'' @ itoa 1 @ ''/readings'') ''{}'') sample_world)))) = [None, None, None]"
proof -
  have h: "rq_method (sample_request ''PUT'' (''/api/cook/'' @ itoa 1 @ ''/readings'') ''{}'') = ''PUT''"
    "rq_path (sample_request ''PUT'' (''/api/cook/'' @ itoa 1 @ ''/readings'') ''{}'') = ''/api/cook/'' @ itoa 1 @ ''/readings''"
    "int64_min \<le> 1" "(1::int) \<le> int64_max"
    "read_decode (dec_update (json (sample_env\<lparr>json := sample_decoder\<lparr>dec_update := \<lambda>b. Inr \<lparr>Add = [], Remove = [2]\<rparr>\<rparr>\<rparr>)))
       (sample_request ''PUT'' (''/api/cook/'' @ itoa 1 @ ''/readings'') ''{}'') = Inr \<lparr>Add = [], Remove = [2]\<rparr>"
    "Add \<lparr>Add = [], Remove = [2::int]\<rparr> = []" "Remove \<lparr>Add = [], Remove = [2::int]\<rparr> \<noteq> []"
    "w_pool sample_world = Pool_live"
    "link1 (sample_env\<lparr>json := sample_decoder\<lparr>dec_update := \<lambda>b. Inr \<lparr>Add = [], Remove = [2]\<rparr>\<rparr>\<rparr>) = Answers 5"
    "(5::nat) \<le> timeout_ms"
    by (simp_all add: sample_request_def int64_min_def int64_max_def read_decode_def sample_world_def
                      sample_env_def timeout_ms_def)
  show ?thesis using h remove_idempotent [OF h]
    by (simp add: sample_world_def sample_db_def set_cook_id_def)
qed

theorem create_then_get_witness:
  "wf_db (w_db sample_world) \<and> w_pool sample_world = Pool_live \<and>
   rq_method (sample_request ''POST'' ''/api/cook'' ''Pork'') = ''POST'' \<and>
   rq_path (sample_request ''POST'' ''/api/cook'' ''Pork'') = ''/api/cook'' \<and>
   read_decode (dec_cook (json sample_env)) (sample_request ''POST'' ''/api/cook'' ''Pork'') =
     Inr (zero_cook\<lparr>cId := 1, Description := ''Pork''\<rparr>) \<and>
   link1 sample_env = Answers 5 \<and> (5::nat) \<le> timeout_ms \<and>
   rq_method (sample_request ''GET'' (''/api/cook/'' @ itoa 3) []) = ''GET'' \<and>
   rq_path (sample_request ''GET'' (''/api/cook/'' @ itoa 3) []) = ''/api/cook/'' @ itoa (cooks_seq (w_db sample_world) + 1) \<and>
   link2 sample_env = Answers 5 \<and> (5::nat) + 5 \<le> timeout_ms \<and> cooks_seq (w_db sample_world) + 1 \<le> int64_max \<and>
   fst (serve sample_env (sample_request ''GET'' (''/api/cook/'' @ itoa 3) [])
          (snd (serve sample_env (sample_request ''POST'' ''/api/cook'' ''Pork'') sample_world))) =
     Reply (jsonResponse (P_cook \<lparr>cId = 3, Created = 1000, Description = ''Pork'', Readings = Some []\<rparr>))"
proof -
  have h: "wf_db (w_db sample_world)" "w_pool sample_world = Pool_live"
    "rq_method (sample_request ''POST'' ''/api/cook'' ''Pork'') = ''POST''"
    "rq_path (sample_request ''POST'' ''/api/cook'' ''Pork'') = ''/api/cook''"
    "read_decode (dec_cook (json sample_env)) (sample_request ''POST'' ''/api/cook'' ''Pork'') =
       Inr (zero_cook\<lparr>cId := 1, Description := ''Pork''\<rparr>)"
    "link1 sample_env = Answers 5" "(5::nat) \<le> timeout_ms"
    "rq_method (sample_request ''GET'' (''/api/cook/'' @ itoa 3) []) = ''GET''"
    "rq_path (sample_request ''GET'' (''/api/cook/'' @ itoa 3) []) = ''/api/cook/'' @ itoa (cooks_seq (w_db sample_world) + 1)"
    "link1 sample_env = Answers 5" "link2 sample_env = Answers 5" "(5::nat) + 5 \<le> timeout_ms"
    "cooks_seq (w_db sample_world) + 1 \<le> int64_max"
    using wf_sample_db
    by (simp_all add: sample_world_def sample_request_def read_decode_def sample_env_def sample_decoder_def
                      timeout_ms_def int64_max_def sample_db_def)
  show ?thesis using h create_then_get [OF h]
    by (simp add: sample_world_def sample_db_def sample_env_def sample_decoder_def zero_cook_def)
qed

end
