(* ===== verification/Concurrent.thy ===== *)
theory Concurrent
  imports Server
begin

text \<open>
  Concurrent requests (spec section 5). net/http serves every request in its own
  goroutine; the store makes each statement atomic, but nothing makes a handler atomic.
  \<open>updateCookReadings\<close> is the one handler with two writes: here it is split into its
  two store steps (\<open>upd_step\<close>), the requests in flight are a list of such threads, and
  a scheduler step advances any unfinished one (\<open>sched_step\<close>; \<open>sched_run\<close> replays a
  schedule given as a list of thread indices). The lemmas show that the split agrees with
  the handler and that two updates, interleaved, can leave a store that neither order of
  running the handler one request after the other leaves.
\<close>

section \<open>A readings update in flight\<close>

text \<open>
  The state of one \<open>updateCookReadings\<close> goroutine after its path id and body decoded:
  about to run \<open>addReadingsToCook\<close> (api.go lines 143-149), about to run
  \<open>removeReadingsFromCook\<close> (lines 150-156), or finished with the response it wrote.
\<close>

datatype upd_thread =
    Upd_start env int cook_reading_update
  | Upd_removing env cook_reading_update
  | Upd_done "response option"

fun upd_step :: "upd_thread \<Rightarrow> world \<Rightarrow> upd_thread \<times> world" where
  "upd_step (Upd_start e i upd) w =
     (if 0 < length (Add upd) then
        (case addReadingsToCook (w_pool w) (link1 e) (Add upd) i (w_db w) of
           (Ok _, d1) \<Rightarrow> (Upd_removing e upd, w\<lparr>w_db := d1\<rparr>)
         | (Err err, d1) \<Rightarrow> (Upd_done (Some (errorResponse err)), w\<lparr>w_db := d1\<rparr>)
         | (Panic, d1) \<Rightarrow> (Upd_done None, w\<lparr>w_db := d1\<rparr>))
      else (case remove_then_ok (link1 e) (Remove upd) w of (resp, w') \<Rightarrow> (Upd_done resp, w')))"
| "upd_step (Upd_removing e upd) w =
     (case remove_then_ok (link2 e) (Remove upd) w of (resp, w') \<Rightarrow> (Upd_done resp, w'))"
| "upd_step (Upd_done resp) w = (Upd_done resp, w)"

fun upd_done :: "upd_thread \<Rightarrow> bool" where
  "upd_done (Upd_done _) = True"
| "upd_done _ = False"

text \<open>A thread run alone: its two steps, back to back.\<close>

definition upd_finish :: "upd_thread \<Rightarrow> world \<Rightarrow> upd_thread \<times> world" where
  "upd_finish t w = (case upd_step t w of (t1, w1) \<Rightarrow> upd_step t1 w1)"

section \<open>Schedules\<close>

text \<open>
  One scheduler step: some unfinished thread \<open>i\<close> takes its next store step, the
  store statements of the other threads staying atomic around it.
\<close>

inductive sched_step :: "upd_thread list \<times> world \<Rightarrow> upd_thread list \<times> world \<Rightarrow> bool" where
  run: "i < length ts \<Longrightarrow> \<not> upd_done (ts ! i) \<Longrightarrow> upd_step (ts ! i) w = (t', w') \<Longrightarrow>
        sched_step (ts, w) (ts[i := t'], w')"

text \<open>
  A schedule given as the list of threads that move, one index per step; an index of a
  finished or missing thread is skipped (\<open>sched_run_steps\<close>: every such run is a
  sequence of scheduler steps).
\<close>

fun sched_run :: "nat list \<Rightarrow> upd_thread list \<times> world \<Rightarrow> upd_thread list \<times> world" where
  "sched_run [] c = c"
| "sched_run (i # is) (ts, w) =
     (if i < length ts \<and> \<not> upd_done (ts ! i)
      then (case upd_step (ts ! i) w of (t', w') \<Rightarrow> sched_run is (ts[i := t'], w'))
      else sched_run is (ts, w))"

section \<open>Two conflicting updates\<close>

text \<open>
  An environment for the witnesses whose decoder reads the body \<open>a\<close> as "assign reading 1,
  orphan reading 2" and any other body as "assign reading 2, orphan reading 1".
\<close>

definition swap_env :: env where
  "swap_env = sample_env\<lparr>json := sample_decoder\<lparr>dec_update :=
     (\<lambda>b. if b = ''a'' then Inr \<lparr>Add = [1], Remove = [2]\<rparr> else Inr \<lparr>Add = [2], Remove = [1]\<rparr>)\<rparr>\<rparr>"

section \<open>Shared lemmas\<close>

lemma sched_run_steps: "sched_step\<^sup>*\<^sup>* c (sched_run is c)"
proof (induction "is" c rule: sched_run.induct)
  case (2 i "is" ts w)
  show ?case
  proof (cases "i < length ts \<and> \<not> upd_done (ts ! i)")
    case True
    obtain t' w' where st: "upd_step (ts ! i) w = (t', w')" by fastforce
    have "sched_step (ts, w) (ts[i := t'], w')" using True st by (blast intro: sched_step.run)
    then show ?thesis using 2(1) [OF True st [symmetric]] True st
      by (simp add: converse_rtranclp_into_rtranclp)
  next
    case False
    show ?thesis unfolding sched_run.simps if_not_P [OF False] by (rule 2(2) [OF False])
  qed
qed simp

lemma upd_step_start:
  assumes "w_pool w = Pool_live" and "link1 e = Answers ms" and "ms \<le> timeout_ms" and "Add upd \<noteq> []"
    and "i \<in> set (cook_ids (w_db w))"
  shows "upd_step (Upd_start e i upd) w =
           (Upd_removing e upd, w\<lparr>w_db := (w_db w)\<lparr>readings_tbl := set_cook_id (Add upd) (Some i) (readings_tbl (w_db w))\<rparr>\<rparr>)"
  using assms set_cook_in_binds [OF assms(4), of i] by (simp add: db_unfold)

lemma upd_step_removing:
  assumes "w_pool w = Pool_live" and "link2 e = Answers ms" and "ms \<le> timeout_ms" and "Remove upd \<noteq> []"
  shows "upd_step (Upd_removing e upd) w =
           (Upd_done (Some (jsonResponse (P_message ok_message))),
            w\<lparr>w_db := (w_db w)\<lparr>readings_tbl := set_cook_id (Remove upd) None (readings_tbl (w_db w))\<rparr>\<rparr>)"
  using assms clear_cook_in_binds [OF assms(4)] by (simp add: remove_then_ok_def db_unfold)

text \<open>
  Splitting \<open>updateCookReadings\<close> into its two store steps is faithful: a readings
  update run alone, step after step, writes the response and leaves the state that the
  handler does.
\<close>

lemma upd_finish_handler:
  assumes "path_id vars = Inr i" and "read_decode (dec_update (json e)) r = Inr upd"
  shows "upd_finish (Upd_start e i upd) w =
           (Upd_done (fst (updateCookReadings e vars r w)), snd (updateCookReadings e vars r w))"
  using assms
  by (simp add: upd_finish_def updateCookReadings_def split_def split: outcome.split prod.split)

text \<open>A move of reading \<open>a\<close> to cook \<open>c\<close> that orphans reading \<open>b\<close>, served alone.\<close>

lemma updateCookReadings_move:
  assumes "w_pool w = Pool_live" and "link1 e = Answers ms1" and "link2 e = Answers ms2"
    and "ms1 \<le> timeout_ms" and "ms2 \<le> timeout_ms" and "c \<in> set (cook_ids (w_db w))"
    and "path_id vars = Inr c" and "read_decode (dec_update (json e)) r = Inr \<lparr>Add = [a], Remove = [b]\<rparr>"
  shows "snd (updateCookReadings e vars r w) =
           w\<lparr>w_db := (w_db w)\<lparr>readings_tbl :=
              set_cook_id [b] None (set_cook_id [a] (Some c) (readings_tbl (w_db w)))\<rparr>\<rparr>"
  using upd_finish_handler [OF assms(7,8), of w] assms(1-6)
  by (simp add: upd_finish_def upd_step_start upd_step_removing del: upd_step.simps)

lemma map_filter_set_cook_id:
  "map f (filter (\<lambda>r. row_id r = k) (set_cook_id ids c rs)) =
   map (\<lambda>r. f (if k \<in> set ids then r\<lparr>row_cook_id := c\<rparr> else r)) (filter (\<lambda>r. row_id r = k) rs)"
  by (induction rs) (auto simp: set_cook_id_def)

section \<open>Properties of concurrent requests\<close>

text \<open>
  C12. The two writes of \<open>updateCookReadings\<close> are not atomic. Take two
  clients that move two existing readings \<open>a \<noteq> b\<close> in opposite directions between two
  existing cooks: one assigns \<open>a\<close> to cook \<open>c1\<close> and orphans \<open>b\<close>, the other assigns
  \<open>b\<close> to cook \<open>c2\<close> and orphans \<open>a\<close>. When both first run their assignment and then
  their removal, both readings end up orphaned, and that store is the result of neither
  serial order of the two requests, in each of which the request served last keeps its
  reading assigned.
\<close>

theorem updates_not_serializable:
  assumes "w_pool w = Pool_live" and "link1 e = Answers ms1" and "link2 e = Answers ms2"
    and "ms1 \<le> timeout_ms" and "ms2 \<le> timeout_ms"
    and "c1 \<in> set (cook_ids (w_db w))" and "c2 \<in> set (cook_ids (w_db w))"
    and "a \<in> set (map row_id (readings_tbl (w_db w)))" and "b \<in> set (map row_id (readings_tbl (w_db w)))"
    and "a \<noteq> b"
    and "path_id va = Inr c1" and "read_decode (dec_update (json e)) ra = Inr \<lparr>Add = [a], Remove = [b]\<rparr>"
    and "path_id vb = Inr c2" and "read_decode (dec_update (json e)) rb = Inr \<lparr>Add = [b], Remove = [a]\<rparr>"
  shows "readings_tbl (w_db (snd (sched_run [0, 1, 0, 1]
            ([Upd_start e c1 \<lparr>Add = [a], Remove = [b]\<rparr>, Upd_start e c2 \<lparr>Add = [b], Remove = [a]\<rparr>], w)))) =
           set_cook_id [a, b] None (readings_tbl (w_db w)) \<and>
         snd (sched_run [0, 1, 0, 1]
            ([Upd_start e c1 \<lparr>Add = [a], Remove = [b]\<rparr>, Upd_start e c2 \<lparr>Add = [b], Remove = [a]\<rparr>], w)) \<noteq>
           snd (updateCookReadings e vb rb (snd (updateCookReadings e va ra w))) \<and>
         snd (sched_run [0, 1, 0, 1]
            ([Upd_start e c1 \<lparr>Add = [a], Remove = [b]\<rparr>, Upd_start e c2 \<lparr>Add = [b], Remove = [a]\<rparr>], w)) \<noteq>
           snd (updateCookReadings e va ra (snd (updateCookReadings e vb rb w)))"
proof -
  let ?rs = "readings_tbl (w_db w)"
  obtain xa xb where x: "xa \<in> set ?rs" "row_id xa = a" "xb \<in> set ?rs" "row_id xb = b"
    using assms(8,9) by auto
  have inter: "snd (sched_run [0, 1, 0, 1]
      ([Upd_start e c1 \<lparr>Add = [a], Remove = [b]\<rparr>, Upd_start e c2 \<lparr>Add = [b], Remove = [a]\<rparr>], w)) =
      w\<lparr>w_db := (w_db w)\<lparr>readings_tbl := set_cook_id [a, b] None ?rs\<rparr>\<rparr>"
    using assms(1-7) by (simp add: upd_step_start upd_step_removing set_cook_id_def comp_def del: upd_step.simps)
  have ab: "snd (updateCookReadings e vb rb (snd (updateCookReadings e va ra w))) =
      w\<lparr>w_db := (w_db w)\<lparr>readings_tbl :=
         set_cook_id [a] None (set_cook_id [b] (Some c2) (set_cook_id [b] None (set_cook_id [a] (Some c1) ?rs)))\<rparr>\<rparr>"
    using updateCookReadings_move [OF assms(1-6,11,12)] updateCookReadings_move [OF _ assms(2-5) _ assms(13,14), of "snd (updateCookReadings e va ra w)"] assms(1,7)
    by simp
  have ba: "snd (updateCookReadings e va ra (snd (updateCookReadings e vb rb w))) =
      w\<lparr>w_db := (w_db w)\<lparr>readings_tbl :=
         set_cook_id [b] None (set_cook_id [a] (Some c1) (set_cook_id [a] None (set_cook_id [b] (Some c2) ?rs)))\<rparr>\<rparr>"
    using updateCookReadings_move [OF assms(1-5,7,13,14)] updateCookReadings_move [OF _ assms(2-5) _ assms(11,12), of "snd (updateCookReadings e vb rb w)"] assms(1,6)
    by simp
  let ?at = "\<lambda>k w. map row_cook_id (filter (\<lambda>r. row_id r = k) (readings_tbl (w_db w)))"
  let ?wi = "w\<lparr>w_db := (w_db w)\<lparr>readings_tbl := set_cook_id [a, b] None ?rs\<rparr>\<rparr>"
  have "?at b ?wi \<noteq> ?at b (snd (updateCookReadings e vb rb (snd (updateCookReadings e va ra w))))"
    unfolding ab using x assms(10) by (force simp: map_filter_set_cook_id)
  moreover have "?at a ?wi \<noteq> ?at a (snd (updateCookReadings e va ra (snd (updateCookReadings e vb rb w))))"
    unfolding ba using x assms(10) by (force simp: map_filter_set_cook_id)
  ultimately show ?thesis unfolding inter
    by (intro conjI) (simp, metis, metis)
qed

section \<open>Witnesses\<close>

theorem updates_not_serializable_witness:
  "w_pool sample_world = Pool_live \<and> link1 swap_env = Answers 5 \<and> link2 swap_env = Answers 5 \<and>
   (5::nat) \<le> timeout_ms \<and> (1::int) \<in> set (cook_ids (w_db sample_world)) \<and> (2::int) \<in> set (cook_ids (w_db sample_world)) \<and>
   (1::int) \<in> set (map row_id (readings_tbl (w_db sample_world))) \<and> (2::int) \<in> set (map row_id (readings_tbl (w_db sample_world))) \<and>
   path_id [(''id'', itoa 1)] = Inr 1 \<and>
   read_decode (dec_update (json swap_env)) (sample_request ''PUT'' ''/api/cook/1/readings'' ''a'') = Inr \<lparr>Add = [1], Remove = [2]\<rparr> \<and>
   path_id [(''id'', itoa 2)] = Inr 2 \<and>
   read_decode (dec_update (json swap_env)) (sample_request ''PUT'' ''/api/cook/2/readings'' ''b'') = Inr \<lparr>Add = [2], Remove = [1]\<rparr> \<and>
   map row_cook_id (readings_tbl (w_db (snd (sched_run [0, 1, 0, 1]
     ([Upd_start swap_env 1 \<lparr>Add = [1], Remove = [2]\<rparr>, Upd_start swap_env 2 \<lparr>Add = [2], Remove = [1]\<rparr>], sample_world))))) =
     [None, None, None] \<and>
   snd (sched_run [0, 1, 0, 1]
     ([Upd_start swap_env 1 \<lparr>Add = [1], Remove = [2]\<rparr>, Upd_start swap_env 2 \<lparr>Add = [2], Remove = [1]\<rparr>], sample_world)) \<noteq>
   snd (updateCookReadings swap_env [(''id'', itoa 2)] (sample_request ''PUT'' ''/api/cook/2/readings'' ''b'')
          (snd (updateCookReadings swap_env [(''id'', itoa 1)] (sample_request ''PUT'' ''/api/cook/1/readings'' ''a'') sample_world))) \<and>
   snd (sched_run [0, 1, 0, 1]
     ([Upd_start swap_env 1 \<lparr>Add = [1], Remove = [2]\<rparr>, Upd_start swap_env 2 \<lparr>Add = [2], Remove = [1]\<rparr>], sample_world)) \<noteq>
   snd (updateCookReadings swap_env [(''id'', itoa 1)] (sample_request ''PUT'' ''/api/cook/1/readings'' ''a'')
          (snd (updateCookReadings swap_env [(''id'', itoa 2)] (sample_request ''PUT'' ''/api/cook/2/readings'' ''b'') sample_world)))"
proof -
  have h: "w_pool sample_world = Pool_live" "link1 swap_env = Answers 5" "link2 swap_env = Answers 5"
    "(5::nat) \<le> timeout_ms" "(5::nat) \<le> timeout_ms"
    "(1::int) \<in> set (cook_ids (w_db sample_world))" "(2::int) \<in> set (cook_ids (w_db sample_world))"
    "(1::int) \<in> set (map row_id (readings_tbl (w_db sample_world)))" "(2::int) \<in> set (map row_id (readings_tbl (w_db sample_world)))"
    "(1::int) \<noteq> 2" "path_id [(''id'', itoa 1)] = Inr 1"
    "read_decode (dec_update (json swap_env)) (sample_request ''PUT'' ''/api/cook/1/readings'' ''a'') = Inr \<lparr>Add = [1], Remove = [2]\<rparr>"
    "path_id [(''id'', itoa 2)] = Inr 2"
    "read_decode (dec_update (json swap_env)) (sample_request ''PUT'' ''/api/cook/2/readings'' ''b'') = Inr \<lparr>Add = [2], Remove = [1]\<rparr>"
    by (simp_all add: sample_world_def swap_env_def sample_env_def timeout_ms_def sample_db_def cook_ids_def
                      path_id_itoa int64_min_def int64_max_def read_decode_def sample_request_def)
  show ?thesis using h updates_not_serializable [OF h]
    by (simp add: sample_world_def sample_db_def set_cook_id_def)
qed

end
