(* ===== verification/Spec2Isabelle.thy ===== *)
theory Spec2Isabelle
  imports Types Strconv Store Database Http_Util Api Logging Server Concurrent
begin

text \<open>
  A verification development of grill-logger, a Go HTTP/JSON service that records
  smoker temperature readings in PostgreSQL and groups them into cooks
  (\<open>src/server/types.go\<close>, \<open>database.go\<close>, \<open>api.go\<close>).

  Theories, leaves first:
  \<^item> Prelude: the types standing for Go's \<open>time.Time\<close>, \<open>float64\<close> and \<open>int\<close>, the
    \<open>error\<close> values of the program, the outcome of a Go call (value, error, panic),
    and generic lemmas on lists and options.
  \<^item> Types: the structs of \<open>types.go\<close> as records with their Go zero values.
  \<^item> Strconv: Go's \<open>strconv.Atoi\<close> (fast path and \<open>ParseInt\<close> path, with the byte
    arithmetic of the fast path as an 8-bit word) and \<open>%d\<close> printing; the fast path
    is proved equal to the slow one, parsing a printed 64-bit integer gives it back, and
    every accepted value is in the 64-bit range.
  \<^item> Store: the environment of the database layer. The PostgreSQL tables of the
    schema (lists of rows in insertion order with their serial sequences), the SQL
    statements \<open>database.go\<close> sends (one constructor per SQL text; the dynamic
    \<open>IN (...)\<close> list and \<open>ORDER BY\<close> column are arguments), preparation (syntax,
    unknown columns, parameter count) and execution (ids from the sequences, the
    foreign key on \<open>readings.cook_id\<close>, \<open>LIMIT\<close>/\<open>OFFSET\<close> checks), and the pgx
    calls \<open>Exec\<close>, \<open>QueryRow\<close>, \<open>Query\<close>: a nil pool panics; a \<open>link\<close> chosen by
    the environment says whether the round trip answers and after how long, is refused,
    or breaks; errors during execution of a \<open>Query\<close> are deferred to \<open>rows.Err()\<close>.
    The invariant \<open>wf_db\<close> (increasing positive ids bounded by the sequences, the
    foreign key) is kept by every statement and driver call.
  \<^item> Database: every function of \<open>database.go\<close>, by its Go name, as a function of
    the pool, the links of its round trips, its arguments and the store, returning the
    Go result as an outcome with the new store. The 10-second \<open>timeoutContext\<close> is
    \<open>timeout_ms\<close>; \<open>getCookById\<close> gives its second query what the first left.
  \<^item> Http_Util: the helpers \<open>api.go\<close> calls that are not under \<open>src/\<close>, from the
    spec (section 4.3): \<open>jsonResponse\<close>, \<open>errorResponse\<close> (the \<open>{error, message}\<close>
    envelope with \<open>err.Error()\<close>), \<open>getLimitOffset\<close> (defaults limit 20 and offset
    0, the values parsed with \<open>strconv.Atoi\<close>); the request the handlers read; and the
    JSON decoder as an interface, one decoding function per Go type.
  \<^item> Api: every handler of \<open>api.go\<close> by its Go name, as a function of the environment
    (clock, the links of its store round trips, the decoder), the path variables, the
    request and the world (pool and store), returning the response written or \<open>None\<close>
    for a panic; the route table of \<open>runHttpServer\<close> with gorilla/mux's matching (first
    route whose path and method match, otherwise 405 when a path matched, else 404) and
    \<open>serve\<close>, one request end to end.
  \<^item> Server: \<open>main\<close> from the spec (section 4.5): \<open>connect\<close>, then requests served
    one at a time; \<open>reachable cr T\<close> is the inductive set of states reached from a
    fresh store when every request is served while the clock shows a time in \<open>T\<close>, and
    \<open>serve_all\<close> serves a sequence of requests in order.
  \<^item> Logging: the request-logging middleware from the spec (section 4.3), wrapped around
    the router: it fills an \<open>HTTPReqInfo\<close> when the handler completed. It is a model of
    spec text only, and no property is claimed of it.
  \<^item> Concurrent: requests in flight (spec section 5). \<open>updateCookReadings\<close>, the one
    handler with two writes, is split into its two store steps (\<open>upd_step\<close>, shown to
    compose to the handler); a scheduler advances any unfinished update by one step.

  Lemma groups: the placeholder list of \<open>makeWhereInVarsForArray\<close> equals a
  comma-joined reference and is parsed back to exactly the intended parameters, so
  \<open>addReadingsToCook\<close> and \<open>removeReadingsFromCook\<close> update exactly the listed
  readings; functional specifications of each database operation and each handler on a
  store that answers in time; the error paths (deadline, nil pool, unknown cook, the wrong
  \<open>ORDER BY\<close> column, errors swallowed by never reading \<open>rows.Err()\<close>, decode and
  pagination errors, the id mismatch); the route table (what \<open>/api\<close> answers, that
  \<open>saveCook\<close> only sees \<open>POST\<close> and \<open>PUT\<close>, that \<open>GET /api/cook/<id>\<close> reaches
  \<open>getCookById\<close> with the printed id parsed back); preservation of \<open>wf_db\<close> by every
  operation, handler and request; the spec's invariant that stored times are
  server-generated, by rule induction over \<open>reachable\<close> on the lemmas \<open>stamp_pres\<close>
  (each statement stores only the times among its parameters, each handler passes only
  its clock reading); the spec's round trips (create then fetch a cook, assign or remove
  readings then fetch the cook, repeated removal), stated here where they span the
  components.

  Bounds: \<open>timeout_ms\<close> is the code's 10 seconds; a link's latency is compared with what
  is left of it, so every claim about a store that answers states the latency bound it
  needs. No fuel is used: every loop of the code is structural or has a measure.

  Also: the scan destinations agree with the columns each statement returns; and, for
  any store, two updates that move two readings in opposite directions between two
  cooks can, interleaved, orphan both readings, which neither serial order of the
  handler does.

  Not modelled: JSON encoding and decoding (the decoder is a parameter of every handler
  lemma, and the size of an encoded body a parameter of the logging model); the exact
  HTTP status of an error response (the spec leaves it open, 500 is taken); the URI's
  query string in the access log (the path is recorded); and interleaving inside the
  handlers whose store calls do not change the store (\<open>getCookById\<close>'s two reads) or
  make one call: those are served as one step.
\<close>

section \<open>Properties across the components\<close>

text \<open>
  C9. Assigning readings to an existing cook with
  \<open>PUT /api/cook/<id>/readings\<close> and then fetching the cook with \<open>GET /api/cook/<id>\<close>
  returns, as its readings, exactly the readings that were listed or already belonged to it,
  in table order.
\<close>

theorem assign_then_fetch:
  assumes "wf_db (w_db w)" and "w_pool w = Pool_live" and "cr \<in> set (cooks_tbl (w_db w))"
    and "cook_row_id cr \<le> int64_max"
    and "rq_method r1 = ''PUT''" and "rq_path r1 = ''/api/cook/'' @ itoa (cook_row_id cr) @ ''/readings''"
    and "read_decode (dec_update (json e1)) r1 = Inr upd" and "Add upd \<noteq> []" and "Remove upd = []"
    and "link1 e1 = Answers ms" and "ms \<le> timeout_ms"
    and "rq_method r2 = ''GET''" and "rq_path r2 = ''/api/cook/'' @ itoa (cook_row_id cr)"
    and "link1 e2 = Answers ms1" and "link2 e2 = Answers ms2" and "ms1 + ms2 \<le> timeout_ms"
  shows "fst (serve e1 r1 w) = Reply (jsonResponse (P_message ok_message)) \<and>
         fst (serve e2 r2 (snd (serve e1 r1 w))) =
           Reply (jsonResponse (P_cook \<lparr>cId = cook_row_id cr, Created = cook_row_created cr,
             Description = cook_row_description cr,
             Readings = Some (map reading_of_row (filter (\<lambda>r. row_id r \<in> set (Add upd) \<or> row_cook_id r = Some (cook_row_id cr))
                                                          (readings_tbl (w_db w))))\<rparr>))"
proof -
  let ?c = "cook_row_id cr"
  let ?w1 = "w\<lparr>w_db := (w_db w)\<lparr>readings_tbl := set_cook_id (Add upd) (Some ?c) (readings_tbl (w_db w))\<rparr>\<rparr>"
  have lo: "int64_min \<le> ?c" using wf_cook_row_id_pos [OF assms(1,3)] .
  have c: "?c \<in> set (cook_ids (w_db w))" using assms(3) by (simp add: cook_ids_def)
  have put: "serve e1 r1 w = (Reply (jsonResponse (P_message ok_message)), ?w1)"
    using route_itoa(2) [OF lo assms(4,5,6)] path_id_itoa [OF lo assms(4)] assms(2,7-11) c
          set_cook_in_binds [OF assms(8), of ?c]
    by (simp add: serve_def updateCookReadings_def remove_then_ok_def db_unfold)
  have "wf_db (w_db ?w1)" using wf_serve [OF assms(1), of e1 r1] put by simp
  then have get: "serve e2 r2 ?w1 =
      (Reply (jsonResponse (P_cook \<lparr>cId = ?c, Created = cook_row_created cr, Description = cook_row_description cr,
         Readings = Some (map reading_of_row (readings_of (w_db ?w1) ?c))\<rparr>)), ?w1)"
    using fetch_cook [of ?w1 cr r2 e2 ms1 ms2] assms(2-4,12-16) by simp
  show ?thesis using put get by (simp add: readings_of_assign)
qed

text \<open>
  C10. Removing readings from a cook and then fetching it returns exactly
  its readings that were not listed, and every listed reading that exists is an orphan
  again, so it reappears in the orphan-reading list.
\<close>

theorem remove_then_fetch:
  assumes "wf_db (w_db w)" and "w_pool w = Pool_live" and "cr \<in> set (cooks_tbl (w_db w))"
    and "cook_row_id cr \<le> int64_max"
    and "rq_method r1 = ''PUT''" and "rq_path r1 = ''/api/cook/'' @ itoa (cook_row_id cr) @ ''/readings''"
    and "read_decode (dec_update (json e1)) r1 = Inr upd" and "Add upd = []" and "Remove upd \<noteq> []"
    and "link1 e1 = Answers ms" and "ms \<le> timeout_ms"
    and "rq_method r2 = ''GET''" and "rq_path r2 = ''/api/cook/'' @ itoa (cook_row_id cr)"
    and "link1 e2 = Answers ms1" and "link2 e2 = Answers ms2" and "ms1 + ms2 \<le> timeout_ms"
  shows "fst (serve e1 r1 w) = Reply (jsonResponse (P_message ok_message)) \<and>
         fst (serve e2 r2 (snd (serve e1 r1 w))) =
           Reply (jsonResponse (P_cook \<lparr>cId = cook_row_id cr, Created = cook_row_created cr,
             Description = cook_row_description cr,
             Readings = Some (map reading_of_row (filter (\<lambda>r. row_id r \<notin> set (Remove upd) \<and> row_cook_id r = Some (cook_row_id cr))
                                                          (readings_tbl (w_db w))))\<rparr>)) \<and>
         row_id ` set (filter (\<lambda>r. row_id r \<in> set (Remove upd)) (readings_tbl (w_db w))) \<subseteq>
           row_id ` set (orphans (w_db (snd (serve e1 r1 w))))"
proof -
  let ?c = "cook_row_id cr"
  let ?rs = "set_cook_id (Remove upd) None (readings_tbl (w_db w))"
  let ?w1 = "w\<lparr>w_db := (w_db w)\<lparr>readings_tbl := ?rs\<rparr>\<rparr>"
  have lo: "int64_min \<le> ?c" using wf_cook_row_id_pos [OF assms(1,3)] .
  have put: "serve e1 r1 w = (Reply (jsonResponse (P_message ok_message)), ?w1)"
    using route_itoa(2) [OF lo assms(4,5,6)] path_id_itoa [OF lo assms(4)] assms(2,7-11)
          clear_cook_in_binds [OF assms(9)]
    by (simp add: serve_def updateCookReadings_def remove_then_ok_def db_unfold)
  have "wf_db (w_db ?w1)" using wf_serve [OF assms(1), of e1 r1] put by simp
  then have get: "serve e2 r2 ?w1 =
      (Reply (jsonResponse (P_cook \<lparr>cId = ?c, Created = cook_row_created cr, Description = cook_row_description cr,
         Readings = Some (map reading_of_row (readings_of (w_db ?w1) ?c))\<rparr>)), ?w1)"
    using fetch_cook [of ?w1 cr r2 e2 ms1 ms2] assms(2-4,12-16) by simp
  have "row_id ` set (filter (\<lambda>r. row_id r \<in> set (Remove upd)) (readings_tbl (w_db w))) \<subseteq>
        row_id ` set (orphans (w_db ?w1))"
  proof
    fix k assume "k \<in> row_id ` set (filter (\<lambda>r. row_id r \<in> set (Remove upd)) (readings_tbl (w_db w)))"
    then obtain r where r: "r \<in> set (readings_tbl (w_db w))" "row_id r \<in> set (Remove upd)" "k = row_id r" by auto
    then have "r\<lparr>row_cook_id := None\<rparr> \<in> set ?rs"
      unfolding set_cook_id_def by (force intro: rev_image_eqI)
    then have "r\<lparr>row_cook_id := None\<rparr> \<in> set (orphans (w_db ?w1))" by (simp add: orphans_def)
    then show "k \<in> row_id ` set (orphans (w_db ?w1))"
      using r(3) rev_image_eqI [of "r\<lparr>row_cook_id := None\<rparr>" _ k row_id] by simp
  qed
  then show ?thesis using put get by (simp add: readings_of_unassign)
qed

section \<open>Witnesses\<close>

theorem assign_then_fetch_witness:
  "wf_db (w_db sample_world) \<and> w_pool sample_world = Pool_live \<and>
   hd (cooks_tbl sample_db) \<in> set (cooks_tbl (w_db sample_world)) \<and> cook_row_id (hd (cooks_tbl sample_db)) \<le> int64_max \<and>
   rq_method (sample_request ''PUT'' (''/api/cook/'' @ itoa 1 @ ''/readings'') ''{}'') = ''PUT'' \<and>
   read_decode (dec_update (json (sample_env\<lparr>json := sample_decoder\<lparr>dec_update := \<lambda>b. Inr \<lparr>Add = [1, 3], Remove = []\<rparr>\<rparr>\<rparr>)))
     (sample_request ''PUT'' (''/api/cook/'' @ itoa 1 @ ''/readings'') ''{}'') = Inr \<lparr>Add = [1, 3], Remove = []\<rparr> \<and>
   fst (serve sample_env (sample_request ''GET'' (''/api/cook/'' @ itoa 1) [])
     (snd (serve (sample_env\<lparr>json := sample_decoder\<lparr>dec_update := \<lambda>b. Inr \<lparr>Add = [1, 3], Remove = []\<rparr>\<rparr>\<rparr>)
                 (sample_request ''PUT'' (''/api/cook/'' @ itoa 1 @ ''/readings'') ''{}'') sample_world))) =
     Reply (jsonResponse (P_cook \<lparr>cId = 1, Created = 50, Description = ''Brisket'',
                                 Readings = Some (map reading_of_row (readings_tbl sample_db))\<rparr>))"
proof -
  have h: "wf_db (w_db sample_world)" "w_pool sample_world = Pool_live"
    "hd (cooks_tbl sample_db) \<in> set (cooks_tbl (w_db sample_world))"
    "cook_row_id (hd (cooks_tbl sample_db)) \<le> int64_max"
    "rq_method (sample_request ''PUT'' (''/api/cook/'' @ itoa 1 @ ''/readings'') ''{}'') = ''PUT''"
    "rq_path (sample_request ''PUT'' (''/api/cook/'' @ itoa 1 @ ''/readings'') ''{}'') =
       ''/api/cook/'' @ itoa (cook_row_id (hd (cooks_tbl sample_db))) @ ''/readings''"
    "read_decode (dec_update (json (sample_env\<lparr>json := sample_decoder\<lparr>dec_update := \<lambda>b. Inr \<lparr>Add = [1, 3], Remove = []\<rparr>\<rparr>\<rparr>)))
       (sample_request ''PUT'' (''/api/cook/'' @ itoa 1 @ ''/readings'') ''{}'') = Inr \<lparr>Add = [1, 3], Remove = []\<rparr>"
    "Add \<lparr>Add = [1, 3::int], Remove = []\<rparr> \<noteq> []" "Remove \<lparr>Add = [1, 3::int], Remove = []\<rparr> = []"
    "link1 (sample_env\<lparr>json := sample_decoder\<lparr>dec_update := \<lambda>b. Inr \<lparr>Add = [1, 3], Remove = []\<rparr>\<rparr>\<rparr>) = Answers 5"
    "(5::nat) \<le> timeout_ms"
    "rq_method (sample_request ''GET'' (''/api/cook/'' @ itoa 1) []) = ''GET''"
    "rq_path (sample_request ''GET'' (''/api/cook/'' @ itoa 1) []) = ''/api/cook/'' @ itoa (cook_row_id (hd (cooks_tbl sample_db)))"
    "link1 sample_env = Answers 5" "link2 sample_env = Answers 5" "(5::nat) + 5 \<le> timeout_ms"
    using wf_sample_db
    by (simp_all add: sample_world_def sample_db_def sample_request_def read_decode_def sample_env_def
                      timeout_ms_def int64_max_def)
  show ?thesis using h assign_then_fetch [OF h]
    by (simp add: sample_world_def sample_db_def)
qed

theorem remove_then_fetch_witness:
  "wf_db (w_db sample_world) \<and> w_pool sample_world = Pool_live \<and>
   hd (cooks_tbl sample_db) \<in> set (cooks_tbl (w_db sample_world)) \<and>
   read_decode (dec_update (json (sample_env\<lparr>json := sample_decoder\<lparr>dec_update := \<lambda>b. Inr \<lparr>Add = [], Remove = [2]\<rparr>\<rparr>\<rparr>)))
     (sample_request ''PUT'' (''/api/cook/'' @ itoa 1 @ ''/readings'') ''{}'') = Inr \<lparr>Add = [], Remove = [2]\<rparr> \<and>
   fst (serve sample_env (sample_request ''GET'' (''/api/cook/'' @ itoa 1) [])
     (snd (serve (sample_env\<lparr>json := sample_decoder\<lparr>dec_update := \<lambda>b. Inr \<lparr>Add = [], Remove = [2]\<rparr>\<rparr>\<rparr>)
                 (sample_request ''PUT'' (''/api/cook/'' @ itoa 1 @ ''/readings'') ''{}'') sample_world))) =
     Reply (jsonResponse (P_cook \<lparr>cId = 1, Created = 50, Description = ''Brisket'', Readings = Some []\<rparr>)) \<and>
   2 \<in> row_id ` set (orphans (w_db (snd (serve (sample_env\<lparr>json := sample_decoder\<lparr>dec_update := \<lambda>b. Inr \<lparr>Add = [], Remove = [2]\<rparr>\<rparr>\<rparr>)
                 (sample_request ''PUT'' (''/api/cook/'' @ itoa 1 @ ''/readings'') ''{}'') sample_world))))"
proof -
  have h: "wf_db (w_db sample_world)" "w_pool sample_world = Pool_live"
    "hd (cooks_tbl sample_db) \<in> set (cooks_tbl (w_db sample_world))"
    "cook_row_id (hd (cooks_tbl sample_db)) \<le> int64_max"
    "rq_method (sample_request ''PUT'' (''/api/cook/'' @ itoa 1 @ ''/readings'') ''{}'') = ''PUT''"
    "rq_path (sample_request ''PUT'' (''/api/cook/'' @ itoa 1 @ ''/readings'') ''{}'') =
       ''/api/cook/'' @ itoa (cook_row_id (hd (cooks_tbl sample_db))) @ ''/readings''"
    "read_decode (dec_update (json (sample_env\<lparr>json := sample_decoder\<lparr>dec_update := \<lambda>b. Inr \<lparr>Add = [], Remove = [2]\<rparr>\<rparr>\<rparr>)))
       (sample_request ''PUT'' (''/api/cook/'' @ itoa 1 @ ''/readings'') ''{}'') = Inr \<lparr>Add = [], Remove = [2]\<rparr>"
    "Add \<lparr>Add = [], Remove = [2::int]\<rparr> = []" "Remove \<lparr>Add = [], Remove = [2::int]\<rparr> \<noteq> []"
    "link1 (sample_env\<lparr>json := sample_decoder\<lparr>dec_update := \<lambda>b. Inr \<lparr>Add = [], Remove = [2]\<rparr>\<rparr>\<rparr>) = Answers 5"
    "(5::nat) \<le> timeout_ms"
    "rq_method (sample_request ''GET'' (''/api/cook/'' @ itoa 1) []) = ''GET''"
    "rq_path (sample_request ''GET'' (''/api/cook/'' @ itoa 1) []) = ''/api/cook/'' @ itoa (cook_row_id (hd (cooks_tbl sample_db)))"
    "link1 sample_env = Answers 5" "link2 sample_env = Answers 5" "(5::nat) + 5 \<le> timeout_ms"
    using wf_sample_db
    by (simp_all add: sample_world_def sample_db_def sample_request_def read_decode_def sample_env_def
                      timeout_ms_def int64_max_def)
  have "2 \<in> row_id ` set (filter (\<lambda>r. row_id r \<in> set (Remove \<lparr>Add = [], Remove = [2::int]\<rparr>)) (readings_tbl (w_db sample_world)))"
    by (simp add: sample_world_def sample_db_def)
  then show ?thesis using h remove_then_fetch [OF h]
    by (auto simp: sample_world_def sample_db_def)
qed

end
